theory Spec2Isabelle
  imports Main
begin

section \<open>Shared helpers\<close>

text \<open>
  Strings are byte lists. The few non-ASCII symbols the sources print are written as
  their UTF-8 bytes.
\<close>

definition check_mark :: string where
  "check_mark = [CHR 0xE2, CHR 0x9C, CHR 0x93]"

definition cross_mark :: string where
  "cross_mark = [CHR 0xE2, CHR 0x9D, CHR 0x8C]"

definition digit_char :: "nat \<Rightarrow> char" where
  "digit_char d = char_of (48 + d)"

text \<open>Decimal rendering of a shell or JavaScript non-negative integer.\<close>

function decimal :: "nat \<Rightarrow> string" where
  "decimal n = (if n < 10 then [digit_char n] else decimal (n div 10) @ [digit_char (n mod 10)])"
  by pat_completeness auto
termination
  by (relation "measure id") auto

declare decimal.simps [simp del]

section \<open>Quality-assurance role definition (.github/agents/quality-assurance-subagent.agent.md)\<close>

subsection \<open>Metadata header\<close>

text \<open>
  Line 3 of the role file: the \<open>tools\<close> list of the YAML front matter, in file order.
\<close>

definition qa_tools :: "string list" where
  "qa_tools = [''runCommands'', ''edit'', ''search'', ''usages'', ''problems'', ''changes'',
     ''testFailure'', ''fetch'']"

text \<open>
  Line 4 of planning-subagent.agent.md, the other role file of the repository whose
  role is research only.
\<close>

definition planning_tools :: "string list" where
  "planning_tools = [''search'', ''usages'', ''problems'', ''changes'', ''testFailure'',
     ''fetch'', ''githubRepo'']"

text \<open>
  The capability that lets a role change files is the tool named \<open>edit\<close>
  (templates/README.md, line 180: \<open>'edit', # File editing\<close>).
\<close>

definition grants_file_editing :: "string list \<Rightarrow> bool" where
  "grants_file_editing tools = (''edit'' \<in> set tools)"

section \<open>Retrieval service startup script (.roo/local-rag-llamaindex/start.sh)\<close>

text \<open>
  The script's environment: the exit status of each external command it runs. The
  health probe (\<open>curl -s http://localhost:8000/health\<close>, line 41) is run once per loop
  round, with no time limit of its own: it exits with status 0, exits with another
  status, or never exits. \<open>health k\<close> is the outcome of the probe made when
  \<open>retry_count = k\<close>.
\<close>

datatype probe = Up | Down | Silent

record shell_env =
  docker_info_ok :: bool
  compose_available :: bool
  compose_up_status :: nat
  health :: "nat \<Rightarrow> probe"

datatype event =
    Echo string
  | Sleep nat
  | ComposeUp
  | Curl
  | EchoAccessHints

definition max_retries :: nat where
  "max_retries = 30"

text \<open>Line 46: the progress line printed after a failed probe.\<close>

definition waiting :: "nat \<Rightarrow> event" where
  "waiting retry_count =
     Echo (''  Waiting... ('' @ decimal retry_count @ ''/'' @ decimal max_retries @ '')'')"

text \<open>
  Lines 40 to 48: the poll loop. It returns the final \<open>retry_count\<close>, or \<open>None\<close> when
  a probe never exits and the loop stays in it, and the events of the loop in order,
  after the events \<open>out\<close> that came before.
\<close>

function poll :: "(nat \<Rightarrow> probe) \<Rightarrow> nat \<Rightarrow> event list \<Rightarrow> nat option \<times> event list" where
  "poll h retry_count out =
     (if retry_count < max_retries then
        (case h retry_count of
           Up \<Rightarrow> (Some retry_count, out @ [Curl, Echo (check_mark @ '' API is ready!'')])
         | Down \<Rightarrow>
             poll h (retry_count + 1)
               (out @ [Curl, waiting (retry_count + 1), Sleep 2])
         | Silent \<Rightarrow> (None, out @ [Curl]))
      else (Some retry_count, out))"
  by pat_completeness auto
termination
  by (relation "measure (\<lambda>(h, retry_count, out). max_retries - retry_count)") auto

declare poll.simps [simp del]

text \<open>Lines 4 to 5, 14 to 28 and 30 to 36: what the script prints and runs before the loop.\<close>

definition banner :: "event list" where
  "banner = [Echo ''Starting Copilot Orchestra RAG System...'', Echo '''']"

definition services_up :: "event list" where
  "services_up = banner @
     [Echo (check_mark @ '' Docker is running''),
      Echo (check_mark @ '' docker-compose is available''), Echo '''',
      Echo ''Starting services (this may take a few minutes on first run)...'',
      ComposeUp]"

definition before_poll :: "event list" where
  "before_poll = services_up @
     [Echo '''', Echo ''Waiting for services to be ready...'', Sleep 10,
      Echo '''', Echo ''Checking API health...'']"

text \<open>Lines 51 to 52: the diagnostic of a poll that gave up.\<close>

definition gave_up :: "event list" where
  "gave_up = [Echo (cross_mark @ '' API did not start in time''),
              Echo ''Check logs with: docker-compose logs'']"

text \<open>
  The whole script: the events it performs and its exit status, \<open>None\<close> when it never
  exits. \<open>set -e\<close> makes a failing \<open>docker-compose up -d\<close> end the script with that
  command's status; the probes stand in \<open>if\<close> conditions and do not. The leading
  pictographs of the banner lines are left out; lines 58 to 69 only print access hints
  and are one event.
\<close>

definition start_sh :: "shell_env \<Rightarrow> event list \<times> nat option" where
  "start_sh env =
     (if \<not> docker_info_ok env then
        (banner @ [Echo (cross_mark @ '' Error: Docker is not running''),
                   Echo ''Please start Docker and try again''], Some 1)
      else if \<not> compose_available env then
        (banner @ [Echo (check_mark @ '' Docker is running''),
                   Echo (cross_mark @ '' Error: docker-compose is not installed''),
                   Echo ''Please install docker-compose and try again''], Some 1)
      else if compose_up_status env \<noteq> 0 then (services_up, Some (compose_up_status env))
      else
        (case poll (health env) 0 before_poll of
           (None, out) \<Rightarrow> (out, None)
         | (Some retry_count, out) \<Rightarrow>
             if retry_count = max_retries then (out @ gave_up, Some 1)
             else (out @ [Echo '''', Echo ''RAG System is ready!'', EchoAccessHints], Some 0)))"

text \<open>Observations on a run: the probes made and the seconds slept.\<close>

definition probes :: "event list \<Rightarrow> nat" where
  "probes evs = length (filter (\<lambda>e. e = Curl) evs)"

fun sleep_seconds :: "event \<Rightarrow> nat" where
  "sleep_seconds (Sleep n) = n"
| "sleep_seconds _ = 0"

definition slept :: "event list \<Rightarrow> nat" where
  "slept evs = sum_list (map sleep_seconds evs)"

text \<open>
  One round of the loop that finds the service down at \<open>retry_count = k\<close> (lines 41 and
  45 to 47), and a service that answers no probe at all after refusing three.
\<close>

definition failed_round :: "nat \<Rightarrow> event list" where
  "failed_round k = [Curl, waiting (k + 1), Sleep 2]"

definition never_up :: shell_env where
  "never_up = \<lparr>docker_info_ok = True, compose_available = True, compose_up_status = 0,
                health = (\<lambda>k. Down)\<rparr>"

definition unresponsive :: shell_env where
  "unresponsive = \<lparr>docker_info_ok = True, compose_available = True, compose_up_status = 0,
                    health = (\<lambda>k. if k < 3 then Down else Silent)\<rparr>"

section \<open>JavaScript values, errors and the file system\<close>

text \<open>
  What \<open>JSON.parse\<close> returns. An object is the list of its properties in insertion
  order, with distinct keys. \<open>undefined\<close> is \<open>None\<close> of \<open>json option\<close>.
\<close>

datatype json =
    JNull
  | JBool bool
  | JNum int
  | JStr string
  | JArr "json list"
  | JObj "(string \<times> json) list"

datatype js_error =
    SyntaxError
  | TypeError
  | ENOENT
  | EISDIR
  | EEXIST
  | ENOTDIR
  | CommandFailed
  | Failed string

text \<open>
  A file holds either a JSON document, kept as the value \<open>JSON.parse\<close> gives for its
  text, or text that is not a JSON document. Paths are relative to the tool's root
  directory, with \<open>/\<close> between the parts as \<open>path.join\<close> puts it.
\<close>

datatype content = Text string | Json json

datatype node = Dir | File content

type_synonym fs = "string \<Rightarrow> node option"

definition existsSync :: "fs \<Rightarrow> string \<Rightarrow> bool" where
  "existsSync files p = (files p \<noteq> None)"

text \<open>\<open>JSON.parse(fs.readFileSync(p, 'utf8'))\<close>, with the three ways it throws.\<close>

definition read_json :: "fs \<Rightarrow> string \<Rightarrow> js_error + json" where
  "read_json files p =
     (case files p of
        None \<Rightarrow> Inl ENOENT
      | Some Dir \<Rightarrow> Inl EISDIR
      | Some (File (Text t)) \<Rightarrow> Inl SyntaxError
      | Some (File (Json j)) \<Rightarrow> Inr j)"

text \<open>
  Property access \<open>v.k\<close> for the keys the tools read (none of them is a built-in
  property): a \<open>TypeError\<close> on \<open>null\<close>, the property of an object, and
  \<open>undefined\<close> on every other value.
\<close>

fun get_prop :: "json \<Rightarrow> string \<Rightarrow> js_error + json option" where
  "get_prop JNull k = Inl TypeError"
| "get_prop (JObj kvs) k = Inr (map_of kvs k)"
| "get_prop v k = Inr None"

text \<open>Truthiness, as \<open>||\<close> and \<open>!\<close> test it.\<close>

fun truthy :: "json option \<Rightarrow> bool" where
  "truthy None = False"
| "truthy (Some JNull) = False"
| "truthy (Some (JBool b)) = b"
| "truthy (Some (JNum n)) = (n \<noteq> 0)"
| "truthy (Some (JStr s)) = (s \<noteq> [])"
| "truthy (Some (JArr xs)) = True"
| "truthy (Some (JObj kvs)) = True"

text \<open>\<open>a || b\<close> where \<open>b\<close> is a value.\<close>

definition or_else :: "json option \<Rightarrow> json \<Rightarrow> json" where
  "or_else a b = (if truthy a then the a else b)"

section \<open>Blueprint generator (tools/blueprint-generator.js)\<close>

record project_info =
  info_name :: json
  info_version :: json
  info_description :: "json option"
  info_type :: string
  info_language :: string

text \<open>
  \<open>analyzeProjectInfo\<close>, lines 70 to 115. \<open>base\<close> is \<open>path.basename(this.rootDir)\<close>.
  The result is the new \<open>this.projectInfo\<close>, or the error the method throws.
\<close>

definition analyzeProjectInfo :: "string \<Rightarrow> fs \<Rightarrow> js_error + project_info" where
  "analyzeProjectInfo base files =
     (if existsSync files ''package.json'' then
        (case read_json files ''package.json'' of
           Inl e \<Rightarrow> Inl e
         | Inr pkg \<Rightarrow>
             (case get_prop pkg ''name'' of
                Inl e \<Rightarrow> Inl e
              | Inr name \<Rightarrow>
                  (case get_prop pkg ''version'' of
                     Inl e \<Rightarrow> Inl e
                   | Inr version \<Rightarrow>
                       (case get_prop pkg ''description'' of
                          Inl e \<Rightarrow> Inl e
                        | Inr description \<Rightarrow>
                            Inr \<lparr>info_name = or_else name (JStr ''Unknown Project''),
                                 info_version = or_else version (JStr ''1.0.0''),
                                 info_description = Some (or_else description (JStr [])),
                                 info_type = ''Node.js/JavaScript'',
                                 info_language = ''JavaScript/TypeScript''\<rparr>))))
      else if existsSync files ''requirements.txt'' then
        Inr \<lparr>info_name = JStr base, info_version = JStr ''1.0.0'', info_description = None,
             info_type = ''Python'', info_language = ''Python''\<rparr>
      else if existsSync files ''pom.xml'' then
        Inr \<lparr>info_name = JStr base, info_version = JStr ''1.0.0'', info_description = None,
             info_type = ''Java/Maven'', info_language = ''Java''\<rparr>
      else if existsSync files ''composer.json'' then
        (case read_json files ''composer.json'' of
           Inl e \<Rightarrow> Inl e
         | Inr composer \<Rightarrow>
             (case get_prop composer ''name'' of
                Inl e \<Rightarrow> Inl e
              | Inr name \<Rightarrow>
                  (case get_prop composer ''version'' of
                     Inl e \<Rightarrow> Inl e
                   | Inr version \<Rightarrow>
                       Inr \<lparr>info_name = or_else name (JStr base),
                            info_version = or_else version (JStr ''1.0.0''),
                            info_description = None,
                            info_type = ''PHP'', info_language = ''PHP''\<rparr>)))
      else
        Inr \<lparr>info_name = JStr base, info_version = JStr ''1.0.0'', info_description = None,
             info_type = ''Unknown'', info_language = ''Unknown''\<rparr>)"

text \<open>What a run reports as the project's type and language, when detection returns.\<close>

definition reported_identity :: "string \<Rightarrow> fs \<Rightarrow> (string \<times> string) option" where
  "reported_identity base files =
     (case analyzeProjectInfo base files of
        Inl e \<Rightarrow> None
      | Inr info \<Rightarrow> Some (info_type info, info_language info))"

section \<open>Project initialization wizard (tools/project-init.js)\<close>

subsection \<open>JavaScript strings and \<open>parseInt\<close>\<close>

text \<open>
  An answer is a list of characters with codes 0 to 255. In that range the white space
  of \<open>\s\<close>, \<open>trim\<close> and \<open>parseInt\<close> is TAB, LF, VT, FF, CR, SP and NBSP, and the line
  terminators that \<open>.\<close> does not match are LF and CR.
\<close>

definition is_space :: "char \<Rightarrow> bool" where
  "is_space c = (c \<in> set [CHR 0x09, CHR 0x0A, CHR 0x0B, CHR 0x0C, CHR 0x0D, CHR 0x20, CHR 0xA0])"

definition is_line_terminator :: "char \<Rightarrow> bool" where
  "is_line_terminator c = (c = CHR 0x0A \<or> c = CHR 0x0D)"

definition trim :: "string \<Rightarrow> string" where
  "trim s = rev (dropWhile is_space (rev (dropWhile is_space s)))"

text \<open>
  \<open>toUpperCase\<close> and \<open>toLowerCase\<close> on the letters A to Z; the wizard compares their
  results with ASCII words only, and no other character of the range maps to an ASCII
  letter.
\<close>

definition between :: "char \<Rightarrow> char \<Rightarrow> char \<Rightarrow> bool" where
  "between lo hi c = ((of_char lo :: nat) \<le> of_char c \<and> (of_char c :: nat) \<le> of_char hi)"

definition to_upper :: "char \<Rightarrow> char" where
  "to_upper c = (if between CHR ''a'' CHR ''z'' c then char_of (of_char c - 32 :: nat) else c)"

definition to_lower :: "char \<Rightarrow> char" where
  "to_lower c = (if between CHR ''A'' CHR ''Z'' c then char_of (of_char c + 32 :: nat) else c)"

definition toUpperCase :: "string \<Rightarrow> string" where
  "toUpperCase s = map to_upper s"

definition toLowerCase :: "string \<Rightarrow> string" where
  "toLowerCase s = map to_lower s"

text \<open>\<open>s.split(c)\<close> for a one-character separator: the empty string gives one empty part.\<close>

fun split_on :: "char \<Rightarrow> string \<Rightarrow> string list" where
  "split_on c [] = [[]]"
| "split_on c (x # xs) =
     (if x = c then [] # split_on c xs
      else (case split_on c xs of [] \<Rightarrow> [[x]] | y # ys \<Rightarrow> (x # y) # ys))"

text \<open>The value of a character as a digit, for radix 10 or 16.\<close>

definition digit_value :: "char \<Rightarrow> nat option" where
  "digit_value c =
     (if between CHR ''0'' CHR ''9'' c then Some (of_char c - 48)
      else if between CHR ''a'' CHR ''z'' c then Some (of_char c - 87)
      else if between CHR ''A'' CHR ''Z'' c then Some (of_char c - 55)
      else None)"

definition is_digit :: "nat \<Rightarrow> char \<Rightarrow> bool" where
  "is_digit radix c = (case digit_value c of None \<Rightarrow> False | Some d \<Rightarrow> d < radix)"

text \<open>
  \<open>parseInt(s)\<close> with no radix argument: leading white space is skipped, a sign is
  read, \<open>0x\<close> or \<open>0X\<close> selects radix 16, and the longest run of digits is the number;
  \<open>None\<close> is \<open>NaN\<close>. The number is kept exact: where a double would round it, it is
  far beyond every menu of the wizard.
\<close>

definition parseInt :: "string \<Rightarrow> int option" where
  "parseInt s =
     (let s1 = dropWhile is_space s;
          negative = (case s1 of [] \<Rightarrow> False | c # r \<Rightarrow> c = CHR ''-'');
          s2 = (case s1 of [] \<Rightarrow> [] | c # r \<Rightarrow> if c = CHR ''-'' \<or> c = CHR ''+'' then r else s1);
          hex = (case s2 of c # x # r \<Rightarrow> c = CHR ''0'' \<and> (x = CHR ''x'' \<or> x = CHR ''X'') | _ \<Rightarrow> False);
          radix = (if hex then 16 else 10);
          s3 = (if hex then drop 2 s2 else s2);
          ds = takeWhile (is_digit radix) s3;
          n = foldl (\<lambda>a c. a * radix + the (digit_value c)) 0 ds
      in if ds = [] then None
         else Some (if negative then - int n else int n))"

text \<open>
  \<open>options[parseInt(answer) - 1]\<close>: the element, or \<open>None\<close> for \<open>undefined\<close>.
\<close>

definition pick :: "'a list \<Rightarrow> string \<Rightarrow> 'a option" where
  "pick options answer =
     (case parseInt answer of
        None \<Rightarrow> None
      | Some n \<Rightarrow> if 1 \<le> n \<and> n \<le> int (length options) then Some (options ! nat (n - 1)) else None)"

text \<open>
  \<open>options[parseInt(answer) - 1] || dflt\<close>. Every element of the wizard's tables is
  truthy (a non-empty string, or an array), so the default stands in exactly when the
  element is \<open>undefined\<close>.
\<close>

definition menu :: "'a list \<Rightarrow> 'a \<Rightarrow> string \<Rightarrow> 'a" where
  "menu options dflt answer = (case pick options answer of None \<Rightarrow> dflt | Some v \<Rightarrow> v)"

subsection \<open>The two line formats\<close>

text \<open>
  A greedy quantifier over a character class, with backtracking: the continuation \<open>k\<close>
  gets the part matched and the rest, for the longest run first and then each shorter
  one down to \<open>lo\<close> characters.
\<close>

definition first_some :: "'a option list \<Rightarrow> 'a option" where
  "first_some xs = (case filter (\<lambda>x. x \<noteq> None) xs of [] \<Rightarrow> None | x # r \<Rightarrow> x)"

definition greedy :: "(char \<Rightarrow> bool) \<Rightarrow> nat \<Rightarrow> string \<Rightarrow> (string \<Rightarrow> string \<Rightarrow> 'a option) \<Rightarrow> 'a option" where
  "greedy P lo s k =
     first_some (map (\<lambda>n. k (take n s) (drop n s)) (rev [lo ..< Suc (length (takeWhile P s))]))"

text \<open>A literal character.\<close>

definition lit :: "char \<Rightarrow> string \<Rightarrow> (string \<Rightarrow> 'a option) \<Rightarrow> 'a option" where
  "lit c s k = (case s of [] \<Rightarrow> None | x # r \<Rightarrow> if x = c then k r else None)"

text \<open>\<open>(.+)$\<close>: at least one character up to the end of the line, none a line terminator.\<close>

definition rest_of_line :: "string \<Rightarrow> string option" where
  "rest_of_line s =
     greedy (\<lambda>c. \<not> is_line_terminator c) 1 s (\<lambda>d r. if r = [] then Some d else None)"

record endpoint =
  ep_method :: string
  ep_path :: string
  ep_description :: string

definition http_methods :: "string list" where
  "http_methods = [''GET'', ''POST'', ''PUT'', ''PATCH'', ''DELETE'']"

text \<open>
  Line 215: \<open>/^(GET|POST|PUT|PATCH|DELETE)\s+(\/[^\s]*)\s*-\s*(.+)$/i\<close>. First what
  follows the method name, \<open>\s+(\/[^\s]*)\s*-\s*(.+)$\<close>, with its two groups.
\<close>

definition endpoint_tail :: "string \<Rightarrow> (string \<times> string) option" where
  "endpoint_tail s =
     greedy is_space 1 s (\<lambda>ws1 s1.
       lit CHR ''/'' s1 (\<lambda>s2.
         greedy (\<lambda>c. \<not> is_space c) 0 s2 (\<lambda>p s3.
           greedy is_space 0 s3 (\<lambda>ws2 s4.
             lit CHR ''-'' s4 (\<lambda>s5.
               greedy is_space 0 s5 (\<lambda>ws3 s6.
                 (case rest_of_line s6 of
                    None \<Rightarrow> None
                  | Some d \<Rightarrow> Some (CHR ''/'' # p, d))))))))"

text \<open>
  The whole expression: the alternatives are tried in order, each against the first
  characters of the line without regard to case. The result is the three groups
  \<open>match[1]\<close>, \<open>match[2]\<close>, \<open>match[3]\<close>.
\<close>

definition endpoint_regex :: "string \<Rightarrow> (string \<times> string \<times> string) option" where
  "endpoint_regex s =
     first_some (map (\<lambda>m.
         if length m \<le> length s \<and> toUpperCase (take (length m) s) = m then
           (case endpoint_tail (drop (length m) s) of
              None \<Rightarrow> None
            | Some (p, d) \<Rightarrow> Some (take (length m) s, p, d))
         else None) http_methods)"

text \<open>Lines 216 to 221: the record pushed for a matching line.\<close>

definition endpoint_of :: "string \<Rightarrow> endpoint option" where
  "endpoint_of line =
     (case endpoint_regex line of
        None \<Rightarrow> None
      | Some (m1, m2, m3) \<Rightarrow>
          Some \<lparr>ep_method = toUpperCase m1, ep_path = m2, ep_description = m3\<rparr>)"

record env_var =
  var_name :: string
  var_description :: string

text \<open>Line 373: \<open>/^([A-Z_]+)\s*-\s*(.+)$/\<close>.\<close>

definition env_var_regex :: "string \<Rightarrow> (string \<times> string) option" where
  "env_var_regex s =
     greedy (\<lambda>c. (between CHR ''A'' CHR ''Z'' c) \<or> c = CHR ''_'') 1 s (\<lambda>n s1.
       greedy is_space 0 s1 (\<lambda>ws1 s2.
         lit CHR ''-'' s2 (\<lambda>s3.
           greedy is_space 0 s3 (\<lambda>ws2 s4.
             (case rest_of_line s4 of None \<Rightarrow> None | Some d \<Rightarrow> Some (n, d))))))"

definition env_var_of :: "string \<Rightarrow> env_var option" where
  "env_var_of line =
     (case env_var_regex line of
        None \<Rightarrow> None
      | Some (m1, m2) \<Rightarrow> Some \<lparr>var_name = m1, var_description = m2\<rparr>)"

subsection \<open>Asking the operator\<close>

text \<open>
  The operator's answers are the lines of standard input, in order. A question takes
  the next line. When no line is left the question is never answered and the wizard
  does not go on: the result is \<open>None\<close>. What the wizard prints is not modelled.
\<close>

type_synonym 'a ask = "string list \<Rightarrow> ('a \<times> string list) option"

definition prompt :: "string ask" where
  "prompt answers = (case answers of [] \<Rightarrow> None | a # rest \<Rightarrow> Some (a, rest))"

definition give :: "'a \<Rightarrow> 'a ask" where
  "give v answers = Some (v, answers)"

definition then_ask :: "'a ask \<Rightarrow> ('a \<Rightarrow> 'b ask) \<Rightarrow> 'b ask" where
  "then_ask q k answers = (case q answers of None \<Rightarrow> None | Some (v, rest) \<Rightarrow> k v rest)"

text \<open>Lines 1088 to 1091.\<close>

definition confirm :: "bool ask" where
  "confirm = then_ask prompt (\<lambda>answer.
     give (toLowerCase answer = ''y'' \<or> toLowerCase answer = ''yes''))"

text \<open>\<open>x ? x.split(',').map(c => c.trim()) : []\<close>.\<close>

definition comma_list :: "string \<Rightarrow> string list" where
  "comma_list x = (if x = [] then [] else map trim (split_on CHR '','' x))"

subsection \<open>The configuration\<close>

text \<open>
  \<open>this.config\<close>, one record per section. A property that a step may leave
  \<open>undefined\<close> is an \<open>option\<close>.
\<close>

record project =
  project_name :: string
  project_description :: string
  project_type :: string
  project_language :: string
  project_frontend :: "string option"

record architecture =
  arch_pattern :: string
  arch_components :: "string list"
  arch_cache :: "string option"
  arch_messageQueue :: "string option"
  arch_requiresAuth :: "bool option"
  arch_rateLimit :: "bool option"
  arch_apiVersioning :: "bool option"

record database =
  db_type :: string
  db_entities :: "string list option"
  db_migrations :: "bool option"
  db_seeding :: "bool option"

record authentication =
  auth_type :: string
  auth_socialLogin :: "bool option"
  auth_rbac :: "bool option"
  auth_roles :: "string list option"

record deployment =
  deploy_targets :: "string list"
  deploy_cicd :: "string option"
  deploy_docker :: bool

record environment =
  env_variables :: "env_var list"
  env_environments :: "string list"

record config =
  cfg_project :: project
  cfg_architecture :: architecture
  cfg_apis :: "endpoint list"
  cfg_database :: database
  cfg_authentication :: authentication
  cfg_deployment :: deployment
  cfg_environment :: environment

subsection \<open>The seven steps\<close>

definition types :: "string list" where
  "types = [''web-app'', ''rest-api'', ''graphql-api'', ''cli-tool'', ''microservice'',
     ''library'', ''mobile-backend'', ''other'']"

definition languages :: "string list" where
  "languages = [''nodejs'', ''python'', ''java'', ''go'', ''ruby'', ''dotnet'', ''php'', ''other'']"

definition frameworks :: "string list" where
  "frameworks = [''react'', ''vue'', ''angular'', ''nextjs'', ''svelte'', ''none'']"

text \<open>
  \<open>gatherProjectInfo\<close>, lines 87 to 141. \<open>arg\<close> is the command-line argument
  \<open>process.argv[2]\<close>; the name is asked for when it is absent or empty.
\<close>

definition gatherProjectInfo :: "string option \<Rightarrow> project ask" where
  "gatherProjectInfo arg =
     then_ask (case arg of None \<Rightarrow> prompt | Some n \<Rightarrow> if n = [] then prompt else give n) (\<lambda>name.
     then_ask prompt (\<lambda>description.
     then_ask prompt (\<lambda>typeChoice.
     then_ask prompt (\<lambda>langChoice.
     then_ask (if menu types ''other'' typeChoice = ''web-app''
               then then_ask prompt (\<lambda>frontendChoice.
                      give (Some (menu frameworks ''none'' frontendChoice)))
               else give None) (\<lambda>frontend.
     give \<lparr>project_name = name, project_description = description,
            project_type = menu types ''other'' typeChoice,
            project_language = menu languages ''other'' langChoice,
            project_frontend = frontend\<rparr>)))))"

definition patterns :: "string list" where
  "patterns = [''monolithic'', ''microservices'', ''serverless'', ''layered'', ''event-driven'',
     ''cqrs'']"

definition caches :: "string list" where
  "caches = [''redis'', ''memcached'', ''in-memory'', ''cdn'']"

definition queues :: "string list" where
  "queues = [''rabbitmq'', ''kafka'', ''aws-sqs'', ''redis-queue'', ''other'']"

text \<open>\<open>defineArchitecture\<close>, lines 143 to 191.\<close>

definition defineArchitecture :: "architecture ask" where
  "defineArchitecture =
     then_ask prompt (\<lambda>archChoice.
     then_ask prompt (\<lambda>components.
     then_ask confirm (\<lambda>hasCache.
     then_ask (if hasCache
               then then_ask prompt (\<lambda>cacheChoice. give (Some (menu caches ''redis'' cacheChoice)))
               else give None) (\<lambda>cache.
     then_ask confirm (\<lambda>hasQueue.
     then_ask (if hasQueue
               then then_ask prompt (\<lambda>queueChoice. give (Some (menu queues ''rabbitmq'' queueChoice)))
               else give None) (\<lambda>messageQueue.
     give \<lparr>arch_pattern = menu patterns ''layered'' archChoice,
            arch_components = comma_list components,
            arch_cache = cache, arch_messageQueue = messageQueue,
            arch_requiresAuth = None, arch_rateLimit = None, arch_apiVersioning = None\<rparr>))))))"

text \<open>
  Lines 211 to 225: the endpoint loop. Each round reads one answer; the empty answer
  ends the loop, a line of the format adds a record, any other line adds nothing.
\<close>

fun endpoint_loop :: "endpoint list \<Rightarrow> endpoint list ask" where
  "endpoint_loop apis [] = None"
| "endpoint_loop apis (endpoint # rest) =
     (if endpoint = [] then Some (apis, rest)
      else endpoint_loop (case endpoint_of endpoint of None \<Rightarrow> apis | Some e \<Rightarrow> apis @ [e]) rest)"

text \<open>
  \<open>defineAPIs\<close>, lines 193 to 239: the new \<open>config.apis\<close> and \<open>config.architecture\<close>.
\<close>

definition defineAPIs :: "project \<Rightarrow> architecture \<Rightarrow> (endpoint list \<times> architecture) ask" where
  "defineAPIs proj arch =
     (if project_type proj = ''cli-tool'' \<or> project_type proj = ''library'' then give ([], arch)
      else
        then_ask confirm (\<lambda>hasAPI.
          if \<not> hasAPI then give ([], arch)
          else
            then_ask (endpoint_loop []) (\<lambda>apis.
              if length apis > 0 then
                then_ask confirm (\<lambda>hasAuth.
                then_ask confirm (\<lambda>hasRateLimit.
                then_ask confirm (\<lambda>hasVersioning.
                give (apis, arch\<lparr>arch_requiresAuth := Some hasAuth,
                                  arch_rateLimit := Some hasRateLimit,
                                  arch_apiVersioning := Some hasVersioning\<rparr>))))
              else give (apis, arch))))"

definition databases :: "string list" where
  "databases = [''postgresql'', ''mysql'', ''mongodb'', ''sqlite'', ''redis'', ''dynamodb'',
     ''cassandra'', ''multiple'']"

text \<open>\<open>defineDatabaseRequirements\<close>, lines 241 to 279.\<close>

definition defineDatabaseRequirements :: "database ask" where
  "defineDatabaseRequirements =
     then_ask confirm (\<lambda>needsDB.
       if \<not> needsDB then
         give \<lparr>db_type = ''none'', db_entities = None, db_migrations = None, db_seeding = None\<rparr>
       else
         then_ask prompt (\<lambda>dbChoice.
           if menu databases ''postgresql'' dbChoice \<noteq> ''none'' then
             then_ask prompt (\<lambda>entities.
             then_ask confirm (\<lambda>needsMigrations.
             then_ask confirm (\<lambda>needsSeeding.
             give \<lparr>db_type = menu databases ''postgresql'' dbChoice,
                    db_entities = Some (comma_list entities),
                    db_migrations = Some needsMigrations,
                    db_seeding = Some needsSeeding\<rparr>)))
           else
             give \<lparr>db_type = menu databases ''postgresql'' dbChoice, db_entities = None,
                    db_migrations = None, db_seeding = None\<rparr>))"

definition authTypes :: "string list" where
  "authTypes = [''jwt'', ''oauth2'', ''session'', ''api-key'', ''saml'', ''multiple'']"

text \<open>\<open>defineAuthentication\<close>, lines 281 to 317.\<close>

definition defineAuthentication :: "authentication ask" where
  "defineAuthentication =
     then_ask confirm (\<lambda>needsAuth.
       if \<not> needsAuth then
         give \<lparr>auth_type = ''none'', auth_socialLogin = None, auth_rbac = None, auth_roles = None\<rparr>
       else
         then_ask prompt (\<lambda>authChoice.
         then_ask confirm (\<lambda>needsOAuthProvider.
         then_ask confirm (\<lambda>needsRBAC.
         then_ask (if needsRBAC
                   then then_ask prompt (\<lambda>roles.
                          give (Some (if roles = [] then [''admin'', ''user'']
                                      else map trim (split_on CHR '','' roles))))
                   else give None) (\<lambda>roles.
         give \<lparr>auth_type = menu authTypes ''jwt'' authChoice,
                auth_socialLogin = Some needsOAuthProvider,
                auth_rbac = Some needsRBAC,
                auth_roles = roles\<rparr>)))))"

definition deployTargets :: "string list" where
  "deployTargets = [''docker'', ''kubernetes'', ''aws'', ''azure'', ''gcp'', ''heroku'', ''vercel'',
     ''traditional'']"

definition ciPlatforms :: "string list" where
  "ciPlatforms = [''github-actions'', ''gitlab-ci'', ''jenkins'', ''circleci'', ''travis'']"

text \<open>
  \<open>defineDeploymentTargets\<close>, lines 319 to 359. An entry of the comma-separated
  answer that selects no target is dropped (\<open>filter(Boolean)\<close>).
\<close>

definition defineDeploymentTargets :: "deployment ask" where
  "defineDeploymentTargets =
     then_ask prompt (\<lambda>deployChoice.
     then_ask confirm (\<lambda>needsCI.
     then_ask (if needsCI
               then then_ask prompt (\<lambda>ciChoice.
                      give (Some (menu ciPlatforms ''github-actions'' ciChoice)))
               else give None) (\<lambda>cicd.
     give \<lparr>deploy_targets =
              List.map_filter (\<lambda>c. pick deployTargets (trim c)) (split_on CHR '','' deployChoice),
            deploy_cicd = cicd,
            deploy_docker =
              (''docker'' \<in> set (List.map_filter (\<lambda>c. pick deployTargets (trim c))
                                   (split_on CHR '','' deployChoice))
               \<or> ''kubernetes'' \<in> set (List.map_filter (\<lambda>c. pick deployTargets (trim c))
                                   (split_on CHR '','' deployChoice)))\<rparr>)))"

text \<open>Lines 369 to 382: the variable loop, of the same shape as the endpoint loop.\<close>

fun env_var_loop :: "env_var list \<Rightarrow> env_var list ask" where
  "env_var_loop envVars [] = None"
| "env_var_loop envVars (envVar # rest) =
     (if envVar = [] then Some (envVars, rest)
      else env_var_loop (case env_var_of envVar of None \<Rightarrow> envVars | Some v \<Rightarrow> envVars @ [v]) rest)"

definition envSetups :: "string list list" where
  "envSetups = [[''development'', ''staging'', ''production''], [''development'', ''production''],
     [''development''], []]"

text \<open>\<open>defineEnvironment\<close>, lines 361 to 402.\<close>

definition defineEnvironment :: "environment ask" where
  "defineEnvironment =
     then_ask (env_var_loop []) (\<lambda>envVars.
     then_ask prompt (\<lambda>envChoice.
     give \<lparr>env_variables = envVars,
            env_environments = menu envSetups [''development'', ''production''] envChoice\<rparr>))"

text \<open>
  Lines 59 to 68 of \<open>run\<close>: the seven steps in order, then the final confirmation
  (\<open>reviewConfiguration\<close> only prints). The result is the configuration and whether the
  operator confirmed.
\<close>

definition interview :: "string option \<Rightarrow> (config \<times> bool) ask" where
  "interview arg =
     then_ask (gatherProjectInfo arg) (\<lambda>proj.
     then_ask defineArchitecture (\<lambda>arch.
     then_ask (defineAPIs proj arch) (\<lambda>(apis, arch').
     then_ask defineDatabaseRequirements (\<lambda>db.
     then_ask defineAuthentication (\<lambda>auth.
     then_ask defineDeploymentTargets (\<lambda>deploy.
     then_ask defineEnvironment (\<lambda>env.
     then_ask confirm (\<lambda>confirmed.
     give (\<lparr>cfg_project = proj, cfg_architecture = arch', cfg_apis = apis, cfg_database = db,
             cfg_authentication = auth, cfg_deployment = deploy, cfg_environment = env\<rparr>,
           confirmed)))))))))"

subsection \<open>What a confirmed session writes\<close>

definition sq :: string where
  "sq = [CHR 0x27]"

definition dq :: string where
  "dq = [CHR 0x22]"

definition nl :: string where
  "nl = [CHR 0x0A]"

text \<open>\<open>lines.join('\n')\<close>.\<close>

fun join_lines :: "string list \<Rightarrow> string" where
  "join_lines [] = []"
| "join_lines [l] = l"
| "join_lines (l # ls) = l @ nl @ join_lines ls"

text \<open>
  Paths. The wizard runs under POSIX: a path is the list of its names from the root
  \<open>/\<close> down, and the root is the empty list. \<open>path.join(dir, rel)\<close> normalises: of the
  parts of \<open>rel\<close> between slashes, an empty part and \<open>.\<close> are dropped, and \<open>..\<close> drops
  the name before it (at the root, nothing). \<open>dir\<close> is a path that is already normal,
  as \<open>process.cwd()\<close> and every result of \<open>path.join\<close> are.
\<close>

type_synonym path = "string list"

definition segments :: "string \<Rightarrow> string list" where
  "segments rel = filter (\<lambda>part. part \<noteq> []) (split_on CHR ''/'' rel)"

fun resolve :: "path \<Rightarrow> string list \<Rightarrow> path" where
  "resolve dir [] = dir"
| "resolve dir (part # parts) =
     (if part = ''.'' then resolve dir parts
      else if part = ''..'' then resolve (butlast dir) parts
      else resolve (dir @ [part]) parts)"

definition join_dir :: "path \<Rightarrow> string \<Rightarrow> path" where
  "join_dir dir rel = resolve dir (segments rel)"

text \<open>
  Lines 31 and 92: \<open>this.projectDir\<close> is \<open>path.join(process.cwd(), this.projectName)\<close>,
  and \<open>process.cwd()\<close> itself when the name is empty, which is the same path.
\<close>

definition projectDir :: "path \<Rightarrow> config \<Rightarrow> path" where
  "projectDir cwd cfg = join_dir cwd (project_name (cfg_project cfg))"

text \<open>
  The file system calls of a confirmed session, in the order the wizard makes them.
  \<open>MkdirIfMissing\<close> is \<open>mkdirSync\<close> (recursive) behind an \<open>existsSync\<close> test, \<open>Mkdir\<close> is
  \<open>mkdirSync\<close> (recursive) alone, \<open>WriteFile\<close> is \<open>writeFileSync\<close>. The texts of
  \<open>PROJECT-BLUEPRINT.md\<close> and the wizard's \<open>README.md\<close> are long templates that no
  property below reads; the model writes them as \<open>Rendered\<close> documents, named by the
  method that renders them.
\<close>

datatype document = Plain string | Rendered string

datatype fs_call =
    MkdirIfMissing path
  | Mkdir path
  | WriteFile path document

text \<open>\<open>createProjectStructure\<close>, lines 460 to 500; \<open>dirs\<close> is its list of that name.\<close>

definition dirs :: "config \<Rightarrow> string list" where
  "dirs cfg =
     [''src'', ''tests'', ''docs'', ''config'', ''.github/workflows'']
     @ (if project_language (cfg_project cfg) = ''nodejs'' then
          [''src/controllers'', ''src/models'', ''src/routes'', ''src/middleware'', ''src/utils'']
        else if project_language (cfg_project cfg) = ''python'' then
          [''src/api'', ''src/models'', ''src/services'', ''src/utils'']
        else [])
     @ (if arch_pattern (cfg_architecture cfg) = ''microservices'' then
          map (\<lambda>component. ''services/'' @ component) (arch_components (cfg_architecture cfg))
        else [])"

definition createProjectStructure :: "path \<Rightarrow> config \<Rightarrow> fs_call list" where
  "createProjectStructure dir cfg =
     MkdirIfMissing dir # map (\<lambda>d. MkdirIfMissing (join_dir dir d)) (dirs cfg)"

text \<open>\<open>generateBlueprint\<close>, lines 502 to 509.\<close>

definition generateBlueprint :: "path \<Rightarrow> config \<Rightarrow> fs_call list" where
  "generateBlueprint dir cfg =
     [WriteFile (join_dir dir ''PROJECT-BLUEPRINT.md'') (Rendered ''createBlueprintContent'')]"

text \<open>\<open>generateGitignore\<close>, lines 756 to 790.\<close>

definition generateGitignore :: "path \<Rightarrow> fs_call list" where
  "generateGitignore dir =
     [WriteFile (join_dir dir ''.gitignore'') (Plain (join_lines
       [''# Dependencies'',
        ''node_modules/'',
        ''vendor/'',
        ''__pycache__/'',
        ''*.pyc'',
        [],
        ''# Environment'',
        ''.env'',
        ''.env.local'',
        ''.env.*.local'',
        [],
        ''# Build outputs'',
        ''dist/'',
        ''build/'',
        ''*.log'',
        [],
        ''# IDE'',
        ''.vscode/'',
        ''.idea/'',
        ''*.swp'',
        ''*.swo'',
        [],
        ''# OS'',
        ''.DS_Store'',
        ''Thumbs.db'']))]"

text \<open>\<open>generateReadme\<close>, lines 792 to 885.\<close>

definition generateReadme :: "path \<Rightarrow> config \<Rightarrow> fs_call list" where
  "generateReadme dir cfg = [WriteFile (join_dir dir ''README.md'') (Rendered ''generateReadme'')]"

text \<open>\<open>generateEnvTemplate\<close>, lines 887 to 903.\<close>

fun join_blank :: "string list \<Rightarrow> string" where
  "join_blank [] = []"
| "join_blank [b] = b"
| "join_blank (b # bs) = b @ nl @ nl @ join_blank bs"

definition generateEnvTemplate :: "path \<Rightarrow> config \<Rightarrow> fs_call list" where
  "generateEnvTemplate dir cfg =
     [WriteFile (join_dir dir ''.env.example'') (Plain (join_lines
       [''# Environment Configuration'',
        ''# Copy this file to .env and fill in the values'',
        [],
        join_blank (map (\<lambda>v. ''# '' @ var_description v @ nl @ var_name v @ ''='')
                      (env_variables (cfg_environment cfg))),
        []]))]"

text \<open>
  \<open>generateDockerfiles\<close>, lines 905 to 982. The text of the Dockerfile is empty for
  every language but \<open>nodejs\<close> and \<open>python\<close>, and an empty text is not written.
\<close>

definition dockerfile :: "config \<Rightarrow> string" where
  "dockerfile cfg =
     (if project_language (cfg_project cfg) = ''nodejs'' then
        join_lines
          [''FROM node:18-alpine'',
           [],
           ''WORKDIR /app'',
           [],
           ''COPY package*.json ./'',
           ''RUN npm ci --only=production'',
           [],
           ''COPY . .'',
           [],
           ''EXPOSE 3000'',
           [],
           ''CMD ['' @ dq @ ''npm'' @ dq @ '', '' @ dq @ ''start'' @ dq @ '']'',
           []]
      else if project_language (cfg_project cfg) = ''python'' then
        join_lines
          [''FROM python:3.11-slim'',
           [],
           ''WORKDIR /app'',
           [],
           ''COPY requirements.txt .'',
           ''RUN pip install --no-cache-dir -r requirements.txt'',
           [],
           ''COPY . .'',
           [],
           ''EXPOSE 8000'',
           [],
           ''CMD ['' @ dq @ ''python'' @ dq @ '', '' @ dq @ ''app.py'' @ dq @ '']'',
           []]
      else [])"

text \<open>Lines 948 to 975, line by line: the \<open>app\<close> service, then the \<open>db\<close> service if any.\<close>

definition compose_app :: "string list" where
  "compose_app =
     [''version: '' @ sq @ ''3.8'' @ sq,
      [],
      ''services:'',
      ''  app:'',
      ''    build: .'',
      ''    ports:'',
      ''      - '' @ dq @ ''3000:3000'' @ dq,
      ''    environment:'',
      ''      - NODE_ENV=development'',
      ''    volumes:'',
      ''      - .:/app'',
      ''      - /app/node_modules'']"

definition compose_db :: "config \<Rightarrow> string list" where
  "compose_db cfg =
     [''  db:'',
      ''    image: '' @ db_type (cfg_database cfg) @ '':latest'',
      ''    environment:'',
      ''      - POSTGRES_DB='' @ project_name (cfg_project cfg),
      ''      - POSTGRES_USER=dev'',
      ''      - POSTGRES_PASSWORD=devpass'',
      ''    ports:'',
      ''      - '' @ dq @ ''5432:5432'' @ dq,
      ''    volumes:'',
      ''      - db-data:/var/lib/postgresql/data'',
      [],
      ''volumes:'',
      ''  db-data:'']"

definition compose_lines :: "config \<Rightarrow> string list" where
  "compose_lines cfg =
     compose_app
     @ (if db_type (cfg_database cfg) \<noteq> ''none'' then [[]] @ compose_db cfg @ [[]] else [[]])
     @ [[]]"

definition generateDockerfiles :: "path \<Rightarrow> config \<Rightarrow> fs_call list" where
  "generateDockerfiles dir cfg =
     (if dockerfile cfg \<noteq> [] then [WriteFile (join_dir dir ''Dockerfile'') (Plain (dockerfile cfg))]
      else [])
     @ [WriteFile (join_dir dir ''docker-compose.yml'') (Plain (join_lines (compose_lines cfg)))]"

text \<open>\<open>generateCICD\<close>, lines 984 to 1042.\<close>

definition workflow :: string where
  "workflow = join_lines
     [''name: CI/CD Pipeline'',
      [],
      ''on:'',
      ''  push:'',
      ''    branches: [ main, develop ]'',
      ''  pull_request:'',
      ''    branches: [ main ]'',
      [],
      ''jobs:'',
      ''  test:'',
      ''    runs-on: ubuntu-latest'',
      ''    '',
      ''    steps:'',
      ''    - uses: actions/checkout@v3'',
      ''    '',
      ''    - name: Setup'',
      ''      uses: actions/setup-node@v3'',
      ''      with:'',
      ''        node-version: '' @ sq @ ''18'' @ sq,
      ''    '',
      ''    - name: Install dependencies'',
      ''      run: npm ci'',
      ''    '',
      ''    - name: Run linter'',
      ''      run: npm run lint'',
      ''    '',
      ''    - name: Run tests'',
      ''      run: npm test'',
      ''    '',
      ''    - name: Check coverage'',
      ''      run: npm test -- --coverage'',
      [],
      ''  build:'',
      ''    needs: test'',
      ''    runs-on: ubuntu-latest'',
      ''    if: github.ref == '' @ sq @ ''refs/heads/main'' @ sq,
      ''    '',
      ''    steps:'',
      ''    - uses: actions/checkout@v3'',
      ''    '',
      ''    - name: Build'',
      ''      run: npm run build'',
      ''    '',
      ''    - name: Deploy'',
      ''      run: echo '' @ dq @ ''Deploy to production'' @ dq,
      ''      # Add your deployment steps here'',
      []]"

definition generateCICD :: "path \<Rightarrow> config \<Rightarrow> fs_call list" where
  "generateCICD dir cfg =
     (if deploy_cicd (cfg_deployment cfg) = Some ''github-actions'' then
        [Mkdir (join_dir (join_dir dir ''.github'') ''workflows''),
         WriteFile (join_dir (join_dir (join_dir dir ''.github'') ''workflows'') ''ci-cd.yml'')
           (Plain workflow)]
      else [])"

text \<open>
  \<open>generateTemplates\<close>, lines 731 to 754. \<open>config.deployment.cicd\<close> is truthy exactly
  when it is set: every platform name is a non-empty string.
\<close>

definition generateTemplates :: "path \<Rightarrow> config \<Rightarrow> fs_call list" where
  "generateTemplates dir cfg =
     generateGitignore dir
     @ generateReadme dir cfg
     @ generateEnvTemplate dir cfg
     @ (if deploy_docker (cfg_deployment cfg) then generateDockerfiles dir cfg else [])
     @ (if deploy_cicd (cfg_deployment cfg) \<noteq> None then generateCICD dir cfg else [])"

text \<open>
  The disk: what is at each path, a directory or a document. A document is stored as
  its text, or by its name when it is \<open>Rendered\<close>. The root is a directory whatever the
  map says. The calls fail as Node.js and POSIX make them fail on the kind of what is
  in the way; the operating system refuses nothing for reasons of its own (permissions,
  space, the length of a name, links).

  A path with a NUL character is refused by Node.js itself: \<open>existsSync\<close> answers
  \<open>false\<close>, the other calls throw a \<open>TypeError\<close>.
\<close>

datatype entry = Directory | Document document

type_synonym disk = "path \<Rightarrow> entry option"

definition valid_path :: "path \<Rightarrow> bool" where
  "valid_path p = list_all (\<lambda>name. CHR 0x00 \<notin> set name) p"

fun is_document :: "entry option \<Rightarrow> bool" where
  "is_document (Some (Document x)) = True"
| "is_document _ = False"

text \<open>The directories on the way to a path, from the top, and the path itself last.\<close>

definition way_to :: "path \<Rightarrow> path list" where
  "way_to p = map (\<lambda>k. take k p) [1..<Suc (length p)]"

definition exists_path :: "path \<Rightarrow> disk \<Rightarrow> bool" where
  "exists_path p d = (valid_path p \<and> (p = [] \<or> d p \<noteq> None))"

text \<open>
  \<open>mkdirSync(p, { recursive: true })\<close>: every directory on the way that is missing is
  made; a document on the way, or at \<open>p\<close>, makes the call throw.
\<close>

definition mkdir_recursive :: "path \<Rightarrow> disk \<Rightarrow> js_error + disk" where
  "mkdir_recursive p d =
     (if \<not> valid_path p then Inl TypeError
      else
        (case find (\<lambda>q. is_document (d q)) (way_to p) of
           Some q \<Rightarrow> Inl (if q = p then EEXIST else ENOTDIR)
         | None \<Rightarrow> Inr (\<lambda>q. if q \<in> set (way_to p) then Some Directory else d q)))"

text \<open>
  \<open>writeFileSync(p, x)\<close>: the directory that holds \<open>p\<close> must be there, and \<open>p\<close> must not
  be a directory.
\<close>

definition write_file :: "path \<Rightarrow> document \<Rightarrow> disk \<Rightarrow> js_error + disk" where
  "write_file p x d =
     (if \<not> valid_path p then Inl TypeError
      else if p = [] then Inl EISDIR
      else
        (case (if butlast p = [] then Some Directory else d (butlast p)) of
           None \<Rightarrow> Inl ENOENT
         | Some (Document y) \<Rightarrow> Inl ENOTDIR
         | Some Directory \<Rightarrow>
             (case d p of
                Some Directory \<Rightarrow> Inl EISDIR
              | _ \<Rightarrow> Inr (d(p \<mapsto> Document x)))))"

fun do_call :: "fs_call \<Rightarrow> disk \<Rightarrow> js_error + disk" where
  "do_call (MkdirIfMissing p) d = (if exists_path p d then Inr d else mkdir_recursive p d)"
| "do_call (Mkdir p) d = mkdir_recursive p d"
| "do_call (WriteFile p x) d = write_file p x d"

text \<open>The calls one after the other; the first that throws ends them.\<close>

fun perform :: "fs_call list \<Rightarrow> disk \<Rightarrow> js_error + disk" where
  "perform [] d = Inr d"
| "perform (c # cs) d = (case do_call c d of Inl e \<Rightarrow> Inl e | Inr d' \<Rightarrow> perform cs d')"

text \<open>
  \<open>initializeGit\<close>, lines 1044 to 1061. \<open>process.chdir\<close> needs the project directory;
  \<open>git init\<close> creates \<open>.git\<close>; the two commands after it change nothing outside \<open>.git\<close>;
  a failure of any of them is caught.
\<close>

definition initializeGit :: "bool \<Rightarrow> path \<Rightarrow> disk \<Rightarrow> disk" where
  "initializeGit git_init_ok dir d =
     (if valid_path dir \<and> (dir = [] \<or> d dir = Some Directory)
         \<and> \<not> exists_path (join_dir dir ''.git'') d \<and> git_init_ok
      then d(join_dir dir ''.git'' \<mapsto> Directory) else d)"

text \<open>
  \<open>run\<close>, lines 47 to 85: the interview, and for a confirmed session the four
  generation steps. \<open>cwd\<close> is \<open>process.cwd()\<close>. \<open>None\<close>: the answers ran out before the
  wizard finished asking.
\<close>

datatype outcome =
    Cancelled
  | Completed disk
  | InitializationFailed js_error

definition session_calls :: "path \<Rightarrow> config \<Rightarrow> fs_call list" where
  "session_calls dir cfg =
     createProjectStructure dir cfg @ generateBlueprint dir cfg @ generateTemplates dir cfg"

definition run_wizard :: "bool \<Rightarrow> path \<Rightarrow> string option \<Rightarrow> string list \<Rightarrow> disk \<Rightarrow> outcome option" where
  "run_wizard git_init_ok cwd arg answers d =
     (case interview arg answers of
        None \<Rightarrow> None
      | Some ((cfg, confirmed), rest) \<Rightarrow>
          Some (if confirmed then
                  (case perform (session_calls (projectDir cwd cfg) cfg) d of
                     Inl e \<Rightarrow> InitializationFailed e
                   | Inr d' \<Rightarrow> Completed (initializeGit git_init_ok (projectDir cwd cfg) d'))
                else Cancelled))"

subsection \<open>Answers that select nothing\<close>



subsection \<open>Reading a session's calls\<close>

text \<open>The documents a list of calls writes to one path, in order.\<close>

fun writes_to :: "path \<Rightarrow> fs_call list \<Rightarrow> document list" where
  "writes_to p [] = []"
| "writes_to p (WriteFile q x # cs) = (if q = p then x # writes_to p cs else writes_to p cs)"
| "writes_to p (c # cs) = writes_to p cs"

text \<open>The \<open>image:\<close> lines of a compose file.\<close>

definition image_lines :: "string list \<Rightarrow> string list" where
  "image_lines ls = filter (\<lambda>l. take 11 l = ''    image: '') ls"

text \<open>
  A place for a new project: nothing is below the project directory, and no document
  stands on the way to it or at it.
\<close>

definition vacant :: "path \<Rightarrow> disk \<Rightarrow> bool" where
  "vacant dir d =
     ((\<forall>q. q \<noteq> [] \<longrightarrow> d (dir @ q) = None) \<and> (\<forall>k. \<not> is_document (d (take k dir))))"

text \<open>
  The names that make a session's paths. A session whose directories stay in place: it
  is not of the \<open>microservices\<close> pattern, or none of its components has a part \<open>..\<close>.
  The documents a session can write into the project directory, and the directories it
  makes there.
\<close>

definition session_names :: "path \<Rightarrow> config \<Rightarrow> string list" where
  "session_names cwd cfg =
     cwd @ [project_name (cfg_project cfg)] @ arch_components (cfg_architecture cfg)"

definition stays_below :: "config \<Rightarrow> bool" where
  "stays_below cfg =
     (arch_pattern (cfg_architecture cfg) \<noteq> ''microservices''
      \<or> list_all (\<lambda>component. ''..'' \<notin> set (segments component))
           (arch_components (cfg_architecture cfg)))"

definition session_documents :: "string list" where
  "session_documents = [''PROJECT-BLUEPRINT.md'', ''.gitignore'', ''README.md'', ''.env.example'',
     ''Dockerfile'', ''docker-compose.yml'']"

definition top_directories :: "string list" where
  "top_directories = [''src'', ''tests'', ''docs'', ''config'', ''.github'', ''services'']"

fun admissible :: "path \<Rightarrow> fs_call \<Rightarrow> bool" where
  "admissible dir (WriteFile p x) =
     (p \<in> set (map (\<lambda>name. dir @ [name]) session_documents)
      \<or> p = dir @ [''.github'', ''workflows'', ''ci-cd.yml''])"
| "admissible dir (Mkdir p) = (p = dir @ [''.github'', ''workflows''])"
| "admissible dir (MkdirIfMissing p) = False"

definition ready :: "path \<Rightarrow> disk \<Rightarrow> bool" where
  "ready dir d =
     ((dir = [] \<or> d dir = Some Directory)
      \<and> d (dir @ [''.github'', ''workflows'']) = Some Directory
      \<and> \<not> is_document (d (dir @ [''.github'']))
      \<and> (\<forall>k. \<not> is_document (d (take k dir)))
      \<and> list_all (\<lambda>name. d (dir @ [name]) \<noteq> Some Directory) session_documents
      \<and> d (dir @ [''.github'', ''workflows'', ''ci-cd.yml'']) \<noteq> Some Directory)"

subsection \<open>Example sessions\<close>

text \<open>
  A REST service in Go with MongoDB, deployed with Docker: name from the command line,
  then description, type 2, language 4, pattern 1, no components, no cache, no queue,
  no API, database 3 (MongoDB) with one entity, no authentication, target 1 (Docker),
  no CI, no variables, environments 2, confirmed.
\<close>

definition go_mongodb_docker :: "string list" where
  "go_mongodb_docker = [''a service'', ''2'', ''4'', ''1'', [], ''n'', ''n'', ''n'',
     ''y'', ''3'', ''users'', ''n'', ''n'', ''n'', ''1'', ''n'', [], ''2'', ''y'']"

text \<open>The same session in Node.js with PostgreSQL, deployed to Kubernetes (target 2).\<close>

definition node_postgres_kubernetes :: "string list" where
  "node_postgres_kubernetes = [''a service'', ''2'', ''1'', ''1'', [], ''n'', ''n'', ''n'',
     ''y'', ''1'', ''users'', ''n'', ''n'', ''n'', ''2'', ''n'', [], ''2'', ''y'']"

text \<open>The same session deployed to Heroku alone (target 6).\<close>

definition node_postgres_heroku :: "string list" where
  "node_postgres_heroku = [''a service'', ''2'', ''1'', ''1'', [], ''n'', ''n'', ''n'',
     ''y'', ''1'', ''users'', ''n'', ''n'', ''n'', ''6'', ''n'', [], ''2'', ''y'']"

definition example_config :: "string \<Rightarrow> string \<Rightarrow> string \<Rightarrow> config" where
  "example_config language db target =
     \<lparr>cfg_project = \<lparr>project_name = ''demo'', project_description = ''a service'',
                       project_type = ''rest-api'', project_language = language,
                       project_frontend = None\<rparr>,
      cfg_architecture = \<lparr>arch_pattern = ''monolithic'', arch_components = [],
                            arch_cache = None, arch_messageQueue = None,
                            arch_requiresAuth = None, arch_rateLimit = None,
                            arch_apiVersioning = None\<rparr>,
      cfg_apis = [],
      cfg_database = \<lparr>db_type = db, db_entities = Some [''users''],
                        db_migrations = Some False, db_seeding = Some False\<rparr>,
      cfg_authentication = \<lparr>auth_type = ''none'', auth_socialLogin = None, auth_rbac = None,
                              auth_roles = None\<rparr>,
      cfg_deployment = \<lparr>deploy_targets = [target], deploy_cicd = None,
                          deploy_docker = (target = ''docker'' \<or> target = ''kubernetes'')\<rparr>,
      cfg_environment = \<lparr>env_variables = [],
                           env_environments = [''development'', ''production'']\<rparr>\<rparr>"

text \<open>The directory the example sessions are started in.\<close>

definition workspace :: path where
  "workspace = [''home'', ''dev'']"

text \<open>
  A session of the \<open>microservices\<close> pattern (pattern 2) with the one component
  \<open>../Dockerfile\<close>, deployed with Docker, in the language of the given menu number.
\<close>

definition escaping_docker :: "string \<Rightarrow> string list" where
  "escaping_docker langChoice = [''a service'', ''2'', langChoice, ''2'', ''../Dockerfile'',
     ''n'', ''n'', ''n'', ''y'', ''1'', ''users'', ''n'', ''n'', ''n'', ''1'', ''n'', [], ''2'', ''y'']"

definition escaping_config :: "string \<Rightarrow> config" where
  "escaping_config language =
     \<lparr>cfg_project = \<lparr>project_name = ''demo'', project_description = ''a service'',
                       project_type = ''rest-api'', project_language = language,
                       project_frontend = None\<rparr>,
      cfg_architecture = \<lparr>arch_pattern = ''microservices'', arch_components = [''../Dockerfile''],
                            arch_cache = None, arch_messageQueue = None,
                            arch_requiresAuth = None, arch_rateLimit = None,
                            arch_apiVersioning = None\<rparr>,
      cfg_apis = [],
      cfg_database = \<lparr>db_type = ''postgresql'', db_entities = Some [''users''],
                        db_migrations = Some False, db_seeding = Some False\<rparr>,
      cfg_authentication = \<lparr>auth_type = ''none'', auth_socialLogin = None, auth_rbac = None,
                              auth_roles = None\<rparr>,
      cfg_deployment = \<lparr>deploy_targets = [''docker''], deploy_cicd = None, deploy_docker = True\<rparr>,
      cfg_environment = \<lparr>env_variables = [],
                           env_environments = [''development'', ''production'']\<rparr>\<rparr>"

section \<open>Error recovery tool (tools/error-recovery.js)\<close>

subsection \<open>Issue records\<close>

text \<open>
  The remediation an issue record refers to: its \<open>fix\<close> property, one method of the
  tool each.
\<close>

datatype remedy =
    FixGitInit
  | FixGitConfig
  | FixMissingAgents "string list"
  | FixTestScript
  | FixTestFramework
  | FixDependencies
  | FixReadme
  | FixGitignore
  | FixPlansDirectory

record issue =
  issue_id :: string
  issue_severity :: string
  issue_title :: string
  issue_description :: string
  issue_location :: "string option"
  issue_fixable :: bool
  issue_fix :: "remedy option"

subsection \<open>The project as the scan sees it\<close>

text \<open>
  Beside the files, the scan asks git three things: whether \<open>git config user.name\<close>
  and \<open>git config user.email\<close> succeed, and what \<open>git status --porcelain\<close> prints
  (\<open>None\<close> when that command fails).
\<close>

record git_view =
  git_user_name_ok :: bool
  git_user_email_ok :: bool
  git_status :: "string option"

text \<open>
  \<open>path.normalize(p)\<close> under POSIX. Of the parts between slashes, an empty part and
  \<open>.\<close> are dropped and \<open>..\<close> drops the part before it; where there is none, \<open>..\<close>
  stays in a relative path and is dropped in an absolute one. A leading and a trailing
  slash are kept.
\<close>

fun normalize_parts :: "bool \<Rightarrow> string list \<Rightarrow> string list \<Rightarrow> string list" where
  "normalize_parts climb kept [] = kept"
| "normalize_parts climb kept (part # parts) =
     (if part = [] \<or> part = ''.'' then normalize_parts climb kept parts
      else if part = ''..'' then
        (if kept \<noteq> [] \<and> last kept \<noteq> ''..'' then normalize_parts climb (butlast kept) parts
         else if climb then normalize_parts climb (kept @ [''..'']) parts
         else normalize_parts climb kept parts)
      else normalize_parts climb (kept @ [part]) parts)"

fun join_slash :: "string list \<Rightarrow> string" where
  "join_slash [] = []"
| "join_slash [x] = x"
| "join_slash (x # xs) = x @ ''/'' @ join_slash xs"

definition path_normalize :: "string \<Rightarrow> string" where
  "path_normalize p =
     (if p = [] then ''.''
      else
        (let absolute = (hd p = CHR ''/'');
             trailing = (last p = CHR ''/'');
             body = join_slash (normalize_parts (\<not> absolute) [] (split_on CHR ''/'' p))
         in if body = [] then (if absolute then ''/'' else if trailing then ''./'' else ''.'')
            else (if absolute then ''/'' else []) @ body @ (if trailing then ''/'' else [])))"

text \<open>
  \<open>path.join(root, rel)\<close>: the arguments that are not empty, joined by a slash and
  normalised.
\<close>

definition path_join :: "string \<Rightarrow> string \<Rightarrow> string" where
  "path_join root rel =
     (if root = [] \<and> rel = [] then ''.''
      else path_normalize (if root = [] then rel else if rel = [] then root else root @ ''/'' @ rel))"

text \<open>\<open>path.basename(root)\<close>: the last non-empty part of the path.\<close>

definition basename :: "string \<Rightarrow> string" where
  "basename p = (case filter (\<lambda>part. part \<noteq> []) (split_on CHR ''/'' p) of
                   [] \<Rightarrow> []
                 | parts \<Rightarrow> last parts)"

text \<open>\<open>xs.join(', ')\<close>.\<close>

fun join_comma :: "string list \<Rightarrow> string" where
  "join_comma [] = []"
| "join_comma [x] = x"
| "join_comma (x # xs) = x @ '', '' @ join_comma xs"

subsection \<open>The checks\<close>

text \<open>
  Each check gives the records it pushes, in order, or the error it throws.
  \<open>checkGitIssues\<close>, lines 98 to 145.
\<close>

definition checkGitIssues :: "string \<Rightarrow> git_view \<Rightarrow> fs \<Rightarrow> issue list" where
  "checkGitIssues rootDir git files =
     (if \<not> existsSync files ''.git'' then
        [\<lparr>issue_id = ''git_not_initialized'', issue_severity = ''high'',
          issue_title = ''Git not initialized'',
          issue_description = ''Orchestra requires git for version control.'',
          issue_location = Some rootDir, issue_fixable = True, issue_fix = Some FixGitInit\<rparr>]
      else [])
     @ (if \<not> (git_user_name_ok git \<and> git_user_email_ok git) then
          [\<lparr>issue_id = ''git_config_missing'', issue_severity = ''medium'',
            issue_title = ''Git configuration incomplete'',
            issue_description = ''Git user name or email not configured.'',
            issue_location = None, issue_fixable = True, issue_fix = Some FixGitConfig\<rparr>]
        else [])
     @ (case git_status git of
          None \<Rightarrow> []
        | Some status \<Rightarrow>
            if trim status \<noteq> [] then
              [\<lparr>issue_id = ''uncommitted_changes'', issue_severity = ''info'',
                issue_title = ''Uncommitted changes detected'',
                issue_description =
                  ''You have uncommitted changes. Consider committing before starting new work.'',
                issue_location = None, issue_fixable = False, issue_fix = None\<rparr>]
            else [])"

definition agentFiles :: "string list" where
  "agentFiles = [''Conductor.agent.md'', ''planning-subagent.agent.md'',
     ''implement-subagent.agent.md'', ''code-review-subagent.agent.md'',
     ''quality-assurance-subagent.agent.md'']"

definition agent_path :: "string \<Rightarrow> string" where
  "agent_path file = ''.github/agents/'' @ file"

text \<open>
  Lines 173 to 188, for one file: nothing when the file is absent, an error when it
  cannot be read, a record when its text does not start with \<open>---\<close>. The text of a JSON
  document never starts so.
\<close>

definition validate_agent :: "string \<Rightarrow> fs \<Rightarrow> string \<Rightarrow> js_error + issue list" where
  "validate_agent rootDir files file =
     (case files (agent_path file) of
        None \<Rightarrow> Inr []
      | Some Dir \<Rightarrow> Inl EISDIR
      | Some (File c) \<Rightarrow>
          if (case c of Text content \<Rightarrow> take 3 content = ''---'' | Json j \<Rightarrow> False) then Inr []
          else Inr [\<lparr>issue_id = ''invalid_agent_'' @ file, issue_severity = ''medium'',
                     issue_title = ''Invalid agent file: '' @ file,
                     issue_description = ''Agent file missing YAML frontmatter.'',
                     issue_location = Some (path_join rootDir (agent_path file)),
                     issue_fixable = False, issue_fix = None\<rparr>])"

text \<open>One check after the other, ended by the first that throws.\<close>

fun each_in_turn :: "('a \<Rightarrow> js_error + issue list) \<Rightarrow> 'a list \<Rightarrow> js_error + issue list" where
  "each_in_turn f [] = Inr []"
| "each_in_turn f (x # xs) =
     (case f x of
        Inl e \<Rightarrow> Inl e
      | Inr found \<Rightarrow> (case each_in_turn f xs of Inl e \<Rightarrow> Inl e | Inr others \<Rightarrow> Inr (found @ others)))"

text \<open>\<open>checkAgentFiles\<close>, lines 147 to 189.\<close>

definition checkAgentFiles :: "string \<Rightarrow> fs \<Rightarrow> js_error + issue list" where
  "checkAgentFiles rootDir files =
     (let missing = filter (\<lambda>file. \<not> existsSync files (agent_path file)) agentFiles in
      case each_in_turn (validate_agent rootDir files) agentFiles of
        Inl e \<Rightarrow> Inl e
      | Inr invalid \<Rightarrow>
          Inr ((if length missing > 0 then
                  [\<lparr>issue_id = ''missing_agent_files'', issue_severity = ''high'',
                    issue_title = ''Missing agent files ('' @ decimal (length missing) @ '')'',
                    issue_description =
                      ''Required agent files not found in .github/agents/: '' @ join_comma missing,
                    issue_location = None, issue_fixable = True,
                    issue_fix = Some (FixMissingAgents missing)\<rparr>]
                else [])
               @ invalid))"

text \<open>
  The own enumerable keys an object spread copies from a value: the keys of an object,
  the indices of an array or of a string, none for anything else.
\<close>

fun spread_keys :: "json option \<Rightarrow> string list" where
  "spread_keys (Some (JObj kvs)) = map fst kvs"
| "spread_keys (Some (JArr xs)) = map decimal [0 ..< length xs]"
| "spread_keys (Some (JStr s)) = map decimal [0 ..< length s]"
| "spread_keys v = []"

definition testFrameworks :: "string list" where
  "testFrameworks = [''jest'', ''mocha'', ''vitest'', ''ava'', ''tape'']"

text \<open>\<open>checkTestSetup\<close>, lines 191 to 244.\<close>

definition checkTestSetup :: "fs \<Rightarrow> js_error + issue list" where
  "checkTestSetup files =
     (if existsSync files ''package.json'' then
        (case read_json files ''package.json'' of
           Inl e \<Rightarrow> Inl e
         | Inr pkg \<Rightarrow>
             (case get_prop pkg ''scripts'' of
                Inl e \<Rightarrow> Inl e
              | Inr scripts \<Rightarrow>
                  (case (if truthy scripts then get_prop (the scripts) ''test'' else Inr None) of
                     Inl e \<Rightarrow> Inl e
                   | Inr test \<Rightarrow>
                       (case get_prop pkg ''dependencies'' of
                          Inl e \<Rightarrow> Inl e
                        | Inr dependencies \<Rightarrow>
                            (case get_prop pkg ''devDependencies'' of
                               Inl e \<Rightarrow> Inl e
                             | Inr devDependencies \<Rightarrow>
                                 Inr ((if \<not> truthy scripts \<or> \<not> truthy test then
                                         [\<lparr>issue_id = ''no_test_script'', issue_severity = ''medium'',
                                           issue_title = ''No test script defined'',
                                           issue_description =
                                             ''package.json missing '' @ dq @ ''test'' @ dq @ '' script.'',
                                           issue_location = None, issue_fixable = True,
                                           issue_fix = Some FixTestScript\<rparr>]
                                       else [])
                                      @ (if \<not> (\<exists>dep \<in> set (spread_keys dependencies
                                                              @ spread_keys devDependencies).
                                                  dep \<in> set testFrameworks) then
                                           [\<lparr>issue_id = ''no_test_framework'', issue_severity = ''high'',
                                             issue_title = ''No testing framework installed'',
                                             issue_description =
                                               ''Orchestra requires a testing framework (Jest, Vitest, etc.).'',
                                             issue_location = None, issue_fixable = True,
                                             issue_fix = Some FixTestFramework\<rparr>]
                                         else [])))))))
      else if existsSync files ''pytest.ini'' then Inr []
      else if existsSync files ''pom.xml'' then Inr []
      else
        Inr [\<lparr>issue_id = ''no_test_setup'', issue_severity = ''high'',
               issue_title = ''No test setup detected'',
               issue_description = ''Orchestra requires test infrastructure for TDD.'',
               issue_location = None, issue_fixable = False, issue_fix = None\<rparr>])"

text \<open>\<open>checkDependencies\<close>, lines 246 to 264.\<close>

definition checkDependencies :: "fs \<Rightarrow> js_error + issue list" where
  "checkDependencies files =
     (if existsSync files ''package.json'' then
        (case read_json files ''package.json'' of
           Inl e \<Rightarrow> Inl e
         | Inr pkg \<Rightarrow>
             if \<not> existsSync files ''node_modules'' then
               Inr [\<lparr>issue_id = ''dependencies_not_installed'', issue_severity = ''high'',
                      issue_title = ''Dependencies not installed'',
                      issue_description = ''node_modules directory not found. Run npm install.'',
                      issue_location = None, issue_fixable = True,
                      issue_fix = Some FixDependencies\<rparr>]
             else Inr [])
      else Inr [])"

text \<open>\<open>checkProjectStructure\<close>, lines 266 to 290.\<close>

definition checkProjectStructure :: "fs \<Rightarrow> issue list" where
  "checkProjectStructure files =
     (if \<not> existsSync files ''README.md'' then
        [\<lparr>issue_id = ''no_readme'', issue_severity = ''low'',
          issue_title = ''No README.md'',
          issue_description = ''Project lacks documentation.'',
          issue_location = None, issue_fixable = True, issue_fix = Some FixReadme\<rparr>]
      else [])
     @ (if \<not> existsSync files ''.gitignore'' then
          [\<lparr>issue_id = ''no_gitignore'', issue_severity = ''medium'',
            issue_title = ''No .gitignore file'',
            issue_description = ''Missing .gitignore may cause unwanted files to be committed.'',
            issue_location = None, issue_fixable = True, issue_fix = Some FixGitignore\<rparr>]
        else [])"

text \<open>\<open>checkPlansDirectory\<close>, lines 292 to 305.\<close>

definition checkPlansDirectory :: "fs \<Rightarrow> issue list" where
  "checkPlansDirectory files =
     (if \<not> existsSync files ''plans'' then
        [\<lparr>issue_id = ''no_plans_directory'', issue_severity = ''info'',
          issue_title = ''Plans directory not found'',
          issue_description = ''Orchestra creates documentation in plans/ directory.'',
          issue_location = None, issue_fixable = True, issue_fix = Some FixPlansDirectory\<rparr>]
      else [])"

text \<open>
  \<open>scanForIssues\<close>, lines 73 to 96: the checks the category selects, in order. The
  result is \<open>this.issues\<close> after the scan, or the error that ended it.
\<close>

definition scanForIssues :: "string \<Rightarrow> string \<Rightarrow> git_view \<Rightarrow> fs \<Rightarrow> js_error + issue list" where
  "scanForIssues category rootDir git files =
     each_in_turn (\<lambda>check. check)
       [if category = ''all'' \<or> category = ''git'' then Inr (checkGitIssues rootDir git files)
        else Inr [],
        if category = ''all'' \<or> category = ''agents'' then checkAgentFiles rootDir files
        else Inr [],
        if category = ''all'' \<or> category = ''tests'' then checkTestSetup files else Inr [],
        if category = ''all'' \<or> category = ''deps'' then checkDependencies files else Inr [],
        if category = ''all'' then Inr (checkProjectStructure files @ checkPlansDirectory files)
        else Inr []]"

subsection \<open>The remediations\<close>

text \<open>
  A remediation that runs an external command depends on what that command does. Each
  command is a function on the files that also says whether the command succeeded;
  nothing is assumed about it.
\<close>

type_synonym command = "fs \<Rightarrow> fs \<times> bool"

record commands =
  git_init :: command
  git_add_all :: command
  git_config_name :: "string \<Rightarrow> command"
  git_config_email :: "string \<Rightarrow> command"
  npm_install_jest :: command
  npm_install :: command

text \<open>\<open>fs.writeFileSync\<close> and \<open>fs.mkdirSync\<close> (recursive) on the files of the root directory.\<close>

definition writeFileSync :: "fs \<Rightarrow> string \<Rightarrow> content \<Rightarrow> js_error + fs" where
  "writeFileSync files p c =
     (case files p of Some Dir \<Rightarrow> Inl EISDIR | _ \<Rightarrow> Inr (files(p \<mapsto> File c)))"

definition mkdirSync :: "fs \<Rightarrow> string \<Rightarrow> js_error + fs" where
  "mkdirSync files p =
     (case files p of Some (File c) \<Rightarrow> Inl EEXIST | _ \<Rightarrow> Inr (files(p \<mapsto> Dir)))"

text \<open>
  Assignment \<open>v.k = x\<close> as \<open>JSON.stringify\<close> sees it afterwards, for a key that is not
  an index: an object gets or replaces the property, an array keeps its elements, and
  on any other value the assignment throws (the tool is class code, hence strict).
\<close>

fun assign :: "(string \<times> json) list \<Rightarrow> string \<Rightarrow> json \<Rightarrow> (string \<times> json) list" where
  "assign [] k x = [(k, x)]"
| "assign ((k', v) # kvs) k x = (if k' = k then (k, x) # kvs else (k', v) # assign kvs k x)"

fun set_prop :: "json \<Rightarrow> string \<Rightarrow> json \<Rightarrow> js_error + json" where
  "set_prop (JObj kvs) k x = Inr (JObj (assign kvs k x))"
| "set_prop (JArr xs) k x = Inr (JArr xs)"
| "set_prop v k x = Inl TypeError"

definition bq :: string where
  "bq = [CHR 0x60]"

text \<open>Lines 407 to 430 and 435 to 468: the two texts the tool writes.\<close>

definition readme_text :: "string \<Rightarrow> string" where
  "readme_text projectName = join_lines
       [''# '' @ projectName,
        [],
        ''Project description goes here.'',
        [],
        ''## Setup'',
        [],
        bq @ bq @ bq @ ''bash'',
        ''npm install'',
        bq @ bq @ bq,
        [],
        ''## Usage'',
        [],
        ''Describe how to use this project.'',
        [],
        ''## Testing'',
        [],
        bq @ bq @ bq @ ''bash'',
        ''npm test'',
        bq @ bq @ bq,
        [],
        ''## License'',
        [],
        ''MIT'',
        []]"

definition gitignore_text :: string where
  "gitignore_text = join_lines
       [''# Dependencies'',
        ''node_modules/'',
        ''venv/'',
        ''env/'',
        [],
        ''# Build outputs'',
        ''dist/'',
        ''build/'',
        ''*.egg-info/'',
        [],
        ''# Test coverage'',
        ''coverage/'',
        ''.nyc_output/'',
        [],
        ''# Environment variables'',
        ''.env'',
        ''.env.local'',
        [],
        ''# IDE'',
        ''.vscode/'',
        ''.idea/'',
        ''*.swp'',
        [],
        ''# OS'',
        ''.DS_Store'',
        ''Thumbs.db'',
        [],
        ''# Orchestra plans (optional - uncomment to exclude)'',
        ''# plans/'',
        [],
        ''# Logs'',
        ''*.log'',
        ''npm-debug.log*'',
        []]"

text \<open>
  The state a remediation works on: the files and the answers the operator has still
  to give. Its outcome: the state after it, and the error if it threw. \<open>None\<close>: it
  asked a question that no answer is left for, and the tool does not go on.
\<close>

type_synonym fix_outcome = "(fs \<times> string list \<times> js_error option) option"

text \<open>\<open>fixGitInit\<close>, lines 343 to 346.\<close>

definition fixGitInit :: "commands \<Rightarrow> fs \<Rightarrow> string list \<Rightarrow> fix_outcome" where
  "fixGitInit cmds files answers =
     (case git_init cmds files of
        (files1, ok1) \<Rightarrow>
          if \<not> ok1 then Some (files1, answers, Some CommandFailed)
          else (case git_add_all cmds files1 of
                  (files2, ok2) \<Rightarrow>
                    Some (files2, answers, if ok2 then None else Some CommandFailed)))"

text \<open>\<open>fixGitConfig\<close>, lines 348 to 355.\<close>

definition fixGitConfig :: "commands \<Rightarrow> fs \<Rightarrow> string list \<Rightarrow> fix_outcome" where
  "fixGitConfig cmds files answers =
     (case answers of
        name # email # rest \<Rightarrow>
          (case git_config_name cmds name files of
             (files1, ok1) \<Rightarrow>
               if \<not> ok1 then Some (files1, rest, Some CommandFailed)
               else (case git_config_email cmds email files1 of
                       (files2, ok2) \<Rightarrow>
                         Some (files2, rest, if ok2 then None else Some CommandFailed)))
      | _ \<Rightarrow> None)"

text \<open>\<open>fixMissingAgents\<close>, lines 357 to 363: it prints where to get the files.\<close>

definition fixMissingAgents :: "string list \<Rightarrow> fs \<Rightarrow> string list \<Rightarrow> fix_outcome" where
  "fixMissingAgents missing files answers = Some (files, answers, None)"

text \<open>\<open>fixTestScript\<close>, lines 365 to 376.\<close>

definition test_placeholder :: string where
  "test_placeholder = ''echo '' @ dq @ ''Error: no test specified'' @ dq @ '' && exit 1''"

definition fixTestScript_json :: "json \<Rightarrow> js_error + json" where
  "fixTestScript_json pkg =
     (case get_prop pkg ''scripts'' of
        Inl e \<Rightarrow> Inl e
      | Inr scripts \<Rightarrow>
          (case (if \<not> truthy scripts then set_prop pkg ''scripts'' (JObj []) else Inr pkg) of
             Inl e \<Rightarrow> Inl e
           | Inr pkg1 \<Rightarrow>
               (case set_prop (if truthy scripts then the scripts else JObj [])
                       ''test'' (JStr test_placeholder) of
                  Inl e \<Rightarrow> Inl e
                | Inr scripts' \<Rightarrow> set_prop pkg1 ''scripts'' scripts')))"

definition fixTestScript :: "fs \<Rightarrow> string list \<Rightarrow> fix_outcome" where
  "fixTestScript files answers =
     (case read_json files ''package.json'' of
        Inl e \<Rightarrow> Some (files, answers, Some e)
      | Inr pkg \<Rightarrow>
          (case fixTestScript_json pkg of
             Inl e \<Rightarrow> Some (files, answers, Some e)
           | Inr pkg' \<Rightarrow>
               (case writeFileSync files ''package.json'' (Json pkg') of
                  Inl e \<Rightarrow> Some (files, answers, Some e)
                | Inr files' \<Rightarrow> Some (files', answers, None))))"

text \<open>
  \<open>fixTestFramework\<close>, lines 378 to 394. \<open>pkg.scripts.test = 'jest'\<close> throws when
  \<open>pkg.scripts\<close> is \<open>undefined\<close>; every error inside becomes the one message.
\<close>

definition fixTestFramework_json :: "json \<Rightarrow> js_error + json" where
  "fixTestFramework_json pkg =
     (case get_prop pkg ''scripts'' of
        Inl e \<Rightarrow> Inl e
      | Inr None \<Rightarrow> Inl TypeError
      | Inr (Some scripts) \<Rightarrow>
          (case set_prop scripts ''test'' (JStr ''jest'') of
             Inl e \<Rightarrow> Inl e
           | Inr scripts' \<Rightarrow> set_prop pkg ''scripts'' scripts'))"

definition jest_failed :: js_error where
  "jest_failed = Failed ''Failed to install Jest. Run manually: npm install --save-dev jest''"

definition fixTestFramework :: "commands \<Rightarrow> fs \<Rightarrow> string list \<Rightarrow> fix_outcome" where
  "fixTestFramework cmds files answers =
     (case npm_install_jest cmds files of
        (files1, ok) \<Rightarrow>
          if \<not> ok then Some (files1, answers, Some jest_failed)
          else
            (case read_json files1 ''package.json'' of
               Inl e \<Rightarrow> Some (files1, answers, Some jest_failed)
             | Inr pkg \<Rightarrow>
                 (case fixTestFramework_json pkg of
                    Inl e \<Rightarrow> Some (files1, answers, Some jest_failed)
                  | Inr pkg' \<Rightarrow>
                      (case writeFileSync files1 ''package.json'' (Json pkg') of
                         Inl e \<Rightarrow> Some (files1, answers, Some jest_failed)
                       | Inr files2 \<Rightarrow> Some (files2, answers, None)))))"

text \<open>\<open>fixDependencies\<close>, lines 396 to 403.\<close>

definition fixDependencies :: "commands \<Rightarrow> fs \<Rightarrow> string list \<Rightarrow> fix_outcome" where
  "fixDependencies cmds files answers =
     (case npm_install cmds files of
        (files1, ok) \<Rightarrow>
          Some (files1, answers,
                if ok then None else Some (Failed ''Failed to install dependencies'')))"

text \<open>\<open>fixReadme\<close>, lines 405 to 432.\<close>

definition fixReadme :: "string \<Rightarrow> fs \<Rightarrow> string list \<Rightarrow> fix_outcome" where
  "fixReadme rootDir files answers =
     (case writeFileSync files ''README.md'' (Text (readme_text (basename rootDir))) of
        Inl e \<Rightarrow> Some (files, answers, Some e)
      | Inr files' \<Rightarrow> Some (files', answers, None))"

text \<open>\<open>fixGitignore\<close>, lines 434 to 470.\<close>

definition fixGitignore :: "fs \<Rightarrow> string list \<Rightarrow> fix_outcome" where
  "fixGitignore files answers =
     (case writeFileSync files ''.gitignore'' (Text gitignore_text) of
        Inl e \<Rightarrow> Some (files, answers, Some e)
      | Inr files' \<Rightarrow> Some (files', answers, None))"

text \<open>\<open>fixPlansDirectory\<close>, lines 472 to 478.\<close>

definition fixPlansDirectory :: "fs \<Rightarrow> string list \<Rightarrow> fix_outcome" where
  "fixPlansDirectory files answers =
     (case mkdirSync files ''plans'' of
        Inl e \<Rightarrow> Some (files, answers, Some e)
      | Inr files1 \<Rightarrow>
          (case writeFileSync files1 ''plans/.gitkeep'' (Text []) of
             Inl e \<Rightarrow> Some (files1, answers, Some e)
           | Inr files2 \<Rightarrow> Some (files2, answers, None)))"

text \<open>\<open>issue.fix()\<close>: the method the record refers to; calling a missing one throws.\<close>

definition run_fix :: "commands \<Rightarrow> string \<Rightarrow> remedy option \<Rightarrow> fs \<Rightarrow> string list \<Rightarrow> fix_outcome" where
  "run_fix cmds rootDir f files answers =
     (case f of
        None \<Rightarrow> Some (files, answers, Some TypeError)
      | Some FixGitInit \<Rightarrow> fixGitInit cmds files answers
      | Some FixGitConfig \<Rightarrow> fixGitConfig cmds files answers
      | Some (FixMissingAgents missing) \<Rightarrow> fixMissingAgents missing files answers
      | Some FixTestScript \<Rightarrow> fixTestScript files answers
      | Some FixTestFramework \<Rightarrow> fixTestFramework cmds files answers
      | Some FixDependencies \<Rightarrow> fixDependencies cmds files answers
      | Some FixReadme \<Rightarrow> fixReadme rootDir files answers
      | Some FixGitignore \<Rightarrow> fixGitignore files answers
      | Some FixPlansDirectory \<Rightarrow> fixPlansDirectory files answers)"

subsection \<open>A run\<close>

text \<open>
  The options, as the constructor stores them (lines 25 to 30): a missing or empty
  category is \<open>all\<close>.
\<close>

record options =
  opt_auto :: bool
  opt_scan :: bool
  opt_verbose :: bool
  opt_category :: "string option"

definition category :: "options \<Rightarrow> string" where
  "category opts = (case opt_category opts of None \<Rightarrow> ''all'' | Some c \<Rightarrow> if c = [] then ''all'' else c)"

text \<open>
  Lines 317 to 339: the loop of \<open>applyFixes\<close> over the fixable records. The state is the
  files, the answers left and \<open>this.fixes\<close>. Without the auto flag each record costs one
  answer, and only \<open>y\<close> or \<open>Y\<close> applies the remediation. A remediation that throws is
  reported and the loop goes on with what it left behind. The loop ends \<open>Applied\<close>, or
  \<open>Waiting\<close> at a question that no answer is left for.
\<close>

datatype applied =
    Applied fs "string list" "string list"
  | Waiting fs "string list"

fun fix_loop :: "bool \<Rightarrow> commands \<Rightarrow> string \<Rightarrow> issue list \<Rightarrow> fs \<Rightarrow> string list \<Rightarrow> string list
    \<Rightarrow> applied" where
  "fix_loop autoFix cmds rootDir [] files answers fixes = Applied files answers fixes"
| "fix_loop autoFix cmds rootDir (i # fixableIssues) files answers fixes =
     (case (if autoFix then Some (True, answers)
            else (case answers of
                    [] \<Rightarrow> None
                  | answer # rest \<Rightarrow> Some (toLowerCase answer = ''y'', rest))) of
        None \<Rightarrow> Waiting files fixes
      | Some (shouldFix, answers1) \<Rightarrow>
          if shouldFix then
            (case run_fix cmds rootDir (issue_fix i) files answers1 of
               None \<Rightarrow> Waiting files fixes
             | Some (files', answers2, err) \<Rightarrow>
                 fix_loop autoFix cmds rootDir fixableIssues files' answers2
                   (if err = None then fixes @ [issue_id i] else fixes))
          else fix_loop autoFix cmds rootDir fixableIssues files answers1 fixes)"

text \<open>\<open>applyFixes\<close>, lines 307 to 340.\<close>

definition applyFixes :: "bool \<Rightarrow> commands \<Rightarrow> string \<Rightarrow> issue list \<Rightarrow> fs \<Rightarrow> string list \<Rightarrow> applied" where
  "applyFixes autoFix cmds rootDir issues files answers =
     fix_loop autoFix cmds rootDir (filter issue_fixable issues) files answers []"

text \<open>
  \<open>run\<close>, lines 40 to 71, and how it ends: the scan threw (the process exits with
  status 1), nothing was found, the scan-only flag stopped it after the report, the
  remediations were applied, or the tool is left waiting for an answer. The last two
  carry the files as the run left them and \<open>this.fixes\<close>.
\<close>

datatype recovery =
    ScanThrew js_error
  | NoIssues
  | ScanComplete "issue list"
  | RecoveryComplete "issue list" fs "string list"
  | AwaitingAnswer "issue list" fs "string list"

definition run_recovery :: "options \<Rightarrow> string \<Rightarrow> git_view \<Rightarrow> commands \<Rightarrow> string list \<Rightarrow> fs \<Rightarrow> recovery" where
  "run_recovery opts rootDir git cmds answers files =
     (case scanForIssues (category opts) rootDir git files of
        Inl e \<Rightarrow> ScanThrew e
      | Inr issues \<Rightarrow>
          if length issues = 0 then NoIssues
          else if opt_scan opts then ScanComplete issues
          else (case applyFixes (opt_auto opts) cmds rootDir issues files answers of
                  Waiting files' fixes \<Rightarrow> AwaitingAnswer issues files' fixes
                | Applied files' answers' fixes \<Rightarrow> RecoveryComplete issues files' fixes))"

text \<open>The files as a run leaves them.\<close>

definition files_after :: "recovery \<Rightarrow> fs \<Rightarrow> fs" where
  "files_after r files =
     (case r of
        ScanThrew e \<Rightarrow> files
      | NoIssues \<Rightarrow> files
      | ScanComplete issues \<Rightarrow> files
      | RecoveryComplete issues files' fixes \<Rightarrow> files'
      | AwaitingAnswer issues files' fixes \<Rightarrow> files')"

text \<open>The three structure defects, and what a scan reports of them.\<close>

definition structure_defects :: "string list" where
  "structure_defects = [''no_gitignore'', ''no_readme'', ''no_plans_directory'']"

definition reported :: "js_error + issue list \<Rightarrow> string list" where
  "reported scan = (case scan of Inl e \<Rightarrow> [] | Inr issues \<Rightarrow> map issue_id issues)"

subsection \<open>Reading a scan\<close>

text \<open>
  The identifiers each check can give a record. A record of an unreadable agent file
  is named after the file.
\<close>

definition git_ids :: "string list" where
  "git_ids = [''git_not_initialized'', ''git_config_missing'', ''uncommitted_changes'']"

definition test_ids :: "string list" where
  "test_ids = [''no_test_script'', ''no_test_framework'', ''no_test_setup'',
     ''dependencies_not_installed'']"

definition known_id :: "string \<Rightarrow> bool" where
  "known_id i = (i \<in> set git_ids \<or> i \<in> set test_ids \<or> take 14 i = ''invalid_agent_'')"

text \<open>What the two records of the claim carry, whenever a scan emits them.\<close>

definition classified :: "issue \<Rightarrow> bool" where
  "classified i =
     (if issue_id i = ''missing_agent_files'' then
        issue_severity i = ''high'' \<and> issue_fixable i
        \<and> (case issue_fix i of Some (FixMissingAgents missing) \<Rightarrow> True | _ \<Rightarrow> False)
      else if issue_id i = ''no_readme'' then
        issue_severity i = ''low'' \<and> issue_fixable i \<and> issue_fix i = Some FixReadme
      else if issue_id i = ''no_gitignore'' then
        issue_severity i = ''medium'' \<and> issue_fixable i \<and> issue_fix i = Some FixGitignore
      else if issue_id i = ''no_plans_directory'' then
        issue_severity i = ''info'' \<and> issue_fixable i \<and> issue_fix i = Some FixPlansDirectory
      else known_id (issue_id i))"

subsection \<open>Example projects\<close>

text \<open>
  A git user that is configured and a clean work tree; commands that succeed, of which
  \<open>git init\<close> makes \<open>.git\<close> and \<open>npm install\<close> makes \<open>node_modules\<close>.
\<close>

definition git_ready :: git_view where
  "git_ready = \<lparr>git_user_name_ok = True, git_user_email_ok = True, git_status = Some []\<rparr>"

definition git_anonymous :: git_view where
  "git_anonymous = \<lparr>git_user_name_ok = False, git_user_email_ok = False, git_status = Some []\<rparr>"

definition commands_ok :: commands where
  "commands_ok =
     \<lparr>git_init = (\<lambda>files. (files(''.git'' \<mapsto> Dir), True)),
      git_add_all = (\<lambda>files. (files, True)),
      git_config_name = (\<lambda>name files. (files, True)),
      git_config_email = (\<lambda>email files. (files, True)),
      npm_install_jest = (\<lambda>files. (files(''node_modules'' \<mapsto> Dir), True)),
      npm_install = (\<lambda>files. (files(''node_modules'' \<mapsto> Dir), True))\<rparr>"

text \<open>
  A Python project under git with the five agent files in place, and no \<open>README.md\<close>,
  no \<open>.gitignore\<close> and no \<open>plans\<close> directory.
\<close>

definition bare_project :: fs where
  "bare_project =
     Map.empty(''.git'' \<mapsto> Dir,
               ''pytest.ini'' \<mapsto> File (Text ''[pytest]''),
               ''.github/agents/Conductor.agent.md'' \<mapsto> File (Text ''---''),
               ''.github/agents/planning-subagent.agent.md'' \<mapsto> File (Text ''---''),
               ''.github/agents/implement-subagent.agent.md'' \<mapsto> File (Text ''---''),
               ''.github/agents/code-review-subagent.agent.md'' \<mapsto> File (Text ''---''),
               ''.github/agents/quality-assurance-subagent.agent.md'' \<mapsto> File (Text ''---''))"

definition auto_fix :: options where
  "auto_fix = \<lparr>opt_auto = True, opt_scan = False, opt_verbose = False, opt_category = None\<rparr>"

text \<open>How a run ended, by name.\<close>

definition ending :: "recovery \<Rightarrow> string" where
  "ending r =
     (case r of
        ScanThrew e \<Rightarrow> ''scan threw''
      | NoIssues \<Rightarrow> ''no issues''
      | ScanComplete issues \<Rightarrow> ''scan complete''
      | RecoveryComplete issues files' fixes \<Rightarrow> ''recovery complete''
      | AwaitingAnswer issues files' fixes \<Rightarrow> ''awaiting answer'')"

text \<open>The records whose remediation asks the operator questions.\<close>

definition asks :: "issue \<Rightarrow> bool" where
  "asks i = (issue_fix i = Some FixGitConfig)"

section \<open>Theorems\<close>

subsection \<open>Quality-assurance role: declared capabilities\<close>

lemma planning_tools_no_edit: "\<not> grants_file_editing planning_tools"
  by (simp add: grants_file_editing_def planning_tools_def)

text \<open>
  Claim C4. The claim says the \<open>tools\<close> list of the quality-assurance role file grants
  no file-editing capability. The list of the file as shipped contains \<open>edit\<close>, so the
  header does grant it; only the prose of the same file (interaction guidelines, lines
  376 to 381: do not implement fixes, do not make changes to code or tests) forbids
  editing.
\<close>

theorem qa_tools_grant_edit: "grants_file_editing qa_tools"
  by (simp add: grants_file_editing_def qa_tools_def)

subsection \<open>Startup script: the bounded health poll\<close>

lemma probes_append: "probes (xs @ ys) = probes xs + probes ys"
  by (simp add: probes_def)

lemma slept_append: "slept (xs @ ys) = slept xs + slept ys"
  by (simp add: slept_def)

lemma failed_round_obs: "probes (failed_round k) = 1" "slept (failed_round k) = 2"
  by (simp_all add: probes_def slept_def failed_round_def waiting_def)

lemma failed_rounds_obs:
  "probes (concat (map failed_round ks)) = length ks"
  "slept (concat (map failed_round ks)) = 2 * length ks"
  by (induction ks) (simp_all add: probes_append slept_append failed_round_obs, simp_all add: probes_def slept_def)

lemma before_poll_obs: "probes before_poll = 0" "slept before_poll = 10"
  by (simp_all add: probes_def slept_def before_poll_def services_up_def banner_def)

lemma gave_up_obs: "probes gave_up = 0" "slept gave_up = 0"
  by (simp_all add: probes_def slept_def gave_up_def)

lemma decimal_30: "decimal 30 = ''30''"
  by code_simp

lemma failed_round_text:
  "failed_round k = [Curl, Echo (''  Waiting... ('' @ decimal (k + 1) @ ''/30)''), Sleep 2]"
  by (simp add: failed_round_def waiting_def max_retries_def decimal_30)

lemma poll_all_down:
  assumes "\<forall>k. retry_count \<le> k \<and> k < max_retries \<longrightarrow> h k = Down"
    and "retry_count \<le> max_retries"
  shows "poll h retry_count out
     = (Some max_retries, out @ concat (map failed_round [retry_count..<max_retries]))"
  using assms
proof (induction h retry_count out rule: poll.induct)
  case (1 h retry_count out)
  show ?case
  proof (cases "retry_count < max_retries")
    case True
    then have down: "h retry_count = Down" using "1.prems" by simp
    have step: "poll h retry_count out
        = poll h (retry_count + 1) (out @ [Curl, waiting (retry_count + 1), Sleep 2])"
      using True down by (subst poll.simps) simp
    have "\<forall>k. retry_count + 1 \<le> k \<and> k < max_retries \<longrightarrow> h k = Down"
      using "1.prems" by simp
    moreover have "retry_count + 1 \<le> max_retries" using True by simp
    ultimately have ih:
      "poll h (retry_count + 1) (out @ [Curl, waiting (retry_count + 1), Sleep 2])
         = (Some max_retries, (out @ [Curl, waiting (retry_count + 1), Sleep 2])
              @ concat (map failed_round [retry_count + 1..<max_retries]))"
      using "1.IH" [OF True down] by blast
    have rounds: "concat (map failed_round [retry_count..<max_retries])
        = [Curl, waiting (retry_count + 1), Sleep 2]
          @ concat (map failed_round [retry_count + 1..<max_retries])"
      using True by (simp add: upt_conv_Cons failed_round_def)
    show ?thesis
      unfolding step ih rounds by simp
  next
    case False
    then have "poll h retry_count out = (Some retry_count, out)"
      by (subst poll.simps) simp
    then show ?thesis
      using "1.prems" False by simp
  qed
qed

lemma poll_probes_le:
  "probes (snd (poll h retry_count out)) \<le> probes out + (max_retries - retry_count)"
proof (induction h retry_count out rule: poll.induct)
  case (1 h retry_count out)
  show ?case
  proof (cases "retry_count < max_retries")
    case True
    show ?thesis
    proof (cases "h retry_count")
      case Up
      have "poll h retry_count out
          = (Some retry_count, out @ [Curl, Echo (check_mark @ '' API is ready!'')])"
        using True Up by (subst poll.simps) simp
      then show ?thesis using True by (simp add: probes_def)
    next
      case Down
      have step: "poll h retry_count out
          = poll h (retry_count + 1) (out @ [Curl, waiting (retry_count + 1), Sleep 2])"
        using True Down by (subst poll.simps) simp
      show ?thesis
        unfolding step using "1.IH" [OF True Down] True
        by (simp add: probes_append) (simp add: probes_def waiting_def)
    next
      case Silent
      have "poll h retry_count out = (None, out @ [Curl])"
        using True Silent by (subst poll.simps) simp
      then show ?thesis using True by (simp add: probes_def)
    qed
  next
    case False
    then have "poll h retry_count out = (Some retry_count, out)"
      by (subst poll.simps) simp
    then show ?thesis by simp
  qed
qed

lemma poll_down:
  "retry_count < max_retries \<Longrightarrow> h retry_count = Down
   \<Longrightarrow> poll h retry_count out = poll h (Suc retry_count) (out @ failed_round retry_count)"
  by (subst poll.simps) (simp add: failed_round_def)

lemma poll_silent:
  "retry_count < max_retries \<Longrightarrow> h retry_count = Silent
   \<Longrightarrow> poll h retry_count out = (None, out @ [Curl])"
  by (subst poll.simps) simp

lemma start_sh_probes_le: "probes (fst (start_sh env)) \<le> 30"
proof -
  obtain r out where po: "poll (health env) 0 before_poll = (r, out)"
    by (cases "poll (health env) 0 before_poll") blast
  have "probes out \<le> 30"
    using poll_probes_le [of "health env" 0 before_poll] po
    by (simp add: max_retries_def before_poll_obs)
  then show ?thesis
    using po
    by (cases r) (simp_all add: start_sh_def probes_append gave_up_obs,
      simp_all add: probes_def services_up_def banner_def)
qed

text \<open>The loop stays in a probe exactly when some probe never exits and all before it failed.\<close>

lemma poll_stuck:
  "fst (poll h retry_count out) = None
   \<longleftrightarrow> (\<exists>k. retry_count \<le> k \<and> k < max_retries \<and> h k = Silent
          \<and> (\<forall>j. retry_count \<le> j \<and> j < k \<longrightarrow> h j = Down))"
proof (induction h retry_count out rule: poll.induct)
  case (1 h retry_count out)
  show ?case
  proof (cases "retry_count < max_retries")
    case True
    show ?thesis
    proof (cases "h retry_count")
      case Up
      have "poll h retry_count out
          = (Some retry_count, out @ [Curl, Echo (check_mark @ '' API is ready!'')])"
        using True Up by (subst poll.simps) simp
      moreover have "\<not> (\<exists>k. retry_count \<le> k \<and> k < max_retries \<and> h k = Silent
          \<and> (\<forall>j. retry_count \<le> j \<and> j < k \<longrightarrow> h j = Down))"
      proof
        assume "\<exists>k. retry_count \<le> k \<and> k < max_retries \<and> h k = Silent
          \<and> (\<forall>j. retry_count \<le> j \<and> j < k \<longrightarrow> h j = Down)"
        then obtain k where k: "retry_count \<le> k" "h k = Silent"
          "\<forall>j. retry_count \<le> j \<and> j < k \<longrightarrow> h j = Down" by blast
        show False
        proof (cases "k = retry_count")
          case True
          then show False using k(2) Up by simp
        next
          case False
          then have "h retry_count = Down" using k(1) k(3) by simp
          then show False using Up by simp
        qed
      qed
      ultimately show ?thesis by simp
    next
      case Down
      have step: "poll h retry_count out
          = poll h (retry_count + 1) (out @ [Curl, waiting (retry_count + 1), Sleep 2])"
        using True Down by (subst poll.simps) simp
      have "(\<exists>k. retry_count + 1 \<le> k \<and> k < max_retries \<and> h k = Silent
                \<and> (\<forall>j. retry_count + 1 \<le> j \<and> j < k \<longrightarrow> h j = Down))
          \<longleftrightarrow> (\<exists>k. retry_count \<le> k \<and> k < max_retries \<and> h k = Silent
                \<and> (\<forall>j. retry_count \<le> j \<and> j < k \<longrightarrow> h j = Down))"
      proof
        assume "\<exists>k. retry_count + 1 \<le> k \<and> k < max_retries \<and> h k = Silent
                \<and> (\<forall>j. retry_count + 1 \<le> j \<and> j < k \<longrightarrow> h j = Down)"
        then obtain k where k: "retry_count + 1 \<le> k" "k < max_retries" "h k = Silent"
          "\<forall>j. retry_count + 1 \<le> j \<and> j < k \<longrightarrow> h j = Down" by blast
        have "\<forall>j. retry_count \<le> j \<and> j < k \<longrightarrow> h j = Down"
        proof (intro allI impI)
          fix j assume j: "retry_count \<le> j \<and> j < k"
          show "h j = Down"
          proof (cases "j = retry_count")
            case True
            then show ?thesis using Down by simp
          next
            case False
            then show ?thesis using j k(4) by simp
          qed
        qed
        then show "\<exists>k. retry_count \<le> k \<and> k < max_retries \<and> h k = Silent
                \<and> (\<forall>j. retry_count \<le> j \<and> j < k \<longrightarrow> h j = Down)"
          using k(1) k(2) k(3) by (intro exI [of _ k]) simp
      next
        assume "\<exists>k. retry_count \<le> k \<and> k < max_retries \<and> h k = Silent
                \<and> (\<forall>j. retry_count \<le> j \<and> j < k \<longrightarrow> h j = Down)"
        then obtain k where k: "retry_count \<le> k" "k < max_retries" "h k = Silent"
          "\<forall>j. retry_count \<le> j \<and> j < k \<longrightarrow> h j = Down" by blast
        have "k \<noteq> retry_count" using k(3) Down by auto
        then have "retry_count + 1 \<le> k" using k(1) by simp
        moreover have "\<forall>j. retry_count + 1 \<le> j \<and> j < k \<longrightarrow> h j = Down"
          using k(4) by simp
        ultimately show "\<exists>k. retry_count + 1 \<le> k \<and> k < max_retries \<and> h k = Silent
                \<and> (\<forall>j. retry_count + 1 \<le> j \<and> j < k \<longrightarrow> h j = Down)"
          using k(2) k(3) by (intro exI [of _ k]) simp
      qed
      then show ?thesis
        unfolding step using "1.IH" [OF True Down] by simp
    next
      case Silent
      have "poll h retry_count out = (None, out @ [Curl])"
        using True Silent by (subst poll.simps) simp
      moreover have "\<exists>k. retry_count \<le> k \<and> k < max_retries \<and> h k = Silent
          \<and> (\<forall>j. retry_count \<le> j \<and> j < k \<longrightarrow> h j = Down)"
        using True Silent by (intro exI [of _ retry_count]) auto
      ultimately show ?thesis by simp
    qed
  next
    case False
    then have "poll h retry_count out = (Some retry_count, out)"
      by (subst poll.simps) simp
    then show ?thesis using False by auto
  qed
qed

lemma start_sh_stuck:
  "snd (start_sh env) = None
   \<longleftrightarrow> docker_info_ok env \<and> compose_available env \<and> compose_up_status env = 0
       \<and> (\<exists>k<30. health env k = Silent \<and> (\<forall>j<k. health env j = Down))"
proof -
  obtain r out where po: "poll (health env) 0 before_poll = (r, out)"
    by (cases "poll (health env) 0 before_poll") blast
  have "r = None \<longleftrightarrow> (\<exists>k<30. health env k = Silent \<and> (\<forall>j<k. health env j = Down))"
    using poll_stuck [of "health env" 0 before_poll] po by (simp add: max_retries_def)
  then show ?thesis
    using po by (cases r) (simp_all add: start_sh_def)
qed

text \<open>
  Claim C9. Every run of the startup script makes at most 30 health probes. When
  Docker and docker-compose are there, the services start, and each of the 30 probes
  exits with a failure, the script runs exactly 30 rounds of probe, progress line and
  2-second sleep (30 probes and 60 seconds of sleep in the poll loop, after the fixed
  10 seconds before it), then prints the two diagnostic lines and exits with status 1.
  The script fails to exit in one case only: a probe never exits, all probes before it
  having failed.
\<close>

theorem start_sh_gives_up_after_30:
  "probes (fst (start_sh env)) \<le> 30
   \<and> (docker_info_ok env \<and> compose_available env \<and> compose_up_status env = 0
        \<and> (\<forall>k<30. health env k = Down)
      \<longrightarrow> start_sh env
          = (before_poll
              @ concat (map (\<lambda>k. [Curl,
                    Echo (''  Waiting... ('' @ decimal (k + 1) @ ''/30)''), Sleep 2]) [0..<30])
              @ [Echo ([CHR 0xE2, CHR 0x9D, CHR 0x8C] @ '' API did not start in time''),
                 Echo ''Check logs with: docker-compose logs''],
             Some 1)
        \<and> probes (fst (start_sh env)) = 30
        \<and> slept (snd (poll (health env) 0 [])) = 60
        \<and> slept (fst (start_sh env)) = 10 + 60)
   \<and> (snd (start_sh env) = None
      \<longleftrightarrow> docker_info_ok env \<and> compose_available env \<and> compose_up_status env = 0
          \<and> (\<exists>k<30. health env k = Silent \<and> (\<forall>j<k. health env j = Down)))"
proof (intro conjI impI)
  show "probes (fst (start_sh env)) \<le> 30" by (rule start_sh_probes_le)
next
  show "snd (start_sh env) = None
      \<longleftrightarrow> docker_info_ok env \<and> compose_available env \<and> compose_up_status env = 0
          \<and> (\<exists>k<30. health env k = Silent \<and> (\<forall>j<k. health env j = Down))"
    by (rule start_sh_stuck)
next
  assume a: "docker_info_ok env \<and> compose_available env \<and> compose_up_status env = 0
        \<and> (\<forall>k<30. health env k = Down)"
  have down: "\<forall>k. 0 \<le> k \<and> k < max_retries \<longrightarrow> health env k = Down"
    using a by (simp add: max_retries_def)
  have p: "poll (health env) 0 out
      = (Some max_retries, out @ concat (map failed_round [0..<30]))" for out
    using poll_all_down [OF down, of out] by (simp add: max_retries_def)
  have rounds: "map failed_round [0..<30]
      = map (\<lambda>k. [Curl, Echo (''  Waiting... ('' @ decimal (k + 1) @ ''/30)''), Sleep 2]) [0..<30]"
    by (rule map_cong) (simp_all only: failed_round_text)
  have run: "start_sh env
      = (before_poll @ concat (map failed_round [0..<30]) @ gave_up, Some 1)"
    using a p [of before_poll] by (simp add: start_sh_def)
  show "start_sh env
          = (before_poll
              @ concat (map (\<lambda>k. [Curl,
                    Echo (''  Waiting... ('' @ decimal (k + 1) @ ''/30)''), Sleep 2]) [0..<30])
              @ [Echo ([CHR 0xE2, CHR 0x9D, CHR 0x8C] @ '' API did not start in time''),
                 Echo ''Check logs with: docker-compose logs''],
             Some 1)"
    unfolding run rounds by (simp add: gave_up_def cross_mark_def)
  show "probes (fst (start_sh env)) = 30"
    unfolding run
    by (simp add: probes_append failed_rounds_obs gave_up_obs before_poll_obs)
  show "slept (snd (poll (health env) 0 [])) = 60"
    unfolding p by (simp add: failed_rounds_obs)
  show "slept (fst (start_sh env)) = 10 + 60"
    unfolding run
    by (simp add: slept_append failed_rounds_obs gave_up_obs before_poll_obs)
qed

theorem start_sh_gives_up_after_30_witness:
  "health never_up = (\<lambda>k. Down)
   \<and> snd (start_sh never_up) = Some 1
   \<and> probes (fst (start_sh never_up)) = 30
   \<and> slept (fst (start_sh never_up)) = 70
   \<and> (\<exists>evs. fst (start_sh never_up)
        = evs @ [Curl, Echo ''  Waiting... (30/30)'', Sleep 2,
                 Echo ([CHR 0xE2, CHR 0x9D, CHR 0x8C] @ '' API did not start in time''),
                 Echo ''Check logs with: docker-compose logs''])"
proof -
  have env: "docker_info_ok never_up \<and> compose_available never_up
      \<and> compose_up_status never_up = 0 \<and> (\<forall>k<30. health never_up k = Down)"
    by (simp add: never_up_def)
  note run = start_sh_gives_up_after_30 [of never_up]
  have whole: "start_sh never_up
          = (before_poll
              @ concat (map (\<lambda>k. [Curl,
                    Echo (''  Waiting... ('' @ decimal (k + 1) @ ''/30)''), Sleep 2]) [0..<30])
              @ [Echo ([CHR 0xE2, CHR 0x9D, CHR 0x8C] @ '' API did not start in time''),
                 Echo ''Check logs with: docker-compose logs''],
             Some 1)"
    and pr: "probes (fst (start_sh never_up)) = 30"
    and sl: "slept (fst (start_sh never_up)) = 10 + 60"
    using run env by blast+
  have last_round: "[0..<30] = [0..<29] @ [29]"
    by (simp add: upt_rec [of 0] numeral_eq_Suc) 
  have "\<exists>evs. fst (start_sh never_up)
        = evs @ [Curl, Echo ''  Waiting... (30/30)'', Sleep 2,
                 Echo ([CHR 0xE2, CHR 0x9D, CHR 0x8C] @ '' API did not start in time''),
                 Echo ''Check logs with: docker-compose logs'']"
    unfolding whole last_round
    by (simp add: decimal_30)
  moreover have "health never_up = (\<lambda>k. Down)" by (simp add: never_up_def)
  ultimately show ?thesis using whole pr sl by simp
qed

text \<open>
  A service that refuses three probes and then accepts the fourth without ever
  answering it: no health check succeeds, and the script makes four probes and never
  exits.
\<close>

theorem start_sh_unresponsive_counterexample:
  "(\<forall>k. health unresponsive k \<noteq> Up)
   \<and> snd (start_sh unresponsive) = None
   \<and> probes (fst (start_sh unresponsive)) = 4
   \<and> fst (start_sh unresponsive)
      = before_poll @ failed_round 0 @ failed_round 1 @ failed_round 2 @ [Curl]"
proof -
  have p: "poll (health unresponsive) 0 out
      = (None, out @ failed_round 0 @ failed_round 1 @ failed_round 2 @ [Curl])" for out
    by (simp add: poll_down poll_silent unresponsive_def max_retries_def numeral_2_eq_2)
  have run: "start_sh unresponsive
      = (before_poll @ failed_round 0 @ failed_round 1 @ failed_round 2 @ [Curl], None)"
    using p [of before_poll] by (simp add: start_sh_def) (simp add: unresponsive_def)
  show ?thesis
    unfolding run
    by (simp add: probes_append failed_round_obs before_poll_obs)
      (simp add: unresponsive_def probes_def)
qed

subsection \<open>Blueprint generator: project identity\<close>

lemma get_prop_not_null: "pkg \<noteq> JNull \<Longrightarrow> \<exists>v. get_prop pkg k = Inr v"
  by (cases pkg) simp_all

lemma identity_package_json:
  assumes "files ''package.json'' = Some (File (Json pkg))" and "pkg \<noteq> JNull"
  shows "reported_identity base files = Some (''Node.js/JavaScript'', ''JavaScript/TypeScript'')"
proof -
  obtain n v d where "get_prop pkg ''name'' = Inr n" "get_prop pkg ''version'' = Inr v"
    "get_prop pkg ''description'' = Inr d"
    using get_prop_not_null [OF assms(2)] by blast
  then show ?thesis
    using assms(1)
    by (simp add: reported_identity_def analyzeProjectInfo_def existsSync_def read_json_def)
qed

lemma identity_composer_json:
  assumes "files ''package.json'' = None" "files ''requirements.txt'' = None"
    "files ''pom.xml'' = None"
    "files ''composer.json'' = Some (File (Json composer))" and "composer \<noteq> JNull"
  shows "reported_identity base files = Some (''PHP'', ''PHP'')"
proof -
  obtain n v where "get_prop composer ''name'' = Inr n" "get_prop composer ''version'' = Inr v"
    using get_prop_not_null [OF assms(5)] by blast
  then show ?thesis
    using assms(1-4)
    by (simp add: reported_identity_def analyzeProjectInfo_def existsSync_def read_json_def)
qed

text \<open>
  Claim C5, as the code has it. Detection probes four literal names in order:
  \<open>package.json\<close>, \<open>requirements.txt\<close>, \<open>pom.xml\<close>, \<open>composer.json\<close>. The first one
  present decides type and language (a JSON manifest has to be a JSON document other
  than \<open>null\<close>, or detection throws); a Maven project is typed \<open>Java/Maven\<close>; with none of
  the four present the type and language are \<open>Unknown\<close>, whatever else the directory
  holds, \<open>pyproject.toml\<close> and \<open>build.gradle\<close> included.
\<close>

theorem analyzeProjectInfo_first_manifest:
  "(\<forall>pkg. files ''package.json'' = Some (File (Json pkg)) \<and> pkg \<noteq> JNull
      \<longrightarrow> reported_identity base files = Some (''Node.js/JavaScript'', ''JavaScript/TypeScript''))
   \<and> (files ''package.json'' = None \<and> files ''requirements.txt'' \<noteq> None
      \<longrightarrow> reported_identity base files = Some (''Python'', ''Python''))
   \<and> (files ''package.json'' = None \<and> files ''requirements.txt'' = None
        \<and> files ''pom.xml'' \<noteq> None
      \<longrightarrow> reported_identity base files = Some (''Java/Maven'', ''Java''))
   \<and> (\<forall>composer. files ''package.json'' = None \<and> files ''requirements.txt'' = None
        \<and> files ''pom.xml'' = None
        \<and> files ''composer.json'' = Some (File (Json composer)) \<and> composer \<noteq> JNull
      \<longrightarrow> reported_identity base files = Some (''PHP'', ''PHP''))
   \<and> (files ''package.json'' = None \<and> files ''requirements.txt'' = None
        \<and> files ''pom.xml'' = None \<and> files ''composer.json'' = None
      \<longrightarrow> reported_identity base files = Some (''Unknown'', ''Unknown''))"
proof (intro conjI allI impI)
  fix pkg
  assume "files ''package.json'' = Some (File (Json pkg)) \<and> pkg \<noteq> JNull"
  then show "reported_identity base files = Some (''Node.js/JavaScript'', ''JavaScript/TypeScript'')"
    using identity_package_json by blast
next
  assume "files ''package.json'' = None \<and> files ''requirements.txt'' \<noteq> None"
  then show "reported_identity base files = Some (''Python'', ''Python'')"
    by (simp add: reported_identity_def analyzeProjectInfo_def existsSync_def)
next
  assume "files ''package.json'' = None \<and> files ''requirements.txt'' = None
        \<and> files ''pom.xml'' \<noteq> None"
  then show "reported_identity base files = Some (''Java/Maven'', ''Java'')"
    by (simp add: reported_identity_def analyzeProjectInfo_def existsSync_def)
next
  fix composer
  assume "files ''package.json'' = None \<and> files ''requirements.txt'' = None
        \<and> files ''pom.xml'' = None
        \<and> files ''composer.json'' = Some (File (Json composer)) \<and> composer \<noteq> JNull"
  then show "reported_identity base files = Some (''PHP'', ''PHP'')"
    using identity_composer_json by blast
next
  assume "files ''package.json'' = None \<and> files ''requirements.txt'' = None
        \<and> files ''pom.xml'' = None \<and> files ''composer.json'' = None"
  then show "reported_identity base files = Some (''Unknown'', ''Unknown'')"
    by (simp add: reported_identity_def analyzeProjectInfo_def existsSync_def)
qed

text \<open>
  The witness: a directory with both \<open>package.json\<close> and \<open>requirements.txt\<close> is typed
  \<open>Node.js/JavaScript\<close>; one with \<open>requirements.txt\<close> and \<open>pom.xml\<close> is typed
  \<open>Python\<close>; an empty one is \<open>Unknown\<close>.
\<close>

theorem analyzeProjectInfo_first_manifest_witness:
  "reported_identity ''demo''
     (Map.empty(''package.json'' \<mapsto> File (Json (JObj [(''name'', JStr ''demo'')])),
                ''requirements.txt'' \<mapsto> File (Text ''flask'')))
     = Some (''Node.js/JavaScript'', ''JavaScript/TypeScript'')
   \<and> reported_identity ''demo''
     (Map.empty(''requirements.txt'' \<mapsto> File (Text ''flask''), ''pom.xml'' \<mapsto> File (Text ''<project/>'')))
     = Some (''Python'', ''Python'')
   \<and> reported_identity ''demo'' Map.empty = Some (''Unknown'', ''Unknown'')"
  using analyzeProjectInfo_first_manifest [of
      "Map.empty(''package.json'' \<mapsto> File (Json (JObj [(''name'', JStr ''demo'')])),
                 ''requirements.txt'' \<mapsto> File (Text ''flask''))" "''demo''"]
    analyzeProjectInfo_first_manifest [of
      "Map.empty(''requirements.txt'' \<mapsto> File (Text ''flask''), ''pom.xml'' \<mapsto> File (Text ''<project/>''))"
      "''demo''"]
    analyzeProjectInfo_first_manifest [of Map.empty "''demo''"]
  by simp

text \<open>
  The claim as stated fails: a directory that holds only \<open>pyproject.toml\<close>, or only
  \<open>build.gradle\<close>, is typed \<open>Unknown\<close>, not Python or Java.
\<close>

theorem analyzeProjectInfo_counterexample:
  "reported_identity ''demo'' (Map.empty(''pyproject.toml'' \<mapsto> File (Text ''[project]'')))
     = Some (''Unknown'', ''Unknown'')
   \<and> reported_identity ''demo'' (Map.empty(''build.gradle'' \<mapsto> File (Text ''plugins {}'')))
     = Some (''Unknown'', ''Unknown'')"
  by (simp add: reported_identity_def analyzeProjectInfo_def existsSync_def)

subsection \<open>Wizard: menu answers that select nothing\<close>






























subsection \<open>Wizard: the endpoint loop\<close>

lemma first_some_SomeD: "first_some xs = Some y \<Longrightarrow> Some y \<in> set xs"
proof -
  assume a: "first_some xs = Some y"
  then obtain r where "filter (\<lambda>x. x \<noteq> None) xs = Some y # r"
    by (auto simp: first_some_def split: list.splits)
  then have "Some y \<in> set (filter (\<lambda>x. x \<noteq> None) xs)" by simp
  then show ?thesis by simp
qed

lemma endpoint_regex_method:
  assumes "endpoint_regex line = Some (m1, m2, m3)"
  shows "toUpperCase m1 \<in> set http_methods"
proof -
  from first_some_SomeD [OF assms [unfolded endpoint_regex_def]]
  obtain m where "m \<in> set http_methods"
    and "(if length m \<le> length line \<and> toUpperCase (take (length m) line) = m then
           (case endpoint_tail (drop (length m) line) of
              None \<Rightarrow> None
            | Some (p, d) \<Rightarrow> Some (take (length m) line, p, d))
         else None) = Some (m1, m2, m3)"
    by auto
  then show ?thesis
    by (auto split: if_splits option.splits)
qed

lemma endpoint_of_method: "endpoint_of line = Some e \<Longrightarrow> ep_method e \<in> set http_methods"
  by (auto simp: endpoint_of_def split: option.splits dest: endpoint_regex_method)

lemma endpoint_loop_discards:
  "line \<noteq> [] \<Longrightarrow> endpoint_of line = None \<Longrightarrow> endpoint_loop apis (line # rest) = endpoint_loop apis rest"
  by simp

lemma endpoint_loop_until_empty:
  "\<forall>l \<in> set lines. l \<noteq> [] \<Longrightarrow>
   endpoint_loop apis (lines @ [] # rest) = Some (apis @ List.map_filter endpoint_of lines, rest)"
proof (induction lines arbitrary: apis)
  case Nil
  then show ?case by simp
next
  case (Cons l lines)
  then show ?case
    by (cases "endpoint_of l") simp_all
qed

lemma endpoint_loop_keeps_asking:
  "\<forall>l \<in> set lines. l \<noteq> [] \<Longrightarrow> endpoint_loop apis lines = None"
  by (induction lines arbitrary: apis) simp_all

lemma endpoint_example:
  "endpoint_of ''GET /api/users - Get all users''
     = Some \<lparr>ep_method = ''GET'', ep_path = ''/api/users'', ep_description = ''Get all users''\<rparr>"
  by code_simp

lemma endpoint_example_lower:
  "endpoint_of ''get /api/users - Get all users''
     = Some \<lparr>ep_method = ''GET'', ep_path = ''/api/users'', ep_description = ''Get all users''\<rparr>"
  by code_simp

text \<open>
  Claim C7. The line \<open>GET /api/users - Get all users\<close> gives the record GET,
  \<open>/api/users\<close>, \<open>Get all users\<close>, and so does the same line with the method in lower
  case; the method of every record is one of the five names in upper case. A non-empty
  line that does not match changes neither the list nor the course of the loop. The
  loop takes answers up to the first empty one and returns the records of those that
  match, in order; while no empty answer comes it keeps asking.
\<close>

theorem endpoint_loop_parses_and_discards:
  "endpoint_of ''GET /api/users - Get all users''
     = Some \<lparr>ep_method = ''GET'', ep_path = ''/api/users'', ep_description = ''Get all users''\<rparr>
   \<and> endpoint_of ''get /api/users - Get all users''
     = Some \<lparr>ep_method = ''GET'', ep_path = ''/api/users'', ep_description = ''Get all users''\<rparr>
   \<and> (\<forall>e. endpoint_of line = Some e \<longrightarrow> ep_method e \<in> set http_methods)
   \<and> (line \<noteq> [] \<and> endpoint_of line = None
        \<longrightarrow> endpoint_loop apis (line # rest) = endpoint_loop apis rest)
   \<and> ((\<forall>l \<in> set lines. l \<noteq> [])
        \<longrightarrow> endpoint_loop apis (lines @ [] # rest) = Some (apis @ List.map_filter endpoint_of lines, rest)
          \<and> endpoint_loop apis lines = None)"
  using endpoint_example endpoint_example_lower endpoint_of_method [of line]
    endpoint_loop_discards [of line apis rest]
    endpoint_loop_until_empty [of lines apis rest] endpoint_loop_keeps_asking [of lines apis]
  by simp

text \<open>
  The witness: three answers, the second of no known shape, then the empty answer. Two
  records come out and the answer after the empty one is left for the next question.
\<close>

theorem endpoint_loop_parses_and_discards_witness:
  "endpoint_of ''nonsense'' = None
   \<and> endpoint_of ''post /x - Create''
     = Some \<lparr>ep_method = ''POST'', ep_path = ''/x'', ep_description = ''Create''\<rparr>
   \<and> endpoint_loop [] (''nonsense'' # [''y'']) = endpoint_loop [] [''y'']
   \<and> endpoint_loop []
       ([''GET /api/users - Get all users'', ''nonsense'', ''post /x - Create''] @ [] # [''y''])
     = Some ([\<lparr>ep_method = ''GET'', ep_path = ''/api/users'', ep_description = ''Get all users''\<rparr>,
              \<lparr>ep_method = ''POST'', ep_path = ''/x'', ep_description = ''Create''\<rparr>], [''y''])"
proof -
  have n: "endpoint_of ''nonsense'' = None" by code_simp
  have p: "endpoint_of ''post /x - Create''
     = Some \<lparr>ep_method = ''POST'', ep_path = ''/x'', ep_description = ''Create''\<rparr>"
    by code_simp
  have g: "endpoint_of ''GET /api/users - Get all users''
     = Some \<lparr>ep_method = ''GET'', ep_path = ''/api/users'', ep_description = ''Get all users''\<rparr>"
    using endpoint_loop_parses_and_discards [of "[]" "[]" "[]" "[]"] by blast
  have d: "endpoint_loop [] (''nonsense'' # [''y'']) = endpoint_loop [] [''y'']"
    using endpoint_loop_parses_and_discards [of "''nonsense''" "[]" "[''y'']" "[]"] n by blast
  have ne: "\<forall>l \<in> set [''GET /api/users - Get all users'', ''nonsense'', ''post /x - Create'']. l \<noteq> []"
    by simp
  have l: "endpoint_loop []
       ([''GET /api/users - Get all users'', ''nonsense'', ''post /x - Create''] @ [] # [''y''])
     = Some ([] @ List.map_filter endpoint_of
         [''GET /api/users - Get all users'', ''nonsense'', ''post /x - Create''], [''y''])"
    using endpoint_loop_parses_and_discards [of "[]" "[]" "[''y'']"
        "[''GET /api/users - Get all users'', ''nonsense'', ''post /x - Create'']"] ne
    by blast
  have m: "List.map_filter endpoint_of
         [''GET /api/users - Get all users'', ''nonsense'', ''post /x - Create'']
     = [\<lparr>ep_method = ''GET'', ep_path = ''/api/users'', ep_description = ''Get all users''\<rparr>,
        \<lparr>ep_method = ''POST'', ep_path = ''/x'', ep_description = ''Create''\<rparr>]"
    by (simp add: n p g)
  show ?thesis
    unfolding l m using n p d by simp
qed

subsection \<open>Wizard: what a confirmed session writes\<close>

lemma then_ask_SomeD:
  "then_ask q k answers = Some r \<Longrightarrow> \<exists>v rest. q answers = Some (v, rest) \<and> k v rest = Some r"
  by (auto simp: then_ask_def split: option.splits)

lemma give_SomeD: "give v answers = Some r \<Longrightarrow> r = (v, answers)"
  by (simp add: give_def)

lemma interview_parts:
  assumes "interview arg answers = Some ((cfg, confirmed), rest)"
  shows "(\<exists>a r. gatherProjectInfo arg a = Some (cfg_project cfg, r))
    \<and> (\<exists>a r. defineDatabaseRequirements a = Some (cfg_database cfg, r))
    \<and> (\<exists>a r. defineDeploymentTargets a = Some (cfg_deployment cfg, r))"
  using assms unfolding interview_def
  by (auto dest!: then_ask_SomeD give_SomeD) blast+

lemma deployment_docker_flag:
  assumes "defineDeploymentTargets a = Some (dep, r)"
  shows "deploy_docker dep
    = (''docker'' \<in> set (deploy_targets dep) \<or> ''kubernetes'' \<in> set (deploy_targets dep))"
proof -
  from assms obtain deployChoice cicd where
    "dep = \<lparr>deploy_targets =
              List.map_filter (\<lambda>c. pick deployTargets (trim c)) (split_on CHR '','' deployChoice),
            deploy_cicd = cicd,
            deploy_docker =
              (''docker'' \<in> set (List.map_filter (\<lambda>c. pick deployTargets (trim c))
                                   (split_on CHR '','' deployChoice))
               \<or> ''kubernetes'' \<in> set (List.map_filter (\<lambda>c. pick deployTargets (trim c))
                                   (split_on CHR '','' deployChoice)))\<rparr>"
    unfolding defineDeploymentTargets_def
    by (auto dest!: then_ask_SomeD give_SomeD)
  then show ?thesis by simp
qed

lemma menu_in_table: "dflt \<in> set options \<Longrightarrow> menu options dflt answer \<in> set options"
  by (auto simp: menu_def pick_def split: option.splits)

lemma database_type_in_table:
  assumes "defineDatabaseRequirements a = Some (db, r)"
  shows "db_type db = ''none'' \<or> db_type db \<in> set databases"
proof -
  have m: "menu databases ''postgresql'' c \<in> set databases" for c
    by (rule menu_in_table) (simp add: databases_def)
  from assms show ?thesis
    unfolding defineDatabaseRequirements_def
    using m
    by (auto dest!: then_ask_SomeD give_SomeD split: if_splits)
qed

lemma writes_to_append: "writes_to p (xs @ ys) = writes_to p xs @ writes_to p ys"
  by (induction p xs rule: writes_to.induct) simp_all

lemma writes_to_mkdirs: "writes_to p (map (\<lambda>x. MkdirIfMissing (f x)) xs) = []"
  by (induction xs) simp_all

text \<open>Joining the fixed names of the wizard.\<close>

lemma join_dir_names:
  "join_dir dir ''PROJECT-BLUEPRINT.md'' = dir @ [''PROJECT-BLUEPRINT.md'']"
  "join_dir dir ''.gitignore'' = dir @ [''.gitignore'']"
  "join_dir dir ''README.md'' = dir @ [''README.md'']"
  "join_dir dir ''.env.example'' = dir @ [''.env.example'']"
  "join_dir dir ''Dockerfile'' = dir @ [''Dockerfile'']"
  "join_dir dir ''docker-compose.yml'' = dir @ [''docker-compose.yml'']"
  "join_dir dir ''.git'' = dir @ [''.git'']"
  "join_dir dir ''.github'' = dir @ [''.github'']"
  "join_dir dir ''workflows'' = dir @ [''workflows'']"
  "join_dir dir ''ci-cd.yml'' = dir @ [''ci-cd.yml'']"
  by (simp_all add: join_dir_def segments_def)

lemma join_dir_dirs:
  "join_dir dir ''src'' = dir @ [''src'']"
  "join_dir dir ''tests'' = dir @ [''tests'']"
  "join_dir dir ''docs'' = dir @ [''docs'']"
  "join_dir dir ''config'' = dir @ [''config'']"
  "join_dir dir ''.github/workflows'' = dir @ [''.github'', ''workflows'']"
  "join_dir dir ''src/controllers'' = dir @ [''src'', ''controllers'']"
  "join_dir dir ''src/models'' = dir @ [''src'', ''models'']"
  "join_dir dir ''src/routes'' = dir @ [''src'', ''routes'']"
  "join_dir dir ''src/middleware'' = dir @ [''src'', ''middleware'']"
  "join_dir dir ''src/utils'' = dir @ [''src'', ''utils'']"
  "join_dir dir ''src/api'' = dir @ [''src'', ''api'']"
  "join_dir dir ''src/services'' = dir @ [''src'', ''services'']"
  by (simp_all add: join_dir_def segments_def)

lemma segments_services: "segments (''services/'' @ component) = ''services'' # segments component"
  by (simp add: segments_def)

lemma resolve_in_place:
  "''..'' \<notin> set parts \<Longrightarrow> resolve dir parts = dir @ filter (\<lambda>part. part \<noteq> ''.'') parts"
  by (induction parts arbitrary: dir) auto

lemma join_dir_services:
  "''..'' \<notin> set (segments component)
   \<Longrightarrow> join_dir dir (''services/'' @ component)
       = dir @ ''services'' # filter (\<lambda>part. part \<noteq> ''.'') (segments component)"
  unfolding join_dir_def segments_services by (simp add: resolve_in_place)

text \<open>What one call, and a list of calls, leaves at a path it does not write to.\<close>

lemma in_way_to: "q \<in> set (way_to p) \<longleftrightarrow> (\<exists>k. 1 \<le> k \<and> k \<le> length p \<and> q = take k p)"
  by (auto simp: way_to_def)

lemma not_document: "\<not> is_document e \<longleftrightarrow> e = None \<or> e = Some Directory"
  by (cases e rule: is_document.cases) simp_all

lemma mkdir_recursive_Inr:
  assumes "mkdir_recursive p d = Inr d'"
  shows "valid_path p" and "\<forall>q\<in>set (way_to p). \<not> is_document (d q)"
    and "d' = (\<lambda>q. if q \<in> set (way_to p) then Some Directory else d q)"
  using assms
  by (auto simp: mkdir_recursive_def find_None_iff split: if_splits option.splits)

lemma mkdir_recursive_ok:
  assumes "valid_path p" and "\<forall>q\<in>set (way_to p). \<not> is_document (d q)"
  shows "mkdir_recursive p d = Inr (\<lambda>q. if q \<in> set (way_to p) then Some Directory else d q)"
proof -
  have "find (\<lambda>q. is_document (d q)) (way_to p) = None"
    using assms(2) by (simp add: find_None_iff)
  then show ?thesis using assms(1) by (simp add: mkdir_recursive_def)
qed

lemma mkdir_recursive_at:
  assumes "mkdir_recursive p d = Inr d'"
  shows "d' q = d q \<or> (d q = None \<and> d' q = Some Directory \<and> q \<in> set (way_to p))"
proof (cases "q \<in> set (way_to p)")
  case True
  then have "\<not> is_document (d q)" using mkdir_recursive_Inr(2) [OF assms] by simp
  then have "d q = None \<or> d q = Some Directory" by (simp add: not_document)
  moreover have "d' q = Some Directory" using mkdir_recursive_Inr(3) [OF assms] True by simp
  ultimately show ?thesis using True by auto
next
  case False
  then show ?thesis using mkdir_recursive_Inr(3) [OF assms] by simp
qed

lemma write_file_Inr:
  assumes "write_file p x d = Inr d'"
  shows "d' = d(p \<mapsto> Document x)"
  using assms
  by (auto simp: write_file_def split: if_splits option.splits entry.splits)

lemma do_call_at:
  assumes "do_call c d = Inr d'" and "writes_to p [c] = []"
  shows "d' p = d p \<or> (d p = None \<and> d' p = Some Directory)"
proof (cases c)
  case (MkdirIfMissing q)
  show ?thesis
  proof (cases "exists_path q d")
    case True
    then show ?thesis using assms(1) MkdirIfMissing by simp
  next
    case False
    then have "mkdir_recursive q d = Inr d'" using assms(1) MkdirIfMissing by simp
    then show ?thesis using mkdir_recursive_at [of q d d' p] by blast
  qed
next
  case (Mkdir q)
  then have "mkdir_recursive q d = Inr d'" using assms(1) by simp
  then show ?thesis using mkdir_recursive_at [of q d d' p] by blast
next
  case (WriteFile q x)
  then have "q \<noteq> p" using assms(2) by (simp split: if_splits)
  moreover have "d' = d(q \<mapsto> Document x)"
    using assms(1) WriteFile write_file_Inr by simp
  ultimately show ?thesis by simp
qed

lemma writes_to_Cons: "writes_to p (c # cs) = writes_to p [c] @ writes_to p cs"
  using writes_to_append [of p "[c]" cs] by simp

lemma perform_at:
  assumes "perform cs d = Inr d'" and "writes_to p cs = []"
  shows "d' p = d p \<or> (d p = None \<and> d' p = Some Directory)"
  using assms
proof (induction cs arbitrary: d)
  case Nil
  then show ?case by simp
next
  case (Cons c cs)
  from Cons.prems(1) obtain d1 where c: "do_call c d = Inr d1" and r: "perform cs d1 = Inr d'"
    by (auto split: sum.splits)
  have w: "writes_to p [c] = []" "writes_to p cs = []"
    using Cons.prems(2) writes_to_Cons [of p c cs] by simp_all
  have one: "d1 p = d p \<or> (d p = None \<and> d1 p = Some Directory)"
    by (rule do_call_at [OF c w(1)])
  have two: "d' p = d1 p \<or> (d1 p = None \<and> d' p = Some Directory)"
    by (rule Cons.IH [OF r w(2)])
  show ?case using one two by auto
qed

text \<open>After the calls, a path that was written to holds what was written to it last.\<close>

lemma perform_written:
  assumes "perform cs d = Inr d'" and "writes_to p cs \<noteq> []"
  shows "d' p = Some (Document (last (writes_to p cs)))"
  using assms
proof (induction cs arbitrary: d)
  case Nil
  then show ?case by simp
next
  case (Cons c cs)
  from Cons.prems(1) obtain d1 where c: "do_call c d = Inr d1" and r: "perform cs d1 = Inr d'"
    by (auto split: sum.splits)
  show ?case
  proof (cases "writes_to p cs = []")
    case True
    then have "writes_to p [c] \<noteq> []" using Cons.prems(2) writes_to_Cons [of p c cs] by simp
    then obtain x where cx: "c = WriteFile p x"
      by (cases c) (simp_all split: if_splits)
    then have "d1 p = Some (Document x)" using c write_file_Inr [of p x d d1] by simp
    then have "d' p = Some (Document x)" using perform_at [OF r True] by auto
    then show ?thesis using True cx by simp
  next
    case False
    have "d' p = Some (Document (last (writes_to p cs)))" by (rule Cons.IH [OF r False])
    then show ?thesis using False writes_to_Cons [of p c cs] by simp
  qed
qed

lemma dockerfile_empty:
  "(dockerfile cfg = []) = (project_language (cfg_project cfg) \<noteq> ''nodejs''
      \<and> project_language (cfg_project cfg) \<noteq> ''python'')"
  by (simp add: dockerfile_def)

lemma session_writes_Dockerfile:
  "writes_to (join_dir dir ''Dockerfile'') (session_calls dir cfg)
   = (if deploy_docker (cfg_deployment cfg) \<and> dockerfile cfg \<noteq> []
      then [Plain (dockerfile cfg)] else [])"
  by (simp add: session_calls_def createProjectStructure_def generateBlueprint_def
      generateTemplates_def generateGitignore_def generateReadme_def generateEnvTemplate_def
      generateDockerfiles_def generateCICD_def writes_to_append writes_to_mkdirs join_dir_names)

lemma session_writes_compose:
  "writes_to (join_dir dir ''docker-compose.yml'') (session_calls dir cfg)
   = (if deploy_docker (cfg_deployment cfg)
      then [Plain (join_lines (compose_lines cfg))] else [])"
  by (simp add: session_calls_def createProjectStructure_def generateBlueprint_def
      generateTemplates_def generateGitignore_def generateReadme_def generateEnvTemplate_def
      generateDockerfiles_def generateCICD_def writes_to_append writes_to_mkdirs join_dir_names)

lemma initializeGit_other: "p \<noteq> join_dir dir ''.git'' \<Longrightarrow> initializeGit g dir d p = d p"
  by (simp add: initializeGit_def)

lemma run_wizard_confirmed:
  assumes "interview arg answers = Some ((cfg, True), rest)"
  shows "run_wizard g cwd arg answers d
    = Some (case perform (session_calls (projectDir cwd cfg) cfg) d of
              Inl e \<Rightarrow> InitializationFailed e
            | Inr d' \<Rightarrow> Completed (initializeGit g (projectDir cwd cfg) d'))"
  using assms by (simp add: run_wizard_def)

text \<open>
  The two container files after a session that confirmed and completed, against the
  disk \<open>d\<close> before it.
\<close>

lemma session_container_files:
  assumes i: "interview arg answers = Some ((cfg, True), rest)"
    and r: "run_wizard g cwd arg answers d = Some (Completed d')"
  shows "deploy_docker (cfg_deployment cfg)
      \<Longrightarrow> d' (join_dir (projectDir cwd cfg) ''docker-compose.yml'')
          = Some (Document (Plain (join_lines (compose_lines cfg))))"
    and "deploy_docker (cfg_deployment cfg)
      \<Longrightarrow> project_language (cfg_project cfg) = ''nodejs''
          \<or> project_language (cfg_project cfg) = ''python''
      \<Longrightarrow> d' (join_dir (projectDir cwd cfg) ''Dockerfile'')
          = Some (Document (Plain (dockerfile cfg)))"
    and "\<not> deploy_docker (cfg_deployment cfg)
      \<Longrightarrow> d' (join_dir (projectDir cwd cfg) ''docker-compose.yml'')
            = d (join_dir (projectDir cwd cfg) ''docker-compose.yml'')
          \<or> d (join_dir (projectDir cwd cfg) ''docker-compose.yml'') = None
            \<and> d' (join_dir (projectDir cwd cfg) ''docker-compose.yml'') = Some Directory"
    and "\<not> (deploy_docker (cfg_deployment cfg)
            \<and> (project_language (cfg_project cfg) = ''nodejs''
                \<or> project_language (cfg_project cfg) = ''python''))
      \<Longrightarrow> d' (join_dir (projectDir cwd cfg) ''Dockerfile'')
            = d (join_dir (projectDir cwd cfg) ''Dockerfile'')
          \<or> d (join_dir (projectDir cwd cfg) ''Dockerfile'') = None
            \<and> d' (join_dir (projectDir cwd cfg) ''Dockerfile'') = Some Directory"
proof -
  from r obtain d0 where p: "perform (session_calls (projectDir cwd cfg) cfg) d = Inr d0"
    and d': "d' = initializeGit g (projectDir cwd cfg) d0"
    unfolding run_wizard_confirmed [OF i] by (auto split: sum.splits)
  have git: "d' (join_dir (projectDir cwd cfg) ''docker-compose.yml'')
      = d0 (join_dir (projectDir cwd cfg) ''docker-compose.yml'')"
    "d' (join_dir (projectDir cwd cfg) ''Dockerfile'')
      = d0 (join_dir (projectDir cwd cfg) ''Dockerfile'')"
    unfolding d' by (rule initializeGit_other, simp add: join_dir_names)+
  show "deploy_docker (cfg_deployment cfg)
      \<Longrightarrow> d' (join_dir (projectDir cwd cfg) ''docker-compose.yml'')
          = Some (Document (Plain (join_lines (compose_lines cfg))))"
    using perform_written [OF p, of "join_dir (projectDir cwd cfg) ''docker-compose.yml''"] git(1)
    by (simp add: session_writes_compose)
  show "deploy_docker (cfg_deployment cfg)
      \<Longrightarrow> project_language (cfg_project cfg) = ''nodejs''
          \<or> project_language (cfg_project cfg) = ''python''
      \<Longrightarrow> d' (join_dir (projectDir cwd cfg) ''Dockerfile'')
          = Some (Document (Plain (dockerfile cfg)))"
    using perform_written [OF p, of "join_dir (projectDir cwd cfg) ''Dockerfile''"] git(2)
    by (simp add: session_writes_Dockerfile dockerfile_empty)
  show "\<not> deploy_docker (cfg_deployment cfg)
      \<Longrightarrow> d' (join_dir (projectDir cwd cfg) ''docker-compose.yml'')
            = d (join_dir (projectDir cwd cfg) ''docker-compose.yml'')
          \<or> d (join_dir (projectDir cwd cfg) ''docker-compose.yml'') = None
            \<and> d' (join_dir (projectDir cwd cfg) ''docker-compose.yml'') = Some Directory"
    using perform_at [OF p, of "join_dir (projectDir cwd cfg) ''docker-compose.yml''"] git(1)
    by (simp add: session_writes_compose)
  show "\<not> (deploy_docker (cfg_deployment cfg)
            \<and> (project_language (cfg_project cfg) = ''nodejs''
                \<or> project_language (cfg_project cfg) = ''python''))
      \<Longrightarrow> d' (join_dir (projectDir cwd cfg) ''Dockerfile'')
            = d (join_dir (projectDir cwd cfg) ''Dockerfile'')
          \<or> d (join_dir (projectDir cwd cfg) ''Dockerfile'') = None
            \<and> d' (join_dir (projectDir cwd cfg) ''Dockerfile'') = Some Directory"
    using perform_at [OF p, of "join_dir (projectDir cwd cfg) ''Dockerfile''"] git(2)
    by (simp add: session_writes_Dockerfile dockerfile_empty)
qed

text \<open>Paths made of names without a NUL character are valid.\<close>

lemma valid_split_on:
  "CHR 0x00 \<notin> set s \<Longrightarrow> list_all (\<lambda>name. CHR 0x00 \<notin> set name) (split_on c s)"
  by (induction s) (auto split: list.splits)

lemma valid_segments: "CHR 0x00 \<notin> set rel \<Longrightarrow> valid_path (segments rel)"
  using valid_split_on [of rel "CHR ''/''"]
  by (simp add: valid_path_def segments_def list_all_iff)

lemma valid_butlast: "valid_path dir \<Longrightarrow> valid_path (butlast dir)"
  by (auto simp: valid_path_def list_all_iff dest: in_set_butlastD)

lemma valid_resolve: "valid_path dir \<Longrightarrow> valid_path parts \<Longrightarrow> valid_path (resolve dir parts)"
proof (induction parts arbitrary: dir)
  case Nil
  then show ?case by simp
next
  case (Cons part parts)
  have rest: "valid_path parts" and part: "CHR 0x00 \<notin> set part"
    using Cons.prems(2) by (simp_all add: valid_path_def)
  have "valid_path (dir @ [part])" using Cons.prems(1) part by (simp add: valid_path_def)
  then show ?case
    using Cons.IH [OF _ rest] Cons.prems(1) valid_butlast [of dir] by simp
qed

lemma valid_join_dir: "valid_path dir \<Longrightarrow> CHR 0x00 \<notin> set rel \<Longrightarrow> valid_path (join_dir dir rel)"
  by (simp add: join_dir_def valid_resolve valid_segments)

text \<open>The way to a path.\<close>

lemma take_not_longer: "take k dir \<noteq> dir @ x # xs"
proof
  assume "take k dir = dir @ x # xs"
  then have "length (take k dir) = length (dir @ x # xs)" by simp
  then show False by simp
qed

lemma in_way_to_snoc: "q \<in> set (way_to (p @ [a])) \<longleftrightarrow> q \<in> set (way_to p) \<or> q = p @ [a]"
proof
  assume "q \<in> set (way_to (p @ [a]))"
  then obtain k where k: "1 \<le> k" "k \<le> length (p @ [a])" "q = take k (p @ [a])"
    unfolding in_way_to by blast
  show "q \<in> set (way_to p) \<or> q = p @ [a]"
  proof (cases "k \<le> length p")
    case True
    then have "q = take k p" using k(3) by simp
    then show ?thesis using k(1) True in_way_to by blast
  next
    case False
    then have "k = Suc (length p)" using k(2) by simp
    then show ?thesis using k(3) by simp
  qed
next
  assume "q \<in> set (way_to p) \<or> q = p @ [a]"
  then show "q \<in> set (way_to (p @ [a]))"
  proof
    assume "q \<in> set (way_to p)"
    then obtain k where k: "1 \<le> k" "k \<le> length p" "q = take k p"
      unfolding in_way_to by blast
    then have "1 \<le> k \<and> k \<le> length (p @ [a]) \<and> q = take k (p @ [a])" by simp
    then show ?thesis unfolding in_way_to by blast
  next
    assume "q = p @ [a]"
    then have "1 \<le> Suc (length p) \<and> Suc (length p) \<le> length (p @ [a])
        \<and> q = take (Suc (length p)) (p @ [a])" by simp
    then show ?thesis unfolding in_way_to by blast
  qed
qed

lemma way_to_is_take: "q \<in> set (way_to p) \<Longrightarrow> \<exists>k. q = take k p"
  unfolding in_way_to by blast

lemma self_in_way_to: "p \<noteq> [] \<Longrightarrow> p \<in> set (way_to p)"
proof -
  assume "p \<noteq> []"
  then have "1 \<le> length p \<and> length p \<le> length p \<and> p = take (length p) p"
    by (cases p) simp_all
  then show ?thesis unfolding in_way_to by blast
qed

lemma way_below:
  assumes "q \<in> set (way_to (dir @ s))"
  shows "(\<exists>k. q = take k dir) \<or> (\<exists>k. take k s \<noteq> [] \<and> q = dir @ take k s)"
proof -
  from assms obtain k where k: "q = take k (dir @ s)" using way_to_is_take by blast
  show ?thesis
  proof (cases "take (k - length dir) s = []")
    case True
    then have "q = take k dir" using k by simp
    then show ?thesis by blast
  next
    case False
    then have "length dir < k" by (cases "length dir < k") simp_all
    then have "q = dir @ take (k - length dir) s" using k by simp
    then show ?thesis using False by blast
  qed
qed

lemma vacant_way:
  assumes "vacant dir d" and "q \<in> set (way_to (dir @ s))"
  shows "\<not> is_document (d q)"
  using way_below [OF assms(2)]
proof
  assume "\<exists>k. q = take k dir"
  then show ?thesis using assms(1) by (auto simp: vacant_def)
next
  assume "\<exists>k. take k s \<noteq> [] \<and> q = dir @ take k s"
  then obtain k where "take k s \<noteq> []" "q = dir @ take k s" by blast
  then have "d q = None" using assms(1) by (simp add: vacant_def)
  then show ?thesis by simp
qed

lemma name_on_way:
  assumes "dir @ [name] \<in> set (way_to (dir @ a # t))"
  shows "name = a"
proof -
  from way_below [OF assms] have "\<exists>k. take k (a # t) \<noteq> [] \<and> dir @ [name] = dir @ take k (a # t)"
    using take_not_longer [of _ dir name "[]"] by (metis)
  then obtain k where k: "take k (a # t) \<noteq> []" "[name] = take k (a # t)" by auto
  then show ?thesis by (cases k) simp_all
qed

lemma name_not_on_way_up: "dir @ name # names \<notin> set (way_to dir)"
  using way_to_is_take [of "dir @ name # names" dir] take_not_longer [of _ dir name names]
  by metis

lemma three_on_way:
  assumes "dir @ [a1, a2, a3] \<in> set (way_to (dir @ a # t))"
  shows "a = a1 \<and> 2 \<le> length t"
proof -
  from way_below [OF assms]
  have "\<exists>k. take k (a # t) \<noteq> [] \<and> dir @ [a1, a2, a3] = dir @ take k (a # t)"
    using take_not_longer [of _ dir a1 "[a2, a3]"] by metis
  then obtain k where k: "[a1, a2, a3] = take k (a # t)" by auto
  then have "length [a1, a2, a3] = length (take k (a # t))" by simp
  then have "2 \<le> length t" by simp
  moreover have "a = a1" using k by (cases k) simp_all
  ultimately show ?thesis by simp
qed

text \<open>
  Conditional directories: when no document stands on the way to any of them, they are
  all made, nothing else changes, and each of them is a directory afterwards.
\<close>

lemma mkdirs_succeed:
  assumes "\<forall>p\<in>set ps. valid_path p"
    and "\<forall>p\<in>set ps. \<forall>q\<in>set (way_to p). \<not> is_document (d q)"
  shows "\<exists>d'. perform (map MkdirIfMissing ps) d = Inr d'
    \<and> (\<forall>q. d' q = d q \<or> (d q = None \<and> d' q = Some Directory \<and> (\<exists>p\<in>set ps. q \<in> set (way_to p))))
    \<and> (\<forall>p\<in>set ps. p \<noteq> [] \<longrightarrow> d' p = Some Directory)"
  using assms
proof (induction ps arbitrary: d)
  case Nil
  then show ?case by simp
next
  case (Cons p ps)
  have vp: "valid_path p" and clear: "\<forall>q\<in>set (way_to p). \<not> is_document (d q)"
    using Cons.prems by simp_all
  define d1 where "d1 = (if exists_path p d then d
      else (\<lambda>q. if q \<in> set (way_to p) then Some Directory else d q))"
  have call: "do_call (MkdirIfMissing p) d = Inr d1"
    using mkdir_recursive_ok [OF vp clear] by (simp add: d1_def)
  have at: "d1 q = d q \<or> (d q = None \<and> d1 q = Some Directory \<and> q \<in> set (way_to p))" for q
  proof (cases "q \<in> set (way_to p) \<and> \<not> exists_path p d")
    case True
    then have "d q = None \<or> d q = Some Directory" using clear by (simp add: not_document)
    then show ?thesis using True by (auto simp: d1_def)
  next
    case False
    then show ?thesis by (auto simp: d1_def)
  qed
  have here: "p \<noteq> [] \<longrightarrow> d1 p = Some Directory"
  proof
    assume ne: "p \<noteq> []"
    show "d1 p = Some Directory"
    proof (cases "exists_path p d")
      case True
      then have "d p \<noteq> None" using ne by (simp add: exists_path_def)
      moreover have "\<not> is_document (d p)" using clear self_in_way_to [OF ne] by simp
      ultimately have "d p = Some Directory" by (auto simp: not_document)
      then show ?thesis using True by (simp add: d1_def)
    next
      case False
      then show ?thesis using self_in_way_to [OF ne] by (simp add: d1_def)
    qed
  qed
  have "\<forall>p\<in>set ps. valid_path p" using Cons.prems(1) by simp
  moreover have "\<forall>p'\<in>set ps. \<forall>q\<in>set (way_to p'). \<not> is_document (d1 q)"
  proof (intro ballI)
    fix p' q assume "p' \<in> set ps" "q \<in> set (way_to p')"
    then have "\<not> is_document (d q)" using Cons.prems(2) by simp
    then show "\<not> is_document (d1 q)" using at [of q] by auto
  qed
  ultimately obtain d' where rest: "perform (map MkdirIfMissing ps) d1 = Inr d'"
    and at': "\<forall>q. d' q = d1 q
        \<or> (d1 q = None \<and> d' q = Some Directory \<and> (\<exists>p\<in>set ps. q \<in> set (way_to p)))"
    and here': "\<forall>p\<in>set ps. p \<noteq> [] \<longrightarrow> d' p = Some Directory"
    using Cons.IH [of d1] by blast
  have "perform (map MkdirIfMissing (p # ps)) d = Inr d'"
    using call rest by simp
  moreover have "\<forall>q. d' q = d q
      \<or> (d q = None \<and> d' q = Some Directory \<and> (\<exists>p\<in>set (p # ps). q \<in> set (way_to p)))"
  proof
    fix q
    show "d' q = d q
      \<or> (d q = None \<and> d' q = Some Directory \<and> (\<exists>p\<in>set (p # ps). q \<in> set (way_to p)))"
      using at [of q] at' [rule_format, of q] by auto
  qed
  moreover have "\<forall>p'\<in>set (p # ps). p' \<noteq> [] \<longrightarrow> d' p' = Some Directory"
  proof (intro ballI impI)
    fix p' assume in_list: "p' \<in> set (p # ps)" and ne: "p' \<noteq> []"
    show "d' p' = Some Directory"
    proof (cases "p' \<in> set ps")
      case True
      then show ?thesis using here' ne by simp
    next
      case False
      then have "p' = p" using in_list by simp
      then have "d1 p' = Some Directory" using here ne by simp
      then show ?thesis using at' [rule_format, of p'] by auto
    qed
  qed
  ultimately show ?case by blast
qed

text \<open>Where the directories of a session that stays in place are.\<close>

lemma dirs_cases:
  assumes "x \<in> set (dirs cfg)"
  shows "x \<in> set ([''src'', ''tests'', ''docs'', ''config'', ''.github/workflows'']
           @ [''src/controllers'', ''src/models'', ''src/routes'', ''src/middleware'', ''src/utils'']
           @ [''src/api'', ''src/models'', ''src/services'', ''src/utils''])
    \<or> (arch_pattern (cfg_architecture cfg) = ''microservices''
       \<and> (\<exists>component\<in>set (arch_components (cfg_architecture cfg)). x = ''services/'' @ component))"
proof -
  have parts: "x \<in> set [''src'', ''tests'', ''docs'', ''config'', ''.github/workflows'']
      \<or> x \<in> set (if project_language (cfg_project cfg) = ''nodejs'' then
             [''src/controllers'', ''src/models'', ''src/routes'', ''src/middleware'', ''src/utils'']
           else if project_language (cfg_project cfg) = ''python'' then
             [''src/api'', ''src/models'', ''src/services'', ''src/utils'']
           else [])
      \<or> x \<in> set (if arch_pattern (cfg_architecture cfg) = ''microservices'' then
             map (\<lambda>component. ''services/'' @ component) (arch_components (cfg_architecture cfg))
           else [])"
    using assms unfolding dirs_def by (simp only: set_append Un_iff)
  have language: "x \<in> set [''src/controllers'', ''src/models'', ''src/routes'', ''src/middleware'',
          ''src/utils'']
      \<or> x \<in> set [''src/api'', ''src/models'', ''src/services'', ''src/utils'']"
    if "x \<in> set (if project_language (cfg_project cfg) = ''nodejs'' then
             [''src/controllers'', ''src/models'', ''src/routes'', ''src/middleware'', ''src/utils'']
           else if project_language (cfg_project cfg) = ''python'' then
             [''src/api'', ''src/models'', ''src/services'', ''src/utils'']
           else [])"
  proof -
    consider (node) "project_language (cfg_project cfg) = ''nodejs''"
      | (python) "project_language (cfg_project cfg) \<noteq> ''nodejs''"
          "project_language (cfg_project cfg) = ''python''"
      | (other) "project_language (cfg_project cfg) \<noteq> ''nodejs''"
          "project_language (cfg_project cfg) \<noteq> ''python''"
      by blast
    then show ?thesis
    proof cases
      case node
      have "x \<in> set [''src/controllers'', ''src/models'', ''src/routes'', ''src/middleware'',
            ''src/utils'']"
      proof -
        have "(if project_language (cfg_project cfg) = ''nodejs'' then
             [''src/controllers'', ''src/models'', ''src/routes'', ''src/middleware'', ''src/utils'']
           else if project_language (cfg_project cfg) = ''python'' then
             [''src/api'', ''src/models'', ''src/services'', ''src/utils'']
           else [])
            = [''src/controllers'', ''src/models'', ''src/routes'', ''src/middleware'', ''src/utils'']"
          using node by simp
        then show ?thesis using that by (simp only:)
      qed
      then show ?thesis ..
    next
      case python
      have "x \<in> set [''src/api'', ''src/models'', ''src/services'', ''src/utils'']"
      proof -
        have "(if project_language (cfg_project cfg) = ''nodejs'' then
             [''src/controllers'', ''src/models'', ''src/routes'', ''src/middleware'', ''src/utils'']
           else if project_language (cfg_project cfg) = ''python'' then
             [''src/api'', ''src/models'', ''src/services'', ''src/utils'']
           else [])
            = [''src/api'', ''src/models'', ''src/services'', ''src/utils'']"
          using python by simp
        then show ?thesis using that by (simp only:)
      qed
      then show ?thesis ..
    next
      case other
      have "x \<in> set []"
      proof -
        have "(if project_language (cfg_project cfg) = ''nodejs'' then
             [''src/controllers'', ''src/models'', ''src/routes'', ''src/middleware'', ''src/utils'']
           else if project_language (cfg_project cfg) = ''python'' then
             [''src/api'', ''src/models'', ''src/services'', ''src/utils'']
           else []) = []"
          using other by simp
        then show ?thesis using that by (simp only:)
      qed
      then show ?thesis by simp
    qed
  qed
  have services: "arch_pattern (cfg_architecture cfg) = ''microservices''
       \<and> (\<exists>component\<in>set (arch_components (cfg_architecture cfg)). x = ''services/'' @ component)"
    if "x \<in> set (if arch_pattern (cfg_architecture cfg) = ''microservices'' then
             map (\<lambda>component. ''services/'' @ component) (arch_components (cfg_architecture cfg))
           else [])"
  proof (cases "arch_pattern (cfg_architecture cfg) = ''microservices''")
    case True
    have "x \<in> (\<lambda>component. ''services/'' @ component) ` set (arch_components (cfg_architecture cfg))"
      using that True by (simp only: if_True simp_thms set_map)
    then show ?thesis using True by (simp only: image_iff simp_thms)
  next
    case False
    have "x \<in> set []"
      using that False by (simp only: if_False simp_thms)
    then show ?thesis by simp
  qed
  show ?thesis
    using parts language services by (simp only: set_append Un_iff) blast
qed

lemma dirs_below:
  assumes "stays_below cfg" and "x \<in> set (dirs cfg)"
  shows "\<exists>a t. join_dir dir x = dir @ a # t \<and> a \<in> set top_directories
    \<and> (a = ''.github'' \<longrightarrow> t = [''workflows''])"
  using dirs_cases [OF assms(2)]
proof
  assume mem: "x \<in> set ([''src'', ''tests'', ''docs'', ''config'', ''.github/workflows'']
           @ [''src/controllers'', ''src/models'', ''src/routes'', ''src/middleware'', ''src/utils'']
           @ [''src/api'', ''src/models'', ''src/services'', ''src/utils''])"
  have all: "\<forall>x\<in>set ([''src'', ''tests'', ''docs'', ''config'', ''.github/workflows'']
           @ [''src/controllers'', ''src/models'', ''src/routes'', ''src/middleware'', ''src/utils'']
           @ [''src/api'', ''src/models'', ''src/services'', ''src/utils'']).
      \<exists>a t. join_dir dir x = dir @ a # t \<and> a \<in> set top_directories
        \<and> (a = ''.github'' \<longrightarrow> t = [''workflows''])"
    by (simp add: join_dir_dirs top_directories_def)
  from all mem show ?thesis by (rule bspec)
next
  assume "arch_pattern (cfg_architecture cfg) = ''microservices''
       \<and> (\<exists>component\<in>set (arch_components (cfg_architecture cfg)). x = ''services/'' @ component)"
  then obtain component where micro: "arch_pattern (cfg_architecture cfg) = ''microservices''"
    and c: "component \<in> set (arch_components (cfg_architecture cfg))"
    and x: "x = ''services/'' @ component"
    by blast
  have "''..'' \<notin> set (segments component)"
    using assms(1) micro c by (simp add: stays_below_def list_all_iff)
  then have "join_dir dir x
      = dir @ ''services'' # filter (\<lambda>part. part \<noteq> ''.'') (segments component)"
    unfolding x by (rule join_dir_services)
  then show ?thesis by (simp add: top_directories_def)
qed

lemma dirs_valid:
  assumes "valid_path (arch_components (cfg_architecture cfg))" and "x \<in> set (dirs cfg)"
  shows "CHR 0x00 \<notin> set x"
  using dirs_cases [OF assms(2)]
proof
  assume mem: "x \<in> set ([''src'', ''tests'', ''docs'', ''config'', ''.github/workflows'']
           @ [''src/controllers'', ''src/models'', ''src/routes'', ''src/middleware'', ''src/utils'']
           @ [''src/api'', ''src/models'', ''src/services'', ''src/utils''])"
  have all: "\<forall>x\<in>set ([''src'', ''tests'', ''docs'', ''config'', ''.github/workflows'']
           @ [''src/controllers'', ''src/models'', ''src/routes'', ''src/middleware'', ''src/utils'']
           @ [''src/api'', ''src/models'', ''src/services'', ''src/utils'']).
      CHR 0x00 \<notin> set x"
    by simp
  from all mem show ?thesis by (rule bspec)
next
  assume "arch_pattern (cfg_architecture cfg) = ''microservices''
       \<and> (\<exists>component\<in>set (arch_components (cfg_architecture cfg)). x = ''services/'' @ component)"
  then obtain component where c: "component \<in> set (arch_components (cfg_architecture cfg))"
    and x: "x = ''services/'' @ component"
    by blast
  have "CHR 0x00 \<notin> set component" using assms(1) c by (simp add: valid_path_def list_all_iff)
  then show ?thesis unfolding x by simp
qed

text \<open>
  After \<open>createProjectStructure\<close> in a vacant place the project directory is ready for
  the documents: it is there with \<open>.github/workflows\<close>, and no directory stands where a
  document goes.
\<close>

lemma readyI:
  assumes "dir = [] \<or> d dir = Some Directory"
    and "d (dir @ [''.github'', ''workflows'']) = Some Directory"
    and "\<not> is_document (d (dir @ [''.github'']))"
    and "\<And>k. \<not> is_document (d (take k dir))"
    and "\<And>name. name \<in> set session_documents \<Longrightarrow> d (dir @ [name]) \<noteq> Some Directory"
    and "d (dir @ [''.github'', ''workflows'', ''ci-cd.yml'']) \<noteq> Some Directory"
  shows "ready dir d"
  using assms by (simp add: ready_def list_all_iff)

lemma readyD:
  assumes "ready dir d"
  shows "dir = [] \<or> d dir = Some Directory"
    and "d (dir @ [''.github'', ''workflows'']) = Some Directory"
    and "\<not> is_document (d (dir @ [''.github'']))"
    and "\<not> is_document (d (take k dir))"
    and "name \<in> set session_documents \<Longrightarrow> d (dir @ [name]) \<noteq> Some Directory"
    and "d (dir @ [''.github'', ''workflows'', ''ci-cd.yml'']) \<noteq> Some Directory"
  using assms by (simp_all add: ready_def list_all_iff)

lemma documents_not_directories:
  "name \<in> set session_documents \<Longrightarrow> name \<notin> set top_directories"
proof -
  have "\<forall>name\<in>set session_documents. name \<notin> set top_directories"
    by (simp add: session_documents_def top_directories_def)
  then show "name \<in> set session_documents \<Longrightarrow> name \<notin> set top_directories" by (rule bspec)
qed

lemma documents_valid: "name \<in> set session_documents \<Longrightarrow> CHR 0x00 \<notin> set name"
proof -
  have "\<forall>name\<in>set session_documents. CHR 0x00 \<notin> set name"
    by (simp add: session_documents_def)
  then show "name \<in> set session_documents \<Longrightarrow> CHR 0x00 \<notin> set name" by (rule bspec)
qed

lemma github_directory: "''.github'' \<in> set top_directories"
  by (simp add: top_directories_def)

lemma workflows_in_dirs: "''.github/workflows'' \<in> set (dirs cfg)"
  by (simp add: dirs_def)

lemma structure_ready:
  assumes vac: "vacant dir d" and v: "valid_path dir"
    and vc: "valid_path (arch_components (cfg_architecture cfg))"
    and sb: "stays_below cfg"
  shows "\<exists>d1. perform (createProjectStructure dir cfg) d = Inr d1 \<and> ready dir d1"
proof -
  define ps where "ps = dir # map (join_dir dir) (dirs cfg)"
  have calls: "createProjectStructure dir cfg = map MkdirIfMissing ps"
    by (simp add: createProjectStructure_def ps_def comp_def)
  have below: "\<exists>a t. p = dir @ a # t \<and> a \<in> set top_directories
      \<and> (a = ''.github'' \<longrightarrow> t = [''workflows''])"
    if "p \<in> set ps" "p \<noteq> dir" for p
  proof -
    from that obtain x where "x \<in> set (dirs cfg)" "p = join_dir dir x"
      by (auto simp: ps_def)
    then show ?thesis using dirs_below [OF sb, of x dir] by simp
  qed
  have under: "\<exists>s. p = dir @ s" if "p \<in> set ps" for p
  proof (cases "p = dir")
    case True
    then show ?thesis by simp
  next
    case False
    then show ?thesis using below [OF that] by blast
  qed
  have valid: "\<forall>p\<in>set ps. valid_path p"
  proof
    fix p assume "p \<in> set ps"
    then have "p = dir \<or> (\<exists>x\<in>set (dirs cfg). p = join_dir dir x)" by (auto simp: ps_def)
    then show "valid_path p"
      using v valid_join_dir [OF v] dirs_valid [OF vc] by blast
  qed
  have clear: "\<forall>p\<in>set ps. \<forall>q\<in>set (way_to p). \<not> is_document (d q)"
  proof (intro ballI)
    fix p q assume "p \<in> set ps" and q: "q \<in> set (way_to p)"
    then obtain s where "p = dir @ s" using under by blast
    then show "\<not> is_document (d q)" using vacant_way [OF vac, of q s] q by simp
  qed
  from mkdirs_succeed [OF valid clear] obtain d1 where
    run: "perform (map MkdirIfMissing ps) d = Inr d1"
    and at: "\<forall>q. d1 q = d q
        \<or> (d q = None \<and> d1 q = Some Directory \<and> (\<exists>p\<in>set ps. q \<in> set (way_to p)))"
    and here: "\<forall>p\<in>set ps. p \<noteq> [] \<longrightarrow> d1 p = Some Directory"
    by blast
  have none_below: "d (dir @ name # names) = None" for name names
    using vac by (simp add: vacant_def)
  have up: "\<not> is_document (d (take k dir))" for k
    using vac by (simp add: vacant_def)
  have soft: "\<not> is_document (d1 q)" if "\<not> is_document (d q)" for q
    using at [rule_format, of q] that by auto
  have "ready dir d1"
  proof (rule readyI)
    have "dir \<in> set ps" by (simp add: ps_def)
    then show "dir = [] \<or> d1 dir = Some Directory" using here by blast
  next
    have "join_dir dir ''.github/workflows'' \<in> set ps"
      using workflows_in_dirs [of cfg] by (simp add: ps_def)
    then have "dir @ [''.github'', ''workflows''] \<in> set ps" by (simp add: join_dir_dirs)
    then show "d1 (dir @ [''.github'', ''workflows'']) = Some Directory" using here by blast
  next
    show "\<not> is_document (d1 (dir @ [''.github'']))"
      by (rule soft) (simp add: none_below)
  next
    fix k show "\<not> is_document (d1 (take k dir))" by (rule soft) (rule up)
  next
    fix name assume doc: "name \<in> set session_documents"
    show "d1 (dir @ [name]) \<noteq> Some Directory"
    proof
      assume "d1 (dir @ [name]) = Some Directory"
      then obtain p where p: "p \<in> set ps" "dir @ [name] \<in> set (way_to p)"
        using at [rule_format, of "dir @ [name]"] none_below [of name "[]"] by auto
      have "p \<noteq> dir" using p(2) name_not_on_way_up [of dir name "[]"] by auto
      from below [OF p(1) this] obtain a t where
        "p = dir @ a # t" "a \<in> set top_directories" by blast
      then have "name \<in> set top_directories" using p(2) name_on_way [of dir name a t] by simp
      then show False using documents_not_directories [OF doc] by simp
    qed
  next
    show "d1 (dir @ [''.github'', ''workflows'', ''ci-cd.yml'']) \<noteq> Some Directory"
    proof
      assume "d1 (dir @ [''.github'', ''workflows'', ''ci-cd.yml'']) = Some Directory"
      then obtain p where p: "p \<in> set ps"
        "dir @ [''.github'', ''workflows'', ''ci-cd.yml''] \<in> set (way_to p)"
        using at [rule_format, of "dir @ [''.github'', ''workflows'', ''ci-cd.yml'']"]
          none_below [of "''.github''" "[''workflows'', ''ci-cd.yml'']"] by auto
      have "p \<noteq> dir"
        using p(2) name_not_on_way_up [of dir "''.github''" "[''workflows'', ''ci-cd.yml'']"] by auto
      from below [OF p(1) this] obtain a t where
        a: "p = dir @ a # t" "a = ''.github'' \<longrightarrow> t = [''workflows'']" by blast
      have "a = ''.github'' \<and> 2 \<le> length t"
        using p(2) three_on_way [of dir "''.github''" "''workflows''" "''ci-cd.yml''" a t] a(1)
        by simp
      then show False using a(2) by simp
    qed
  qed
  then show ?thesis using run calls by simp
qed

text \<open>Every call after the structure succeeds in a ready directory and leaves it ready.\<close>

lemma admissible_step:
  assumes v: "valid_path dir" and r: "ready dir d" and a: "admissible dir c"
  shows "\<exists>d1. do_call c d = Inr d1 \<and> ready dir d1"
proof (cases c)
  case (MkdirIfMissing p)
  then show ?thesis using a by simp
next
  case (Mkdir p)
  then have p: "p = dir @ [''.github'', ''workflows'']" using a by simp
  have vp: "valid_path p" using v by (simp add: p valid_path_def)
  have way: "q \<in> set (way_to p)
      \<longleftrightarrow> q \<in> set (way_to dir) \<or> q = dir @ [''.github''] \<or> q = dir @ [''.github'', ''workflows'']"
    for q
    using in_way_to_snoc [of q "dir @ [''.github'']" "''workflows''"]
      in_way_to_snoc [of q dir "''.github''"]
    by (simp add: p)
  have clear: "\<forall>q\<in>set (way_to p). \<not> is_document (d q)"
  proof
    fix q assume "q \<in> set (way_to p)"
    then consider "q \<in> set (way_to dir)" | "q = dir @ [''.github'']"
      | "q = dir @ [''.github'', ''workflows'']"
      using way by blast
    then show "\<not> is_document (d q)"
    proof cases
      case 1
      then obtain k where "q = take k dir" using way_to_is_take by blast
      then show ?thesis using readyD(4) [OF r] by simp
    next
      case 2
      then show ?thesis using readyD(3) [OF r] by simp
    next
      case 3
      then show ?thesis using readyD(2) [OF r] by simp
    qed
  qed
  define d1 where "d1 = (\<lambda>q. if q \<in> set (way_to p) then Some Directory else d q)"
  have call: "do_call c d = Inr d1"
    using mkdir_recursive_ok [OF vp clear] Mkdir by (simp add: d1_def)
  have soft: "\<not> is_document (d1 q)" if "\<not> is_document (d q)" for q
    using that by (simp add: d1_def)
  have off: "d1 q = d q" if "q \<notin> set (way_to dir)" "q \<noteq> dir @ [''.github'']"
    "q \<noteq> dir @ [''.github'', ''workflows'']" for q
    using that way [of q] by (simp add: d1_def)
  have "ready dir d1"
  proof (rule readyI)
    show "dir = [] \<or> d1 dir = Some Directory"
    proof (cases "dir = []")
      case True
      then show ?thesis by simp
    next
      case False
      then have "dir \<in> set (way_to p)" using self_in_way_to [OF False] way by blast
      then show ?thesis by (simp add: d1_def)
    qed
  next
    have "dir @ [''.github'', ''workflows''] \<in> set (way_to p)" using way by blast
    then show "d1 (dir @ [''.github'', ''workflows'']) = Some Directory" by (simp add: d1_def)
  next
    show "\<not> is_document (d1 (dir @ [''.github'']))" by (rule soft) (rule readyD(3) [OF r])
  next
    fix k show "\<not> is_document (d1 (take k dir))" by (rule soft) (rule readyD(4) [OF r])
  next
    fix name assume doc: "name \<in> set session_documents"
    have "name \<noteq> ''.github''"
      using documents_not_directories [OF doc] github_directory by auto
    then have "d1 (dir @ [name]) = d (dir @ [name])"
      using name_not_on_way_up [of dir name "[]"] by (intro off) simp_all
    then show "d1 (dir @ [name]) \<noteq> Some Directory" using readyD(5) [OF r doc] by simp
  next
    have "d1 (dir @ [''.github'', ''workflows'', ''ci-cd.yml''])
        = d (dir @ [''.github'', ''workflows'', ''ci-cd.yml''])"
      using name_not_on_way_up [of dir "''.github''" "[''workflows'', ''ci-cd.yml'']"]
      by (intro off) simp_all
    then show "d1 (dir @ [''.github'', ''workflows'', ''ci-cd.yml'']) \<noteq> Some Directory"
      using readyD(6) [OF r] by simp
  qed
  then show ?thesis using call by blast
next
  case (WriteFile p x)
  then consider (document) name where "name \<in> set session_documents" "p = dir @ [name]"
    | (workflow) "p = dir @ [''.github'', ''workflows'', ''ci-cd.yml'']"
    using a by auto
  then show ?thesis
  proof cases
    case document
    have vp: "valid_path p"
      using v documents_valid [OF document(1)] by (simp add: document(2) valid_path_def)
    have parent: "(if butlast p = [] then Some Directory else d (butlast p)) = Some Directory"
      using readyD(1) [OF r] by (auto simp: document(2))
    have target: "d p \<noteq> Some Directory"
      using readyD(5) [OF r document(1)] by (simp add: document(2))
    have "p \<noteq> []" by (simp add: document(2))
    then have "write_file p x d
        = (case d p of Some Directory \<Rightarrow> Inl EISDIR | _ \<Rightarrow> Inr (d(p \<mapsto> Document x)))"
      using vp by (simp only: write_file_def parent) simp
    then have "write_file p x d = Inr (d(p \<mapsto> Document x))"
      using target by (simp split: option.splits entry.splits)
    then have call: "do_call c d = Inr (d(p \<mapsto> Document x))"
      using WriteFile by simp
    have github: "name \<noteq> ''.github''"
      using documents_not_directories [OF document(1)] github_directory by auto
    have "ready dir (d(p \<mapsto> Document x))"
    proof (rule readyI)
      show "dir = [] \<or> (d(p \<mapsto> Document x)) dir = Some Directory"
        using readyD(1) [OF r] by (simp add: document(2))
    next
      show "(d(p \<mapsto> Document x)) (dir @ [''.github'', ''workflows'']) = Some Directory"
        using readyD(2) [OF r] by (simp add: document(2))
    next
      show "\<not> is_document ((d(p \<mapsto> Document x)) (dir @ [''.github'']))"
        using readyD(3) [OF r] github by (simp add: document(2))
    next
      fix k show "\<not> is_document ((d(p \<mapsto> Document x)) (take k dir))"
        using readyD(4) [OF r, of k] take_not_longer [of k dir name "[]"]
        by (simp add: document(2))
    next
      fix other assume "other \<in> set session_documents"
      then show "(d(p \<mapsto> Document x)) (dir @ [other]) \<noteq> Some Directory"
        using readyD(5) [OF r, of other] by (simp add: document(2))
    next
      show "(d(p \<mapsto> Document x)) (dir @ [''.github'', ''workflows'', ''ci-cd.yml''])
          \<noteq> Some Directory"
        using readyD(6) [OF r] by (simp add: document(2))
    qed
    then show ?thesis using call by blast
  next
    case workflow
    have vp: "valid_path p" using v by (simp add: workflow valid_path_def)
    have "butlast p = dir @ [''.github'', ''workflows'']"
      by (simp add: workflow butlast_append)
    then have parent: "(if butlast p = [] then Some Directory else d (butlast p)) = Some Directory"
      using readyD(2) [OF r] by simp
    have target: "d p \<noteq> Some Directory"
      using readyD(6) [OF r] by (simp add: workflow)
    have "p \<noteq> []" by (simp add: workflow)
    then have "write_file p x d
        = (case d p of Some Directory \<Rightarrow> Inl EISDIR | _ \<Rightarrow> Inr (d(p \<mapsto> Document x)))"
      using vp by (simp only: write_file_def parent) simp
    then have "write_file p x d = Inr (d(p \<mapsto> Document x))"
      using target by (simp split: option.splits entry.splits)
    then have call: "do_call c d = Inr (d(p \<mapsto> Document x))"
      using WriteFile by simp
    have "ready dir (d(p \<mapsto> Document x))"
    proof (rule readyI)
      show "dir = [] \<or> (d(p \<mapsto> Document x)) dir = Some Directory"
        using readyD(1) [OF r] by (simp add: workflow)
    next
      show "(d(p \<mapsto> Document x)) (dir @ [''.github'', ''workflows'']) = Some Directory"
        using readyD(2) [OF r] by (simp add: workflow)
    next
      show "\<not> is_document ((d(p \<mapsto> Document x)) (dir @ [''.github'']))"
        using readyD(3) [OF r] by (simp add: workflow)
    next
      fix k show "\<not> is_document ((d(p \<mapsto> Document x)) (take k dir))"
        using readyD(4) [OF r, of k]
          take_not_longer [of k dir "''.github''" "[''workflows'', ''ci-cd.yml'']"]
        by (simp add: workflow)
    next
      fix other assume "other \<in> set session_documents"
      then show "(d(p \<mapsto> Document x)) (dir @ [other]) \<noteq> Some Directory"
        using readyD(5) [OF r, of other] by (simp add: workflow)
    next
      show "(d(p \<mapsto> Document x)) (dir @ [''.github'', ''workflows'', ''ci-cd.yml''])
          \<noteq> Some Directory"
        by (simp add: workflow)
    qed
    then show ?thesis using call by blast
  qed
qed

lemma admissible_succeed:
  assumes "valid_path dir" and "ready dir d" and "list_all (admissible dir) cs"
  shows "\<exists>d'. perform cs d = Inr d'"
  using assms(2,3)
proof (induction cs arbitrary: d)
  case Nil
  then show ?case by simp
next
  case (Cons c cs)
  from admissible_step [OF assms(1) Cons.prems(1), of c] Cons.prems(2)
  obtain d1 where "do_call c d = Inr d1" "ready dir d1" by auto
  moreover from Cons.IH [OF this(2)] Cons.prems(2) obtain d' where "perform cs d1 = Inr d'"
    by auto
  ultimately show ?case by simp
qed

lemma session_admissible:
  "list_all (admissible dir) (generateBlueprint dir cfg @ generateTemplates dir cfg)"
  by (simp add: generateBlueprint_def generateTemplates_def generateGitignore_def
      generateReadme_def generateEnvTemplate_def generateDockerfiles_def generateCICD_def
      join_dir_names session_documents_def)

lemma perform_append:
  "perform (xs @ ys) d = (case perform xs d of Inl e \<Rightarrow> Inl e | Inr d1 \<Rightarrow> perform ys d1)"
  by (induction xs arbitrary: d) (simp_all split: sum.splits)

text \<open>
  In a vacant place, with names free of NUL characters and directories that stay in
  place, the calls of a session all succeed.
\<close>

lemma session_succeeds_vacant:
  assumes "vacant dir d" and "valid_path dir"
    and "valid_path (arch_components (cfg_architecture cfg))" and "stays_below cfg"
  shows "\<exists>d'. perform (session_calls dir cfg) d = Inr d'"
proof -
  from structure_ready [OF assms] obtain d1 where
    s: "perform (createProjectStructure dir cfg) d = Inr d1" and r: "ready dir d1" by blast
  from admissible_succeed [OF assms(2) r session_admissible [of dir cfg]] obtain d' where
    "perform (generateBlueprint dir cfg @ generateTemplates dir cfg) d1 = Inr d'" ..
  then have "perform (session_calls dir cfg) d = Inr d'"
    using s by (simp add: session_calls_def perform_append)
  then show ?thesis by blast
qed

lemma projectDir_valid:
  assumes "valid_path (session_names cwd cfg)"
  shows "valid_path (projectDir cwd cfg)"
    and "valid_path (arch_components (cfg_architecture cfg))"
proof -
  have "valid_path cwd" "CHR 0x00 \<notin> set (project_name (cfg_project cfg))"
    using assms by (simp_all add: session_names_def valid_path_def)
  then show "valid_path (projectDir cwd cfg)" by (simp add: projectDir_def valid_join_dir)
  show "valid_path (arch_components (cfg_architecture cfg))"
    using assms by (simp add: session_names_def valid_path_def)
qed

lemma session_completes_vacant:
  assumes "interview arg answers = Some ((cfg, True), rest)"
    and "vacant (projectDir cwd cfg) d" and "valid_path (session_names cwd cfg)"
    and "stays_below cfg"
  shows "\<exists>d'. run_wizard g cwd arg answers d = Some (Completed d')"
  using session_succeeds_vacant [OF assms(2) projectDir_valid [OF assms(3)] assms(4)]
  unfolding run_wizard_confirmed [OF assms(1)] by auto

lemma session_docker_flag:
  assumes "interview arg answers = Some ((cfg, confirmed), rest)"
  shows "deploy_docker (cfg_deployment cfg)
    = (''docker'' \<in> set (deploy_targets (cfg_deployment cfg))
       \<or> ''kubernetes'' \<in> set (deploy_targets (cfg_deployment cfg)))"
  using interview_parts [OF assms] deployment_docker_flag by blast

lemma session_database_type:
  assumes "interview arg answers = Some ((cfg, confirmed), rest)"
  shows "db_type (cfg_database cfg) = ''none'' \<or> db_type (cfg_database cfg) \<in> set databases"
  using interview_parts [OF assms] database_type_in_table by blast

lemma image_lines_compose:
  "db_type (cfg_database cfg) \<noteq> ''none'' \<Longrightarrow>
   image_lines (compose_lines cfg) = [''    image: '' @ db_type (cfg_database cfg) @ '':latest'']"
  by (simp add: image_lines_def compose_lines_def compose_app_def compose_db_def sq_def dq_def)

lemma image_lines_compose_none:
  "db_type (cfg_database cfg) = ''none'' \<Longrightarrow> image_lines (compose_lines cfg) = []"
  by (simp add: image_lines_def compose_lines_def compose_app_def sq_def dq_def)

lemma example_sessions:
  "interview (Some ''demo'') go_mongodb_docker
     = Some ((example_config ''go'' ''mongodb'' ''docker'', True), [])"
  "interview (Some ''demo'') node_postgres_kubernetes
     = Some ((example_config ''nodejs'' ''postgresql'' ''kubernetes'', True), [])"
  "interview (Some ''demo'') node_postgres_heroku
     = Some ((example_config ''nodejs'' ''postgresql'' ''heroku'', True), [])"
  by code_simp+

lemma escaping_sessions:
  "interview (Some ''demo'') (escaping_docker ''1'') = Some ((escaping_config ''nodejs'', True), [])"
  "interview (Some ''demo'') (escaping_docker ''4'') = Some ((escaping_config ''go'', True), [])"
  by code_simp+

lemma example_places:
  "projectDir workspace (example_config language db target) = [''home'', ''dev'', ''demo'']"
  "projectDir workspace (escaping_config language) = [''home'', ''dev'', ''demo'']"
  "vacant [''home'', ''dev'', ''demo''] Map.empty"
  "valid_path (session_names workspace (example_config language db target))"
  "stays_below (example_config language db target)"
  by (simp_all add: projectDir_def join_dir_def segments_def workspace_def example_config_def
      escaping_config_def vacant_def session_names_def valid_path_def stays_below_def)

lemma example_completes:
  assumes "interview arg answers = Some ((example_config language db target, True), rest)"
  shows "\<exists>d'. run_wizard g workspace arg answers Map.empty = Some (Completed d')"
  by (rule session_completes_vacant [OF assms]) (simp_all add: example_places)

text \<open>
  Claim C6, as the code has it. In a confirmed session, when the deployment targets
  include \<open>docker\<close> or \<open>kubernetes\<close> the wizard has one call that writes
  \<open>docker-compose.yml\<close> in the project directory, and one that writes \<open>Dockerfile\<close>
  there only when the language is \<open>nodejs\<close> or \<open>python\<close>; when the targets include
  neither it has no call that writes either file. When the session completes, a file
  it has a call for holds the text of that call, and a path it has no call for is as it
  was, or is a directory that the session made where nothing was.
\<close>

theorem session_writes_container_files:
  "interview arg answers = Some ((cfg, True), rest) \<longrightarrow>
     writes_to (join_dir (projectDir cwd cfg) ''docker-compose.yml'')
         (session_calls (projectDir cwd cfg) cfg)
       = (if ''docker'' \<in> set (deploy_targets (cfg_deployment cfg))
             \<or> ''kubernetes'' \<in> set (deploy_targets (cfg_deployment cfg))
          then [Plain (join_lines (compose_lines cfg))] else [])
     \<and> writes_to (join_dir (projectDir cwd cfg) ''Dockerfile'')
         (session_calls (projectDir cwd cfg) cfg)
       = (if (''docker'' \<in> set (deploy_targets (cfg_deployment cfg))
              \<or> ''kubernetes'' \<in> set (deploy_targets (cfg_deployment cfg)))
             \<and> (project_language (cfg_project cfg) = ''nodejs''
                \<or> project_language (cfg_project cfg) = ''python'')
          then [Plain (dockerfile cfg)] else [])
     \<and> (\<forall>d d'. run_wizard g cwd arg answers d = Some (Completed d') \<longrightarrow>
          (if ''docker'' \<in> set (deploy_targets (cfg_deployment cfg))
              \<or> ''kubernetes'' \<in> set (deploy_targets (cfg_deployment cfg))
           then d' (join_dir (projectDir cwd cfg) ''docker-compose.yml'')
                = Some (Document (Plain (join_lines (compose_lines cfg))))
           else d' (join_dir (projectDir cwd cfg) ''docker-compose.yml'')
                  = d (join_dir (projectDir cwd cfg) ''docker-compose.yml'')
                \<or> d (join_dir (projectDir cwd cfg) ''docker-compose.yml'') = None
                  \<and> d' (join_dir (projectDir cwd cfg) ''docker-compose.yml'') = Some Directory)
          \<and> (if (''docker'' \<in> set (deploy_targets (cfg_deployment cfg))
                  \<or> ''kubernetes'' \<in> set (deploy_targets (cfg_deployment cfg)))
                 \<and> (project_language (cfg_project cfg) = ''nodejs''
                    \<or> project_language (cfg_project cfg) = ''python'')
              then d' (join_dir (projectDir cwd cfg) ''Dockerfile'')
                   = Some (Document (Plain (dockerfile cfg)))
              else d' (join_dir (projectDir cwd cfg) ''Dockerfile'')
                     = d (join_dir (projectDir cwd cfg) ''Dockerfile'')
                   \<or> d (join_dir (projectDir cwd cfg) ''Dockerfile'') = None
                     \<and> d' (join_dir (projectDir cwd cfg) ''Dockerfile'') = Some Directory))"
proof (intro impI conjI allI)
  assume i: "interview arg answers = Some ((cfg, True), rest)"
  note flag = session_docker_flag [OF i]
  show "writes_to (join_dir (projectDir cwd cfg) ''docker-compose.yml'')
         (session_calls (projectDir cwd cfg) cfg)
       = (if ''docker'' \<in> set (deploy_targets (cfg_deployment cfg))
             \<or> ''kubernetes'' \<in> set (deploy_targets (cfg_deployment cfg))
          then [Plain (join_lines (compose_lines cfg))] else [])"
    unfolding session_writes_compose flag ..
  show "writes_to (join_dir (projectDir cwd cfg) ''Dockerfile'')
         (session_calls (projectDir cwd cfg) cfg)
       = (if (''docker'' \<in> set (deploy_targets (cfg_deployment cfg))
              \<or> ''kubernetes'' \<in> set (deploy_targets (cfg_deployment cfg)))
             \<and> (project_language (cfg_project cfg) = ''nodejs''
                \<or> project_language (cfg_project cfg) = ''python'')
          then [Plain (dockerfile cfg)] else [])"
    unfolding session_writes_Dockerfile flag by (simp add: dockerfile_empty)
  fix d d'
  assume r: "run_wizard g cwd arg answers d = Some (Completed d')"
  note files = session_container_files [OF i r]
  show "if ''docker'' \<in> set (deploy_targets (cfg_deployment cfg))
              \<or> ''kubernetes'' \<in> set (deploy_targets (cfg_deployment cfg))
           then d' (join_dir (projectDir cwd cfg) ''docker-compose.yml'')
                = Some (Document (Plain (join_lines (compose_lines cfg))))
           else d' (join_dir (projectDir cwd cfg) ''docker-compose.yml'')
                  = d (join_dir (projectDir cwd cfg) ''docker-compose.yml'')
                \<or> d (join_dir (projectDir cwd cfg) ''docker-compose.yml'') = None
                  \<and> d' (join_dir (projectDir cwd cfg) ''docker-compose.yml'') = Some Directory"
    unfolding flag [symmetric] using files(1) files(3)
    by (cases "deploy_docker (cfg_deployment cfg)") simp_all
  show "if (''docker'' \<in> set (deploy_targets (cfg_deployment cfg))
                  \<or> ''kubernetes'' \<in> set (deploy_targets (cfg_deployment cfg)))
                 \<and> (project_language (cfg_project cfg) = ''nodejs''
                    \<or> project_language (cfg_project cfg) = ''python'')
              then d' (join_dir (projectDir cwd cfg) ''Dockerfile'')
                   = Some (Document (Plain (dockerfile cfg)))
              else d' (join_dir (projectDir cwd cfg) ''Dockerfile'')
                     = d (join_dir (projectDir cwd cfg) ''Dockerfile'')
                   \<or> d (join_dir (projectDir cwd cfg) ''Dockerfile'') = None
                     \<and> d' (join_dir (projectDir cwd cfg) ''Dockerfile'') = Some Directory"
    unfolding flag [symmetric]
  proof (cases "deploy_docker (cfg_deployment cfg)
      \<and> (project_language (cfg_project cfg) = ''nodejs''
         \<or> project_language (cfg_project cfg) = ''python'')")
    case True
    then show "if deploy_docker (cfg_deployment cfg)
                 \<and> (project_language (cfg_project cfg) = ''nodejs''
                    \<or> project_language (cfg_project cfg) = ''python'')
              then d' (join_dir (projectDir cwd cfg) ''Dockerfile'')
                   = Some (Document (Plain (dockerfile cfg)))
              else d' (join_dir (projectDir cwd cfg) ''Dockerfile'')
                     = d (join_dir (projectDir cwd cfg) ''Dockerfile'')
                   \<or> d (join_dir (projectDir cwd cfg) ''Dockerfile'') = None
                     \<and> d' (join_dir (projectDir cwd cfg) ''Dockerfile'') = Some Directory"
      using files(2) by simp
  next
    case False
    show "if deploy_docker (cfg_deployment cfg)
                 \<and> (project_language (cfg_project cfg) = ''nodejs''
                    \<or> project_language (cfg_project cfg) = ''python'')
              then d' (join_dir (projectDir cwd cfg) ''Dockerfile'')
                   = Some (Document (Plain (dockerfile cfg)))
              else d' (join_dir (projectDir cwd cfg) ''Dockerfile'')
                     = d (join_dir (projectDir cwd cfg) ''Dockerfile'')
                   \<or> d (join_dir (projectDir cwd cfg) ''Dockerfile'') = None
                     \<and> d' (join_dir (projectDir cwd cfg) ''Dockerfile'') = Some Directory"
      using files(4) [OF False] False by (simp only: if_False)
  qed
qed

text \<open>
  The witness: started in \<open>/home/dev\<close> on an empty disk, the Node.js session deployed
  to Kubernetes completes with both files in \<open>/home/dev/demo\<close>; the one deployed to
  Heroku completes with neither.
\<close>

theorem session_writes_container_files_witness:
  "interview (Some ''demo'') node_postgres_kubernetes
     = Some ((example_config ''nodejs'' ''postgresql'' ''kubernetes'', True), [])
   \<and> (\<exists>d'. run_wizard True workspace (Some ''demo'') node_postgres_kubernetes Map.empty
            = Some (Completed d')
        \<and> d' [''home'', ''dev'', ''demo'', ''docker-compose.yml'']
          = Some (Document (Plain (join_lines
              (compose_lines (example_config ''nodejs'' ''postgresql'' ''kubernetes'')))))
        \<and> d' [''home'', ''dev'', ''demo'', ''Dockerfile'']
          = Some (Document (Plain (dockerfile (example_config ''nodejs'' ''postgresql'' ''kubernetes'')))))
   \<and> interview (Some ''demo'') node_postgres_heroku
     = Some ((example_config ''nodejs'' ''postgresql'' ''heroku'', True), [])
   \<and> (\<exists>d'. run_wizard True workspace (Some ''demo'') node_postgres_heroku Map.empty
            = Some (Completed d')
        \<and> \<not> is_document (d' [''home'', ''dev'', ''demo'', ''docker-compose.yml''])
        \<and> \<not> is_document (d' [''home'', ''dev'', ''demo'', ''Dockerfile'']))"
proof (intro conjI)
  show "interview (Some ''demo'') node_postgres_kubernetes
     = Some ((example_config ''nodejs'' ''postgresql'' ''kubernetes'', True), [])"
    by (rule example_sessions(2))
  show "interview (Some ''demo'') node_postgres_heroku
     = Some ((example_config ''nodejs'' ''postgresql'' ''heroku'', True), [])"
    by (rule example_sessions(3))
next
  from example_completes [OF example_sessions(2)] obtain d' where
    r: "run_wizard True workspace (Some ''demo'') node_postgres_kubernetes Map.empty
        = Some (Completed d')" ..
  note t = session_writes_container_files [where arg = "Some ''demo''"
      and answers = node_postgres_kubernetes
      and cfg = "example_config ''nodejs'' ''postgresql'' ''kubernetes''" and rest = "[]"
      and cwd = workspace and g = True, THEN mp, OF example_sessions(2)]
  note after = t [THEN conjunct2, THEN conjunct2, rule_format, OF r]
  have targets: "''docker'' \<in> set (deploy_targets (cfg_deployment
          (example_config ''nodejs'' ''postgresql'' ''kubernetes'')))
      \<or> ''kubernetes'' \<in> set (deploy_targets (cfg_deployment
          (example_config ''nodejs'' ''postgresql'' ''kubernetes'')))"
    and language: "project_language (cfg_project
          (example_config ''nodejs'' ''postgresql'' ''kubernetes'')) = ''nodejs''
      \<or> project_language (cfg_project
          (example_config ''nodejs'' ''postgresql'' ''kubernetes'')) = ''python''"
    by (simp_all add: example_config_def)
  have "d' (join_dir (projectDir workspace (example_config ''nodejs'' ''postgresql'' ''kubernetes''))
            ''docker-compose.yml'')
          = Some (Document (Plain (join_lines
              (compose_lines (example_config ''nodejs'' ''postgresql'' ''kubernetes'')))))"
    using after [THEN conjunct1] targets by (simp only: if_True)
  then have "d' [''home'', ''dev'', ''demo'', ''docker-compose.yml'']
          = Some (Document (Plain (join_lines
              (compose_lines (example_config ''nodejs'' ''postgresql'' ''kubernetes'')))))"
    by (simp add: example_places join_dir_names)
  moreover have "d' (join_dir (projectDir workspace (example_config ''nodejs'' ''postgresql'' ''kubernetes''))
            ''Dockerfile'')
          = Some (Document (Plain (dockerfile (example_config ''nodejs'' ''postgresql'' ''kubernetes''))))"
    using after [THEN conjunct2] targets language by (simp only: if_True simp_thms)
  then have "d' [''home'', ''dev'', ''demo'', ''Dockerfile'']
          = Some (Document (Plain (dockerfile (example_config ''nodejs'' ''postgresql'' ''kubernetes''))))"
    by (simp add: example_places join_dir_names)
  ultimately show "\<exists>d'. run_wizard True workspace (Some ''demo'') node_postgres_kubernetes Map.empty
            = Some (Completed d')
        \<and> d' [''home'', ''dev'', ''demo'', ''docker-compose.yml'']
          = Some (Document (Plain (join_lines
              (compose_lines (example_config ''nodejs'' ''postgresql'' ''kubernetes'')))))
        \<and> d' [''home'', ''dev'', ''demo'', ''Dockerfile'']
          = Some (Document (Plain (dockerfile (example_config ''nodejs'' ''postgresql'' ''kubernetes''))))"
    using r by blast
next
  from example_completes [OF example_sessions(3)] obtain d' where
    r: "run_wizard True workspace (Some ''demo'') node_postgres_heroku Map.empty
        = Some (Completed d')" ..
  note t = session_writes_container_files [where arg = "Some ''demo''"
      and answers = node_postgres_heroku
      and cfg = "example_config ''nodejs'' ''postgresql'' ''heroku''" and rest = "[]"
      and cwd = workspace and g = True, THEN mp, OF example_sessions(3)]
  note after = t [THEN conjunct2, THEN conjunct2, rule_format, OF r]
  have targets: "\<not> (''docker'' \<in> set (deploy_targets (cfg_deployment
          (example_config ''nodejs'' ''postgresql'' ''heroku'')))
      \<or> ''kubernetes'' \<in> set (deploy_targets (cfg_deployment
          (example_config ''nodejs'' ''postgresql'' ''heroku''))))"
    by (simp add: example_config_def)
  have "d' (join_dir (projectDir workspace (example_config ''nodejs'' ''postgresql'' ''heroku''))
            ''docker-compose.yml'') = None
      \<or> d' (join_dir (projectDir workspace (example_config ''nodejs'' ''postgresql'' ''heroku''))
            ''docker-compose.yml'') = Some Directory"
    using after [THEN conjunct1] targets by (simp only: if_False simp_thms; auto)
  then have "\<not> is_document (d' [''home'', ''dev'', ''demo'', ''docker-compose.yml''])"
    by (auto simp: example_places join_dir_names)
  moreover have "d' (join_dir (projectDir workspace (example_config ''nodejs'' ''postgresql'' ''heroku''))
            ''Dockerfile'') = None
      \<or> d' (join_dir (projectDir workspace (example_config ''nodejs'' ''postgresql'' ''heroku''))
            ''Dockerfile'') = Some Directory"
    using after [THEN conjunct2] targets by (simp only: if_False simp_thms; auto)
  then have "\<not> is_document (d' [''home'', ''dev'', ''demo'', ''Dockerfile''])"
    by (auto simp: example_places join_dir_names)
  ultimately show "\<exists>d'. run_wizard True workspace (Some ''demo'') node_postgres_heroku Map.empty
            = Some (Completed d')
        \<and> \<not> is_document (d' [''home'', ''dev'', ''demo'', ''docker-compose.yml''])
        \<and> \<not> is_document (d' [''home'', ''dev'', ''demo'', ''Dockerfile''])"
    using r by blast
qed

text \<open>
  The claim as stated fails. The Go session deployed with Docker is confirmed and
  completes: \<open>docker-compose.yml\<close> is written, no call writes \<open>Dockerfile\<close>, and nothing is
  at that path afterwards. The Node.js session of the \<open>microservices\<close> pattern with the
  component \<open>../Dockerfile\<close>, deployed with Docker, is confirmed and fails: the
  component's directory \<open>services/../Dockerfile\<close> is the path of the Dockerfile, and the
  write to it throws \<open>EISDIR\<close> before \<open>docker-compose.yml\<close> is written. The same session
  in Go completes, with a directory at \<open>Dockerfile\<close>.
\<close>

theorem session_dockerfile_counterexample:
  "interview (Some ''demo'') go_mongodb_docker
     = Some ((example_config ''go'' ''mongodb'' ''docker'', True), [])
   \<and> ''docker'' \<in> set (deploy_targets (cfg_deployment (example_config ''go'' ''mongodb'' ''docker'')))
   \<and> writes_to [''home'', ''dev'', ''demo'', ''Dockerfile'']
       (session_calls [''home'', ''dev'', ''demo''] (example_config ''go'' ''mongodb'' ''docker'')) = []
   \<and> (\<exists>d'. run_wizard True workspace (Some ''demo'') go_mongodb_docker Map.empty
            = Some (Completed d')
        \<and> d' [''home'', ''dev'', ''demo'', ''docker-compose.yml'']
          = Some (Document (Plain (join_lines
              (compose_lines (example_config ''go'' ''mongodb'' ''docker'')))))
        \<and> d' [''home'', ''dev'', ''demo'', ''Dockerfile''] = None)
   \<and> interview (Some ''demo'') (escaping_docker ''1'')
     = Some ((escaping_config ''nodejs'', True), [])
   \<and> ''docker'' \<in> set (deploy_targets (cfg_deployment (escaping_config ''nodejs'')))
   \<and> join_dir [''home'', ''dev'', ''demo''] ''services/../Dockerfile''
     = [''home'', ''dev'', ''demo'', ''Dockerfile'']
   \<and> run_wizard True workspace (Some ''demo'') (escaping_docker ''1'') Map.empty
     = Some (InitializationFailed EISDIR)
   \<and> (\<exists>d'. run_wizard True workspace (Some ''demo'') (escaping_docker ''4'') Map.empty
            = Some (Completed d')
        \<and> d' [''home'', ''dev'', ''demo'', ''Dockerfile''] = Some Directory)"
proof (intro conjI)
  show "interview (Some ''demo'') go_mongodb_docker
     = Some ((example_config ''go'' ''mongodb'' ''docker'', True), [])"
    by (rule example_sessions(1))
  show "''docker'' \<in> set (deploy_targets (cfg_deployment (example_config ''go'' ''mongodb'' ''docker'')))"
    by (simp add: example_config_def)
  show "writes_to [''home'', ''dev'', ''demo'', ''Dockerfile'']
       (session_calls [''home'', ''dev'', ''demo''] (example_config ''go'' ''mongodb'' ''docker'')) = []"
    using session_writes_Dockerfile [of "[''home'', ''dev'', ''demo'']"
        "example_config ''go'' ''mongodb'' ''docker''"]
    by (simp add: join_dir_names dockerfile_empty) (simp add: example_config_def)
  show "interview (Some ''demo'') (escaping_docker ''1'')
     = Some ((escaping_config ''nodejs'', True), [])"
    by (rule escaping_sessions(1))
  show "''docker'' \<in> set (deploy_targets (cfg_deployment (escaping_config ''nodejs'')))"
    by (simp add: escaping_config_def)
  show "join_dir [''home'', ''dev'', ''demo''] ''services/../Dockerfile''
     = [''home'', ''dev'', ''demo'', ''Dockerfile'']"
    by (simp add: join_dir_def segments_def)
next
  have "case run_wizard True workspace (Some ''demo'') go_mongodb_docker Map.empty of
      Some (Completed d') \<Rightarrow>
        d' [''home'', ''dev'', ''demo'', ''docker-compose.yml'']
          = Some (Document (Plain (join_lines
              (compose_lines (example_config ''go'' ''mongodb'' ''docker'')))))
        \<and> d' [''home'', ''dev'', ''demo'', ''Dockerfile''] = None
    | _ \<Rightarrow> False"
    by code_simp
  then show "\<exists>d'. run_wizard True workspace (Some ''demo'') go_mongodb_docker Map.empty
            = Some (Completed d')
        \<and> d' [''home'', ''dev'', ''demo'', ''docker-compose.yml'']
          = Some (Document (Plain (join_lines
              (compose_lines (example_config ''go'' ''mongodb'' ''docker'')))))
        \<and> d' [''home'', ''dev'', ''demo'', ''Dockerfile''] = None"
    by (cases "run_wizard True workspace (Some ''demo'') go_mongodb_docker Map.empty")
      (auto split: outcome.splits)
next
  have "case run_wizard True workspace (Some ''demo'') (escaping_docker ''1'') Map.empty of
      Some (InitializationFailed e) \<Rightarrow> e = EISDIR
    | _ \<Rightarrow> False"
    by code_simp
  then show "run_wizard True workspace (Some ''demo'') (escaping_docker ''1'') Map.empty
     = Some (InitializationFailed EISDIR)"
    by (cases "run_wizard True workspace (Some ''demo'') (escaping_docker ''1'') Map.empty")
      (auto split: outcome.splits)
next
  have "case run_wizard True workspace (Some ''demo'') (escaping_docker ''4'') Map.empty of
      Some (Completed d') \<Rightarrow> d' [''home'', ''dev'', ''demo'', ''Dockerfile''] = Some Directory
    | _ \<Rightarrow> False"
    by code_simp
  then show "\<exists>d'. run_wizard True workspace (Some ''demo'') (escaping_docker ''4'') Map.empty
            = Some (Completed d')
        \<and> d' [''home'', ''dev'', ''demo'', ''Dockerfile''] = Some Directory"
    by (cases "run_wizard True workspace (Some ''demo'') (escaping_docker ''4'') Map.empty")
      (auto split: outcome.splits)
qed

subsection \<open>Wizard: the database image of the compose file\<close>

lemma postgres_lines_compose:
  "db_type (cfg_database cfg) \<noteq> ''none'' \<Longrightarrow>
   set [''      - POSTGRES_DB='' @ project_name (cfg_project cfg), ''      - POSTGRES_USER=dev'',
        ''      - POSTGRES_PASSWORD=devpass'', ''      - '' @ dq @ ''5432:5432'' @ dq,
        ''      - db-data:/var/lib/postgresql/data'']
     \<subseteq> set (compose_lines cfg)"
  by (simp add: compose_lines_def compose_db_def)

lemma postgres_not_a_database_type: "''postgres'' \<notin> set databases"
  by (simp add: databases_def)

text \<open>
  Claim C1, as the code has it. In a confirmed session whose targets include
  \<open>docker\<close> or \<open>kubernetes\<close> and whose database type is not \<open>none\<close>, the compose file has
  one \<open>image:\<close> line, and it names the selected database type followed by \<open>:latest\<close>: one
  of the eight names of the database menu, none of which is \<open>postgres\<close>. What is fixed
  to PostgreSQL whatever the selection are the \<open>POSTGRES_\<close> variables, the port 5432 and
  the data path of the \<open>db\<close> service. A session that completes has written exactly these
  lines to \<open>docker-compose.yml\<close>.
\<close>

theorem compose_image_follows_database_type:
  "interview arg answers = Some ((cfg, True), rest)
   \<and> (''docker'' \<in> set (deploy_targets (cfg_deployment cfg))
      \<or> ''kubernetes'' \<in> set (deploy_targets (cfg_deployment cfg)))
   \<and> db_type (cfg_database cfg) \<noteq> ''none''
   \<longrightarrow> image_lines (compose_lines cfg) = [''    image: '' @ db_type (cfg_database cfg) @ '':latest'']
     \<and> db_type (cfg_database cfg) \<in> set databases
     \<and> db_type (cfg_database cfg) \<noteq> ''postgres''
     \<and> set [''      - POSTGRES_DB='' @ project_name (cfg_project cfg), ''      - POSTGRES_USER=dev'',
            ''      - POSTGRES_PASSWORD=devpass'', ''      - '' @ dq @ ''5432:5432'' @ dq,
            ''      - db-data:/var/lib/postgresql/data'']
         \<subseteq> set (compose_lines cfg)
     \<and> (\<forall>d d'. run_wizard g cwd arg answers d = Some (Completed d') \<longrightarrow>
           d' (join_dir (projectDir cwd cfg) ''docker-compose.yml'')
           = Some (Document (Plain (join_lines (compose_lines cfg)))))"
proof (intro impI)
  assume a: "interview arg answers = Some ((cfg, True), rest)
   \<and> (''docker'' \<in> set (deploy_targets (cfg_deployment cfg))
      \<or> ''kubernetes'' \<in> set (deploy_targets (cfg_deployment cfg)))
   \<and> db_type (cfg_database cfg) \<noteq> ''none''"
  then have i: "interview arg answers = Some ((cfg, True), rest)"
    and db: "db_type (cfg_database cfg) \<noteq> ''none''"
    by simp_all
  have docker: "deploy_docker (cfg_deployment cfg)"
    using a session_docker_flag [OF i] by simp
  have tbl: "db_type (cfg_database cfg) \<in> set databases"
    using session_database_type [OF i] db by simp
  have np: "db_type (cfg_database cfg) \<noteq> ''postgres''"
    using tbl postgres_not_a_database_type by auto
  have w: "\<forall>d d'. run_wizard g cwd arg answers d = Some (Completed d') \<longrightarrow>
           d' (join_dir (projectDir cwd cfg) ''docker-compose.yml'')
           = Some (Document (Plain (join_lines (compose_lines cfg))))"
    using session_container_files(1) [OF i _ docker] by simp
  show "image_lines (compose_lines cfg) = [''    image: '' @ db_type (cfg_database cfg) @ '':latest'']
     \<and> db_type (cfg_database cfg) \<in> set databases
     \<and> db_type (cfg_database cfg) \<noteq> ''postgres''
     \<and> set [''      - POSTGRES_DB='' @ project_name (cfg_project cfg), ''      - POSTGRES_USER=dev'',
            ''      - POSTGRES_PASSWORD=devpass'', ''      - '' @ dq @ ''5432:5432'' @ dq,
            ''      - db-data:/var/lib/postgresql/data'']
         \<subseteq> set (compose_lines cfg)
     \<and> (\<forall>d d'. run_wizard g cwd arg answers d = Some (Completed d') \<longrightarrow>
           d' (join_dir (projectDir cwd cfg) ''docker-compose.yml'')
           = Some (Document (Plain (join_lines (compose_lines cfg)))))"
    using image_lines_compose [OF db] tbl np postgres_lines_compose [OF db] w by blast
qed

text \<open>
  The witness: the Node.js session with PostgreSQL on Kubernetes. Its image line reads
  \<open>postgresql:latest\<close>.
\<close>

theorem compose_image_follows_database_type_witness:
  "interview (Some ''demo'') node_postgres_kubernetes
     = Some ((example_config ''nodejs'' ''postgresql'' ''kubernetes'', True), [])
   \<and> image_lines (compose_lines (example_config ''nodejs'' ''postgresql'' ''kubernetes''))
     = [''    image: postgresql:latest'']"
proof -
  have "image_lines (compose_lines (example_config ''nodejs'' ''postgresql'' ''kubernetes''))
     = [''    image: '' @ db_type (cfg_database (example_config ''nodejs'' ''postgresql'' ''kubernetes''))
          @ '':latest'']"
    using compose_image_follows_database_type [where arg = "Some ''demo''"
        and answers = node_postgres_kubernetes
        and cfg = "example_config ''nodejs'' ''postgresql'' ''kubernetes''" and rest = "[]"]
      example_sessions(2)
    by (simp add: example_config_def)
  then show ?thesis
    using example_sessions(2) by (simp add: example_config_def)
qed

text \<open>
  The claim as stated fails: in the confirmed Go session with MongoDB and Docker, the
  compose file that is written names the image \<open>mongodb:latest\<close>.
\<close>

theorem compose_image_counterexample:
  "interview (Some ''demo'') go_mongodb_docker
     = Some ((example_config ''go'' ''mongodb'' ''docker'', True), [])
   \<and> (\<exists>d'. run_wizard True workspace (Some ''demo'') go_mongodb_docker Map.empty
            = Some (Completed d')
        \<and> d' [''home'', ''dev'', ''demo'', ''docker-compose.yml'']
          = Some (Document (Plain (join_lines
              (compose_lines (example_config ''go'' ''mongodb'' ''docker''))))))
   \<and> image_lines (compose_lines (example_config ''go'' ''mongodb'' ''docker''))
     = [''    image: mongodb:latest'']"
proof (intro conjI)
  show "interview (Some ''demo'') go_mongodb_docker
     = Some ((example_config ''go'' ''mongodb'' ''docker'', True), [])"
    by (rule example_sessions(1))
  from example_completes [OF example_sessions(1), of True] obtain d' where
    r: "run_wizard True workspace (Some ''demo'') go_mongodb_docker Map.empty
        = Some (Completed d')" ..
  have "deploy_docker (cfg_deployment (example_config ''go'' ''mongodb'' ''docker''))"
    by (simp add: example_config_def)
  then have "d' [''home'', ''dev'', ''demo'', ''docker-compose.yml'']
          = Some (Document (Plain (join_lines
              (compose_lines (example_config ''go'' ''mongodb'' ''docker'')))))"
    using session_container_files(1) [OF example_sessions(1) r]
    by (simp add: example_places join_dir_names)
  with r show "\<exists>d'. run_wizard True workspace (Some ''demo'') go_mongodb_docker Map.empty
            = Some (Completed d')
        \<and> d' [''home'', ''dev'', ''demo'', ''docker-compose.yml'']
          = Some (Document (Plain (join_lines
              (compose_lines (example_config ''go'' ''mongodb'' ''docker'')))))"
    by blast
  show "image_lines (compose_lines (example_config ''go'' ''mongodb'' ''docker''))
     = [''    image: mongodb:latest'']"
    using image_lines_compose [of "example_config ''go'' ''mongodb'' ''docker''"]
    by (simp add: example_config_def)
qed

subsection \<open>Error recovery: what the scan emits\<close>

lemma each_in_turn_Inr:
  "each_in_turn f xs = Inr issues \<Longrightarrow> \<forall>x \<in> set xs. \<forall>found. f x = Inr found \<longrightarrow> (\<forall>i \<in> set found. P i)
   \<Longrightarrow> \<forall>i \<in> set issues. P i"
proof (induction xs arbitrary: issues)
  case Nil
  then show ?case by simp
next
  case (Cons x xs)
  from Cons.prems(1) obtain found others where f: "f x = Inr found"
    and o: "each_in_turn f xs = Inr others" and i: "issues = found @ others"
    by (auto split: sum.splits)
  have "\<forall>i \<in> set found. P i" using Cons.prems(2) f by simp
  moreover have "\<forall>i \<in> set others. P i" using Cons.IH [OF o] Cons.prems(2) by simp
  ultimately show ?case using i by auto
qed

lemma known_not_special:
  assumes "known_id i"
  shows "i \<noteq> ''missing_agent_files''" "i \<noteq> ''no_readme''" "i \<noteq> ''no_gitignore''"
    "i \<noteq> ''no_plans_directory''"
  using assms unfolding known_id_def git_ids_def test_ids_def by auto

lemma classified_known: "known_id (issue_id r) \<Longrightarrow> classified r"
  using known_not_special [of "issue_id r"] by (simp add: classified_def)

lemma known_git: "\<forall>i \<in> set (checkGitIssues rootDir git files). known_id (issue_id i)"
  by (auto simp: checkGitIssues_def known_id_def git_ids_def split: option.splits if_splits)

lemma classified_git: "\<forall>i \<in> set (checkGitIssues rootDir git files). classified i"
  using known_git classified_known by blast

lemma known_validate:
  "validate_agent rootDir files file = Inr found \<Longrightarrow> \<forall>i \<in> set found. known_id (issue_id i)"
  by (auto simp: validate_agent_def known_id_def
      split: option.splits node.splits if_splits)

lemma classified_validate:
  "validate_agent rootDir files file = Inr found \<Longrightarrow> \<forall>i \<in> set found. classified i"
  using known_validate classified_known by blast

lemma classified_missing:
  "classified \<lparr>issue_id = ''missing_agent_files'', issue_severity = ''high'',
           issue_title = t, issue_description = d,
           issue_location = None, issue_fixable = True,
           issue_fix = Some (FixMissingAgents missing)\<rparr>"
  by (simp add: classified_def)

lemma classified_agents:
  assumes "checkAgentFiles rootDir files = Inr found"
  shows "\<forall>i \<in> set found. classified i"
proof -
  from assms obtain invalid where
    inv: "each_in_turn (validate_agent rootDir files) agentFiles = Inr invalid"
    by (auto simp: checkAgentFiles_def Let_def split: sum.splits)
  have i: "\<forall>i \<in> set invalid. classified i"
    by (rule each_in_turn_Inr [OF inv]) (simp add: classified_validate)
  from assms inv have "set found \<subseteq> insert
      \<lparr>issue_id = ''missing_agent_files'', issue_severity = ''high'',
        issue_title = ''Missing agent files (''
             @ decimal (length (filter (\<lambda>file. \<not> existsSync files (agent_path file)) agentFiles))
             @ '')'',
        issue_description = ''Required agent files not found in .github/agents/: ''
             @ join_comma (filter (\<lambda>file. \<not> existsSync files (agent_path file)) agentFiles),
        issue_location = None, issue_fixable = True,
        issue_fix = Some (FixMissingAgents
             (filter (\<lambda>file. \<not> existsSync files (agent_path file)) agentFiles))\<rparr>
      (set invalid)"
    by (auto simp: checkAgentFiles_def Let_def split: if_splits)
  with i classified_missing show ?thesis by blast
qed

lemma known_tests: "checkTestSetup files = Inr found \<Longrightarrow> \<forall>i \<in> set found. known_id (issue_id i)"
  unfolding checkTestSetup_def
  by (auto simp: known_id_def test_ids_def split: sum.splits if_splits)

lemma classified_tests: "checkTestSetup files = Inr found \<Longrightarrow> \<forall>i \<in> set found. classified i"
  using known_tests classified_known by blast

lemma known_deps: "checkDependencies files = Inr found \<Longrightarrow> \<forall>i \<in> set found. known_id (issue_id i)"
  unfolding checkDependencies_def
  by (auto simp: known_id_def test_ids_def split: sum.splits if_splits)

lemma classified_deps: "checkDependencies files = Inr found \<Longrightarrow> \<forall>i \<in> set found. classified i"
  using known_deps classified_known by blast

lemma classified_special:
  "classified \<lparr>issue_id = ''no_readme'', issue_severity = ''low'', issue_title = t,
     issue_description = d, issue_location = l, issue_fixable = True,
     issue_fix = Some FixReadme\<rparr>"
  "classified \<lparr>issue_id = ''no_gitignore'', issue_severity = ''medium'', issue_title = t,
     issue_description = d, issue_location = l, issue_fixable = True,
     issue_fix = Some FixGitignore\<rparr>"
  "classified \<lparr>issue_id = ''no_plans_directory'', issue_severity = ''info'', issue_title = t,
     issue_description = d, issue_location = l, issue_fixable = True,
     issue_fix = Some FixPlansDirectory\<rparr>"
  by (simp_all add: classified_def)

lemma classified_structure:
  "\<forall>i \<in> set (checkProjectStructure files @ checkPlansDirectory files). classified i"
  by (auto simp: checkProjectStructure_def checkPlansDirectory_def classified_special
      split: if_splits)

lemma classified_scan:
  assumes "scanForIssues cat rootDir git files = Inr issues"
  shows "\<forall>i \<in> set issues. classified i"
  apply (rule each_in_turn_Inr [OF assms [unfolded scanForIssues_def]])
  using classified_git [of rootDir git files] classified_agents [of rootDir files]
    classified_tests [of files] classified_deps [of files] classified_structure [of files]
  by (simp split: if_splits)

text \<open>A scan that returns is the five parts one after the other.\<close>

lemma scan_parts:
  assumes "scanForIssues cat rootDir git files = Inr issues"
  shows "\<exists>a t d.
      (if cat = ''all'' \<or> cat = ''agents'' then checkAgentFiles rootDir files else Inr []) = Inr a
    \<and> (if cat = ''all'' \<or> cat = ''tests'' then checkTestSetup files else Inr []) = Inr t
    \<and> (if cat = ''all'' \<or> cat = ''deps'' then checkDependencies files else Inr []) = Inr d
    \<and> issues = (if cat = ''all'' \<or> cat = ''git'' then checkGitIssues rootDir git files else [])
        @ a @ t @ d
        @ (if cat = ''all'' then checkProjectStructure files @ checkPlansDirectory files else [])"
proof -
  define G where "G = (if cat = ''all'' \<or> cat = ''git'' then checkGitIssues rootDir git files else [])"
  define A where "A = (if cat = ''all'' \<or> cat = ''agents'' then checkAgentFiles rootDir files else Inr [])"
  define T where "T = (if cat = ''all'' \<or> cat = ''tests'' then checkTestSetup files else Inr [])"
  define D where "D = (if cat = ''all'' \<or> cat = ''deps'' then checkDependencies files else Inr [])"
  define S where "S = (if cat = ''all'' then checkProjectStructure files @ checkPlansDirectory files else [])"
  have g: "(if cat = ''all'' \<or> cat = ''git'' then Inr (checkGitIssues rootDir git files) else Inr [])
      = (Inr G :: js_error + issue list)"
    by (simp add: G_def)
  have s: "(if cat = ''all'' then Inr (checkProjectStructure files @ checkPlansDirectory files)
       else Inr []) = (Inr S :: js_error + issue list)"
    by (simp add: S_def)
  have "each_in_turn (\<lambda>check. check) [Inr G, A, T, D, Inr S] = Inr issues"
    using assms unfolding scanForIssues_def g s A_def T_def D_def .
  then obtain a t d where "A = Inr a" "T = Inr t" "D = Inr d" "issues = G @ a @ t @ d @ S"
    by (cases A; cases T; cases D) auto
  then show ?thesis
    unfolding G_def A_def T_def D_def S_def by blast
qed

lemma known_agents_invalid:
  assumes "each_in_turn (validate_agent rootDir files) names = Inr invalid"
  shows "\<forall>i \<in> set invalid. known_id (issue_id i)"
  by (rule each_in_turn_Inr [OF assms]) (simp add: known_validate)

text \<open>None of the four special identifiers is among records with known identifiers.\<close>

lemma known_ids_of:
  assumes "\<forall>i \<in> set xs. known_id (issue_id i)"
    and "\<not> known_id s"
  shows "s \<notin> issue_id ` set xs"
proof
  assume "s \<in> issue_id ` set xs"
  then obtain i where "i \<in> set xs" "issue_id i = s" by auto
  with assms(1) have "known_id s" by auto
  with assms(2) show False by simp
qed

lemma special_not_known:
  "\<not> known_id ''missing_agent_files''" "\<not> known_id ''no_readme''"
  "\<not> known_id ''no_gitignore''" "\<not> known_id ''no_plans_directory''"
  by (simp_all add: known_id_def git_ids_def test_ids_def)

lemma agents_emits_missing:
  assumes "checkAgentFiles rootDir files = Inr a"
  shows "(''missing_agent_files'' \<in> issue_id ` set a)
    = (\<exists>file \<in> set agentFiles. \<not> existsSync files (agent_path file))"
proof -
  define missing where "missing = filter (\<lambda>file. \<not> existsSync files (agent_path file)) agentFiles"
  from assms obtain invalid where
    inv: "each_in_turn (validate_agent rootDir files) agentFiles = Inr invalid"
    by (auto simp: checkAgentFiles_def Let_def split: sum.splits)
  have k: "''missing_agent_files'' \<notin> issue_id ` set invalid"
    by (rule known_ids_of [OF known_agents_invalid [OF inv] special_not_known(1)])
  have m: "(missing \<noteq> []) = (\<exists>file \<in> set agentFiles. \<not> existsSync files (agent_path file))"
    by (simp add: missing_def filter_empty_conv)
  have a: "a = (if length missing > 0 then
                  [\<lparr>issue_id = ''missing_agent_files'', issue_severity = ''high'',
                    issue_title = ''Missing agent files ('' @ decimal (length missing) @ '')'',
                    issue_description =
                      ''Required agent files not found in .github/agents/: '' @ join_comma missing,
                    issue_location = None, issue_fixable = True,
                    issue_fix = Some (FixMissingAgents missing)\<rparr>]
                else []) @ invalid"
    using assms inv by (auto simp: checkAgentFiles_def Let_def missing_def)
  show ?thesis
  proof (cases "missing = []")
    case True
    then have "a = invalid" using a by simp
    with k m True show ?thesis by simp
  next
    case False
    then have "''missing_agent_files'' \<in> issue_id ` set a"
      unfolding a by simp
    with m False show ?thesis by simp
  qed
qed

lemma structure_ids:
  "issue_id ` set (checkProjectStructure files @ checkPlansDirectory files)
   = (if existsSync files ''README.md'' then {} else {''no_readme''})
     \<union> (if existsSync files ''.gitignore'' then {} else {''no_gitignore''})
     \<union> (if existsSync files ''plans'' then {} else {''no_plans_directory''})"
  by (simp add: checkProjectStructure_def checkPlansDirectory_def)

lemma classifiedD:
  assumes "classified i"
  shows "issue_id i = ''missing_agent_files'' \<longrightarrow>
      issue_severity i = ''high'' \<and> issue_fixable i
      \<and> (\<exists>missing. issue_fix i = Some (FixMissingAgents missing))"
    and "issue_id i = ''no_readme'' \<longrightarrow>
      issue_severity i = ''low'' \<and> issue_fixable i \<and> issue_fix i = Some FixReadme"
proof -
  show "issue_id i = ''missing_agent_files'' \<longrightarrow>
      issue_severity i = ''high'' \<and> issue_fixable i
      \<and> (\<exists>missing. issue_fix i = Some (FixMissingAgents missing))"
  proof
    assume m: "issue_id i = ''missing_agent_files''"
    with assms have "issue_severity i = ''high'' \<and> issue_fixable i
        \<and> (case issue_fix i of Some (FixMissingAgents missing) \<Rightarrow> True | _ \<Rightarrow> False)"
      by (simp add: classified_def)
    then show "issue_severity i = ''high'' \<and> issue_fixable i
      \<and> (\<exists>missing. issue_fix i = Some (FixMissingAgents missing))"
      by (cases "issue_fix i"; simp split: remedy.splits)
  qed
  show "issue_id i = ''no_readme'' \<longrightarrow>
      issue_severity i = ''low'' \<and> issue_fixable i \<and> issue_fix i = Some FixReadme"
  proof
    assume m: "issue_id i = ''no_readme''"
    with assms show "issue_severity i = ''low'' \<and> issue_fixable i \<and> issue_fix i = Some FixReadme"
      by (simp add: classified_def)
  qed
qed

lemma scan_known_parts:
  assumes "(if c then checkTestSetup files else Inr []) = Inr t"
    and "(if c' then checkDependencies files else Inr []) = Inr d"
  shows "\<forall>i \<in> set (checkGitIssues rootDir git files @ t @ d). known_id (issue_id i)"
proof -
  have "\<forall>i \<in> set t. known_id (issue_id i)"
    using assms(1) known_tests [of files t] by (cases c) simp_all
  moreover have "\<forall>i \<in> set d. known_id (issue_id i)"
    using assms(2) known_deps [of files d] by (cases c') simp_all
  ultimately show ?thesis using known_git [of rootDir git files] by auto
qed

lemma agents_ids:
  assumes "checkAgentFiles rootDir files = Inr a"
  shows "\<forall>i \<in> set a. issue_id i = ''missing_agent_files'' \<or> known_id (issue_id i)"
proof -
  from assms obtain invalid where
    inv: "each_in_turn (validate_agent rootDir files) agentFiles = Inr invalid"
    by (auto simp: checkAgentFiles_def Let_def split: sum.splits)
  from assms inv have "\<forall>i \<in> set a. issue_id i = ''missing_agent_files'' \<or> i \<in> set invalid"
    by (auto simp: checkAgentFiles_def Let_def split: if_splits)
  with known_agents_invalid [OF inv] show ?thesis by auto
qed

text \<open>The identifiers a returning scan emits, but for the known ones.\<close>

lemma scan_special_ids:
  assumes s: "scanForIssues cat rootDir git files = Inr issues" and k: "\<not> known_id x"
  shows "(x \<in> issue_id ` set issues)
    = (\<exists>a. (if cat = ''all'' \<or> cat = ''agents'' then checkAgentFiles rootDir files else Inr []) = Inr a
          \<and> (x \<in> issue_id ` set a
              \<or> (cat = ''all''
                 \<and> x \<in> issue_id ` set (checkProjectStructure files @ checkPlansDirectory files))))"
proof -
  from scan_parts [OF s] obtain a t d where
    a: "(if cat = ''all'' \<or> cat = ''agents'' then checkAgentFiles rootDir files else Inr []) = Inr a"
    and t: "(if cat = ''all'' \<or> cat = ''tests'' then checkTestSetup files else Inr []) = Inr t"
    and d: "(if cat = ''all'' \<or> cat = ''deps'' then checkDependencies files else Inr []) = Inr d"
    and i: "issues = (if cat = ''all'' \<or> cat = ''git'' then checkGitIssues rootDir git files else [])
        @ a @ t @ d
        @ (if cat = ''all'' then checkProjectStructure files @ checkPlansDirectory files else [])"
    by blast
  have kn: "x \<notin> issue_id ` set (checkGitIssues rootDir git files @ t @ d)"
    by (rule known_ids_of [OF scan_known_parts [OF t d] k])
  have "(x \<in> issue_id ` set issues)
    = (x \<in> issue_id ` set a
       \<or> (cat = ''all''
          \<and> x \<in> issue_id ` set (checkProjectStructure files @ checkPlansDirectory files)))"
    using kn unfolding i by (auto simp: image_Un split: if_splits)
  with a show ?thesis by auto
qed

text \<open>
  Claim C2, as the code has it. Whatever the project and the category, a scan that
  returns gives every \<open>missing_agent_files\<close> record severity \<open>high\<close> and the fixable
  flag \<open>true\<close>, with \<open>fixMissingAgents\<close> as its remediation, and every \<open>no_readme\<close>
  record severity \<open>low\<close> and the fixable flag \<open>true\<close>, with \<open>fixReadme\<close>. The first is
  emitted exactly when the category is \<open>all\<close> or \<open>agents\<close> and one of the five agent
  files is absent, the second exactly when the category is \<open>all\<close> and \<open>README.md\<close> is
  absent. \<open>fixMissingAgents\<close> changes no file and does not throw.
\<close>

theorem scan_classifies_issues:
  "(scanForIssues cat rootDir git files = Inr issues \<longrightarrow>
      (\<forall>i \<in> set issues.
         (issue_id i = ''missing_agent_files'' \<longrightarrow>
            issue_severity i = ''high'' \<and> issue_fixable i
            \<and> (\<exists>missing. issue_fix i = Some (FixMissingAgents missing)))
         \<and> (issue_id i = ''no_readme'' \<longrightarrow>
            issue_severity i = ''low'' \<and> issue_fixable i \<and> issue_fix i = Some FixReadme))
      \<and> ((''missing_agent_files'' \<in> issue_id ` set issues)
          = ((cat = ''all'' \<or> cat = ''agents'')
             \<and> (\<exists>file \<in> set agentFiles. \<not> existsSync files (agent_path file))))
      \<and> ((''no_readme'' \<in> issue_id ` set issues)
          = (cat = ''all'' \<and> \<not> existsSync files ''README.md'')))
   \<and> fixMissingAgents missing files answers = Some (files, answers, None)"
proof (intro conjI impI)
  show "fixMissingAgents missing files answers = Some (files, answers, None)"
    by (simp add: fixMissingAgents_def)
next
  assume s: "scanForIssues cat rootDir git files = Inr issues"
  show "\<forall>i \<in> set issues.
         (issue_id i = ''missing_agent_files'' \<longrightarrow>
            issue_severity i = ''high'' \<and> issue_fixable i
            \<and> (\<exists>missing. issue_fix i = Some (FixMissingAgents missing)))
         \<and> (issue_id i = ''no_readme'' \<longrightarrow>
            issue_severity i = ''low'' \<and> issue_fixable i \<and> issue_fix i = Some FixReadme)"
    using classified_scan [OF s] classifiedD by blast
  from scan_parts [OF s] obtain a where
    a: "(if cat = ''all'' \<or> cat = ''agents'' then checkAgentFiles rootDir files else Inr []) = Inr a"
    by blast
  have sm: "''missing_agent_files'' \<notin> issue_id ` set (checkProjectStructure files @ checkPlansDirectory files)"
    unfolding structure_ids by simp
  show "(''missing_agent_files'' \<in> issue_id ` set issues)
          = ((cat = ''all'' \<or> cat = ''agents'')
             \<and> (\<exists>file \<in> set agentFiles. \<not> existsSync files (agent_path file)))"
  proof (cases "cat = ''all'' \<or> cat = ''agents''")
    case True
    with a have "checkAgentFiles rootDir files = Inr a" by simp
    from agents_emits_missing [OF this] show ?thesis
      unfolding scan_special_ids [OF s special_not_known(1)] using a sm True by auto
  next
    case False
    with a have "a = []" by simp
    then show ?thesis
      unfolding scan_special_ids [OF s special_not_known(1)] using a sm False by auto
  qed
  have ar: "''no_readme'' \<notin> issue_id ` set a"
  proof (cases "cat = ''all'' \<or> cat = ''agents''")
    case True
    with a have c: "checkAgentFiles rootDir files = Inr a" by simp
    show ?thesis
    proof
      assume "''no_readme'' \<in> issue_id ` set a"
      then obtain i where i: "i \<in> set a" "issue_id i = ''no_readme''" by auto
      with agents_ids [OF c] have "known_id ''no_readme''" by auto
      with special_not_known(2) show False by simp
    qed
  next
    case False
    with a show ?thesis by simp
  qed
  show "(''no_readme'' \<in> issue_id ` set issues)
          = (cat = ''all'' \<and> \<not> existsSync files ''README.md'')"
    unfolding scan_special_ids [OF s special_not_known(2)] structure_ids
    using a ar by auto
qed

text \<open>
  The witness: a scan of the bare example project under category \<open>all\<close> returns the three
  structure records, the first of them \<open>no_readme\<close> with severity \<open>low\<close> and fixable.
\<close>

theorem scan_classifies_issues_witness:
  "map (\<lambda>i. (issue_id i, issue_severity i, issue_fixable i))
     (case scanForIssues ''all'' ''/work/demo'' git_ready bare_project of
        Inl e \<Rightarrow> [] | Inr issues \<Rightarrow> issues)
   = [(''no_readme'', ''low'', True), (''no_gitignore'', ''medium'', True),
      (''no_plans_directory'', ''info'', True)]"
proof -
  have s: "scanForIssues ''all'' ''/work/demo'' git_ready bare_project
      = Inr (checkProjectStructure bare_project @ checkPlansDirectory bare_project)"
    by code_simp
  have "\<forall>i \<in> set (checkProjectStructure bare_project @ checkPlansDirectory bare_project).
      issue_id i = ''no_readme'' \<longrightarrow> issue_severity i = ''low'' \<and> issue_fixable i"
    using scan_classifies_issues [of "''all''" "''/work/demo''" git_ready bare_project
        "checkProjectStructure bare_project @ checkPlansDirectory bare_project"] s
    by blast
  then show ?thesis
    unfolding s by (simp add: checkProjectStructure_def checkPlansDirectory_def existsSync_def
        bare_project_def)
qed

text \<open>
  The claim as stated fails: in a directory without the agent files, the scan of
  category \<open>agents\<close> emits \<open>missing_agent_files\<close> with the fixable flag \<open>true\<close>.
\<close>

theorem missing_agent_files_counterexample:
  "map (\<lambda>i. (issue_id i, issue_severity i, issue_fixable i, issue_fix i))
     (case scanForIssues ''agents'' ''/work/demo'' git_ready Map.empty of
        Inl e \<Rightarrow> [] | Inr issues \<Rightarrow> issues)
   = [(''missing_agent_files'', ''high'', True, Some (FixMissingAgents agentFiles))]"
  by code_simp

end
